theory Spec2Isabelle
  imports Complex_Main "HOL-Library.Sublist"
begin

section \<open>Conventions of the embedding\<close>

text \<open>
  The TypeScript sources of the diagram engine are embedded as HOL functions.
  \<^item> A JavaScript \<open>number\<close> is a \<open>real\<close>: arithmetic is exact, IEEE-754 rounding,
    \<open>NaN\<close> and the infinities are not modelled. The RNG state is a \<open>nat\<close>: it only
    ever holds integers below \<open>2^31\<close>, and its products stay below \<open>2^46\<close>, where
    double arithmetic is exact.
  \<^item> A JavaScript string is a \<open>string\<close> (a list of 8-bit characters standing for
    its code units).
  \<^item> The module-level variable \<open>seed\<close> of \<open>svg-renderer.ts\<close> is threaded through
    every function that reads or writes it: such a function takes the seed and
    returns its result paired with the new seed.
  \<^item> A thrown exception is the \<open>Inl\<close> branch of a sum.
\<close>

section \<open>Seeded pseudo-random numbers and jitter (svg-renderer.ts)\<close>

text \<open>\<open>let seed = 42; function resetSeed() { seed = 42; }\<close>\<close>

definition initialSeed :: nat where
  "initialSeed = 42"

definition resetSeed :: "nat \<Rightarrow> nat" where
  "resetSeed seed = 42"

text \<open>\<open>seed = (seed * 16807 + 0) % 2147483647; return (seed - 1) / 2147483646;\<close>\<close>

definition pseudoRandom :: "nat \<Rightarrow> real \<times> nat" where
  "pseudoRandom seed =
     (let seed' = (seed * 16807 + 0) mod 2147483647
      in ((real seed' - 1) / 2147483646, seed'))"

text \<open>The seed after \<open>n\<close> successive calls of \<open>pseudoRandom\<close>.\<close>

fun seedAfter :: "nat \<Rightarrow> nat \<Rightarrow> nat" where
  "seedAfter 0 seed = seed"
| "seedAfter (Suc n) seed = seedAfter n (snd (pseudoRandom seed))"

text \<open>\<open>if (amount === 0) return value; return value + (pseudoRandom() - 0.5) * 2 * amount;\<close>\<close>

definition jitter :: "real \<Rightarrow> real \<Rightarrow> nat \<Rightarrow> real \<times> nat" where
  "jitter val amount seed =
     (if amount = 0 then (val, seed)
      else (let (r, seed') = pseudoRandom seed
            in (val + (r - 0.5) * 2 * amount, seed')))"

type_synonym point = "real \<times> real"

text \<open>\<open>return { x: jitter(x, amount), y: jitter(y, amount) };\<close> (x is evaluated first).\<close>

definition jitterPoint :: "real \<Rightarrow> real \<Rightarrow> real \<Rightarrow> nat \<Rightarrow> point \<times> nat" where
  "jitterPoint x y amount seed =
     (let (jx, seed1) = jitter x amount seed;
          (jy, seed2) = jitter y amount seed1
      in ((jx, jy), seed2))"

section \<open>XML escaping (svg-renderer.ts)\<close>

text \<open>\<open>str.replace(/c/g, r)\<close> for a one-character pattern \<open>c\<close>.\<close>

definition replaceAllChar :: "char \<Rightarrow> string \<Rightarrow> string \<Rightarrow> string" where
  "replaceAllChar c r str = concat (map (\<lambda>x. if x = c then r else [x]) str)"

definition escapeXml :: "string \<Rightarrow> string" where
  \<open>escapeXml str =
     replaceAllChar (CHR 0x27) ''&apos;''
       (replaceAllChar (CHR ''"'') ''&quot;''
         (replaceAllChar (CHR ''>'') ''&gt;''
           (replaceAllChar (CHR ''<'') ''&lt;''
             (replaceAllChar (CHR ''&'') ''&amp;'' str))))\<close>

text \<open>The entity of one character, as the specification words it
  (\<open>&\<close>, \<open><\<close>, \<open>>\<close>, \<open>"\<close> and \<open>'\<close> are replaced, every other character is kept).\<close>

definition xmlEntity :: "char \<Rightarrow> string" where
  \<open>xmlEntity c =
     (if c = CHR ''&'' then ''&amp;''
      else if c = CHR ''<'' then ''&lt;''
      else if c = CHR ''>'' then ''&gt;''
      else if c = CHR ''"'' then ''&quot;''
      else if c = CHR 0x27 then ''&apos;''
      else [c])\<close>

section \<open>Schema types (schema/types.ts)\<close>

datatype ShapeType = Rectangle | Ellipse | Diamond | Cylinder | Cloud | Hexagon | Parallelogram

datatype EdgeStyle = Solid | Dashed | Dotted

datatype ArrowDirection = Forward | Backward | Both | NoArrow

datatype Theme = HandDrawn | Clean | Minimal

datatype FlowDirection = TB | LR | BT | RL

datatype OutputFormat = Svg | Png

record OutputOptions =
  oo_format :: OutputFormat
  oo_path :: "string option"

record NodeDef =
  nd_id :: string
  nd_label :: string
  nd_shape :: ShapeType
  nd_color :: "string option"
  nd_textColor :: "string option"
  nd_width :: "real option"
  nd_height :: "real option"

record EdgeDef =
  ed_from :: string
  ed_to :: string
  ed_label :: "string option"
  ed_style :: EdgeStyle
  ed_direction :: ArrowDirection
  ed_color :: "string option"

record GroupDef =
  gd_id :: string
  gd_label :: "string option"
  gd_contains :: "string list"
  gd_color :: "string option"

record ParticipantDef =
  pd_id :: string
  pd_label :: string
  pd_color :: "string option"

record MessageDef =
  md_from :: string
  md_to :: string
  md_label :: string
  md_style :: EdgeStyle
  md_color :: "string option"

record FlowDiagramDef =
  fd_title :: "string option"
  fd_nodes :: "NodeDef list"
  fd_edges :: "EdgeDef list"
  fd_groups :: "GroupDef list"
  fd_style :: Theme
  fd_direction :: FlowDirection
  fd_output :: "OutputOptions option"

record SequenceDiagramDef =
  sd_title :: "string option"
  sd_participants :: "ParticipantDef list"
  sd_messages :: "MessageDef list"
  sd_style :: Theme
  sd_output :: "OutputOptions option"

datatype DiagramDef = Flow FlowDiagramDef | Sequence SequenceDiagramDef

subsection \<open>Layout results\<close>

record LayoutNode =
  ln_id :: string
  ln_x :: real
  ln_y :: real
  ln_width :: real
  ln_height :: real
  ln_label :: string
  ln_shape :: ShapeType
  ln_color :: "string option"
  ln_textColor :: "string option"

record LayoutEdge =
  le_from :: string
  le_to :: string
  le_label :: "string option"
  le_style :: EdgeStyle
  le_direction :: ArrowDirection
  le_color :: "string option"
  le_points :: "point list"

record LayoutGroup =
  lg_id :: string
  lg_label :: "string option"
  lg_x :: real
  lg_y :: real
  lg_width :: real
  lg_height :: real
  lg_color :: "string option"

record LayoutResult =
  lr_width :: real
  lr_height :: real
  lr_nodes :: "LayoutNode list"
  lr_edges :: "LayoutEdge list"
  lr_groups :: "LayoutGroup list"

record SequenceParticipant =
  sp_id :: string
  sp_label :: string
  sp_x :: real
  sp_topY :: real
  sp_bottomY :: real
  sp_width :: real
  sp_color :: "string option"

record SequenceMessage =
  sm_from :: string
  sm_to :: string
  sm_label :: string
  sm_y :: real
  sm_style :: EdgeStyle
  sm_color :: "string option"
  sm_isSelfMessage :: bool

record SequenceLayoutResult =
  sl_width :: real
  sl_height :: real
  sl_participants :: "SequenceParticipant list"
  sl_messages :: "SequenceMessage list"

text \<open>JavaScript truthiness of an optional string (\<open>title ? a : b\<close>, \<open>if (label)\<close>):
  \<open>undefined\<close> and the empty string are falsy.\<close>

definition truthy :: "string option \<Rightarrow> bool" where
  "truthy t = (case t of None \<Rightarrow> False | Some s \<Rightarrow> s \<noteq> [])"

section \<open>Sequence layout (layout/sequence-layout.ts)\<close>

definition PADDING :: real where "PADDING = 40"
definition PARTICIPANT_BOX_HEIGHT :: real where "PARTICIPANT_BOX_HEIGHT = 40"
definition PARTICIPANT_GAP :: real where "PARTICIPANT_GAP = 60"
definition PARTICIPANT_MIN_WIDTH :: real where "PARTICIPANT_MIN_WIDTH = 100"
definition PARTICIPANT_CHAR_WIDTH :: real where "PARTICIPANT_CHAR_WIDTH = 10"
definition PARTICIPANT_LABEL_PADDING :: real where "PARTICIPANT_LABEL_PADDING = 40"
definition TITLE_HEIGHT :: real where "TITLE_HEIGHT = 40"
definition MESSAGE_SPACING :: real where "MESSAGE_SPACING = 50"
definition SELF_MESSAGE_HEIGHT_OFFSET :: real where "SELF_MESSAGE_HEIGHT_OFFSET = 30"
definition LIFELINE_BOTTOM_PADDING :: real where "LIFELINE_BOTTOM_PADDING = 40"

definition computeParticipantWidth :: "string \<Rightarrow> real" where
  "computeParticipantWidth label =
     max PARTICIPANT_MIN_WIDTH
         (real (length label) * PARTICIPANT_CHAR_WIDTH + PARTICIPANT_LABEL_PADDING)"

text \<open>\<open>const startY = title ? PADDING + TITLE_HEIGHT : PADDING;\<close>\<close>

definition sequenceStartY :: "string option \<Rightarrow> real" where
  "sequenceStartY title = (if truthy title then PADDING + TITLE_HEIGHT else PADDING)"

text \<open>The loop over the participants: \<open>centerXs.push(cursorX + halfW);
  cursorX += widths[i] + PARTICIPANT_GAP;\<close>\<close>

fun centerXsLoop :: "real list \<Rightarrow> real \<Rightarrow> real list" where
  "centerXsLoop [] cursorX = []"
| "centerXsLoop (w # ws) cursorX =
     (cursorX + w / 2) # centerXsLoop ws (cursorX + (w + PARTICIPANT_GAP))"

text \<open>The loop over the messages: each message is pushed with the current
  \<open>messageY\<close>, which then grows by \<open>MESSAGE_SPACING\<close>, or by
  \<open>MESSAGE_SPACING + SELF_MESSAGE_HEIGHT_OFFSET\<close> after a self-message.\<close>

fun layoutMessagesLoop :: "MessageDef list \<Rightarrow> real \<Rightarrow> SequenceMessage list" where
  "layoutMessagesLoop [] messageY = []"
| "layoutMessagesLoop (msg # msgs) messageY =
     (let isSelfMessage = (md_from msg = md_to msg)
      in \<lparr> sm_from = md_from msg, sm_to = md_to msg, sm_label = md_label msg,
            sm_y = messageY, sm_style = md_style msg, sm_color = md_color msg,
            sm_isSelfMessage = isSelfMessage \<rparr>
         # layoutMessagesLoop msgs
             (messageY + (if isSelfMessage
                          then MESSAGE_SPACING + SELF_MESSAGE_HEIGHT_OFFSET
                          else MESSAGE_SPACING)))"

text \<open>The map \<open>participantMap\<close> the source builds from participant ids to indices is
  never read, so it does not appear here. \<open>layoutMessages[layoutMessages.length - 1]\<close>
  is \<open>undefined\<close> for an empty list; the source tests for it before reading.\<close>

definition layoutSequenceDiagram :: "SequenceDiagramDef \<Rightarrow> SequenceLayoutResult" where
  "layoutSequenceDiagram diagram =
     (let participantDefs = sd_participants diagram;
          messageDefs = sd_messages diagram;
          startY = sequenceStartY (sd_title diagram);
          widths = map (\<lambda>p. computeParticipantWidth (pd_label p)) participantDefs;
          centerXs = centerXsLoop widths PADDING;
          messageTopY = startY + PARTICIPANT_BOX_HEIGHT + MESSAGE_SPACING;
          layoutMessages = layoutMessagesLoop messageDefs messageTopY;
          lastMessageY = (if length layoutMessages > 0 then sm_y (last layoutMessages)
                          else startY + PARTICIPANT_BOX_HEIGHT);
          lastMessageBottomY =
            (if layoutMessages \<noteq> [] \<and> sm_isSelfMessage (last layoutMessages)
             then sm_y (last layoutMessages) + SELF_MESSAGE_HEIGHT_OFFSET
             else lastMessageY);
          lifelineBottomY = lastMessageBottomY + LIFELINE_BOTTOM_PADDING;
          layoutParticipants =
            map (\<lambda>(p, cx, w).
                  \<lparr> sp_id = pd_id p, sp_label = pd_label p, sp_x = cx, sp_topY = startY,
                    sp_bottomY = lifelineBottomY, sp_width = w, sp_color = pd_color p \<rparr>)
                (zip participantDefs (zip centerXs widths));
          totalWidth = (if length participantDefs > 0
                        then last centerXs + last widths / 2 + PADDING
                        else PADDING * 2);
          totalHeight = lifelineBottomY + PADDING
      in \<lparr> sl_width = totalWidth, sl_height = totalHeight,
            sl_participants = layoutParticipants, sl_messages = layoutMessages \<rparr>)"

section \<open>Schema validation (schema/types.ts, schema/index.ts)\<close>

text \<open>
  The raw input of \<open>parseDiagram\<close> is any JavaScript value. An object is its list of
  own properties, read with \<open>map_of\<close>; a property that is absent reads as
  \<open>undefined\<close>.
\<close>

datatype raw =
    RUndefined | RNull | RBool bool | RNum real | RStr string
  | RArr "raw list" | RObj "(string \<times> raw) list"

datatype error = SchemaError | LayoutError | PngError

definition bindE :: "error + 'a \<Rightarrow> ('a \<Rightarrow> error + 'b) \<Rightarrow> error + 'b" where
  "bindE m f = (case m of Inl e \<Rightarrow> Inl e | Inr x \<Rightarrow> f x)"

fun mapE :: "('a \<Rightarrow> error + 'b) \<Rightarrow> 'a list \<Rightarrow> error + 'b list" where
  "mapE f [] = Inr []"
| "mapE f (x # xs) = bindE (f x) (\<lambda>y. bindE (mapE f xs) (\<lambda>ys. Inr (y # ys)))"

definition getField :: "(string \<times> raw) list \<Rightarrow> string \<Rightarrow> raw" where
  "getField props k = (case map_of props k of None \<Rightarrow> RUndefined | Some v \<Rightarrow> v)"

text \<open>
  The combinators of the validation library the schemas are written with, as the
  library documents them: \<open>z.string()\<close> and \<open>z.number()\<close> accept exactly the values of
  that type, \<open>.optional()\<close> lets \<open>undefined\<close> through, \<open>.default(d)\<close> replaces
  \<open>undefined\<close> by \<open>d\<close>, \<open>z.array(s)\<close> accepts an array all of whose elements \<open>s\<close>
  accepts (of any length: no schema of this repository adds \<open>.min\<close> or
  \<open>.nonempty\<close>), \<open>z.object\<close> accepts an object (not \<open>null\<close>, not an array),
  validates the listed keys and drops the others. A failed validation throws,
  which is the value \<open>Inl SchemaError\<close>.
\<close>

fun zString :: "raw \<Rightarrow> error + string" where
  "zString (RStr s) = Inr s"
| "zString _ = Inl SchemaError"

fun zNumber :: "raw \<Rightarrow> error + real" where
  "zNumber (RNum n) = Inr n"
| "zNumber _ = Inl SchemaError"

fun zOptional :: "(raw \<Rightarrow> error + 'a) \<Rightarrow> raw \<Rightarrow> error + 'a option" where
  "zOptional s RUndefined = Inr None"
| "zOptional s v = bindE (s v) (\<lambda>x. Inr (Some x))"

fun zDefault :: "(raw \<Rightarrow> error + 'a) \<Rightarrow> 'a \<Rightarrow> raw \<Rightarrow> error + 'a" where
  "zDefault s d RUndefined = Inr d"
| "zDefault s d v = s v"

fun zArray :: "(raw \<Rightarrow> error + 'a) \<Rightarrow> raw \<Rightarrow> error + 'a list" where
  "zArray s (RArr vs) = mapE s vs"
| "zArray s _ = Inl SchemaError"

fun zObject :: "((string \<times> raw) list \<Rightarrow> error + 'a) \<Rightarrow> raw \<Rightarrow> error + 'a" where
  "zObject s (RObj props) = s props"
| "zObject s _ = Inl SchemaError"

fun zEnum :: "(string \<times> 'a) list \<Rightarrow> raw \<Rightarrow> error + 'a" where
  "zEnum options (RStr s) =
     (case map_of options s of None \<Rightarrow> Inl SchemaError | Some v \<Rightarrow> Inr v)"
| "zEnum options _ = Inl SchemaError"

definition ShapeTypeSchema :: "raw \<Rightarrow> error + ShapeType" where
  "ShapeTypeSchema =
     zEnum [(''rectangle'', Rectangle), (''ellipse'', Ellipse), (''diamond'', Diamond),
            (''cylinder'', Cylinder), (''cloud'', Cloud), (''hexagon'', Hexagon),
            (''parallelogram'', Parallelogram)]"

definition EdgeStyleSchema :: "raw \<Rightarrow> error + EdgeStyle" where
  "EdgeStyleSchema = zEnum [(''solid'', Solid), (''dashed'', Dashed), (''dotted'', Dotted)]"

definition ArrowDirectionSchema :: "raw \<Rightarrow> error + ArrowDirection" where
  "ArrowDirectionSchema =
     zEnum [(''forward'', Forward), (''backward'', Backward), (''both'', Both),
            (''none'', NoArrow)]"

definition ThemeSchema :: "raw \<Rightarrow> error + Theme" where
  "ThemeSchema =
     zEnum [(''hand-drawn'', HandDrawn), (''clean'', Clean), (''minimal'', Minimal)]"

definition FlowDirectionSchema :: "raw \<Rightarrow> error + FlowDirection" where
  "FlowDirectionSchema = zEnum [(''TB'', TB), (''LR'', LR), (''BT'', BT), (''RL'', RL)]"

definition OutputFormatSchema :: "raw \<Rightarrow> error + OutputFormat" where
  "OutputFormatSchema = zEnum [(''svg'', Svg), (''png'', Png)]"

definition NodeSchema :: "raw \<Rightarrow> error + NodeDef" where
  "NodeSchema = zObject (\<lambda>fs.
     bindE (zString (getField fs ''id'')) (\<lambda>id'.
     bindE (zString (getField fs ''label'')) (\<lambda>label.
     bindE (zDefault ShapeTypeSchema Rectangle (getField fs ''shape'')) (\<lambda>shape.
     bindE (zOptional zString (getField fs ''color'')) (\<lambda>color.
     bindE (zOptional zString (getField fs ''textColor'')) (\<lambda>textColor.
     bindE (zOptional zNumber (getField fs ''width'')) (\<lambda>width.
     bindE (zOptional zNumber (getField fs ''height'')) (\<lambda>height.
     Inr \<lparr> nd_id = id', nd_label = label, nd_shape = shape, nd_color = color,
           nd_textColor = textColor, nd_width = width, nd_height = height \<rparr>))))))))"

definition EdgeSchema :: "raw \<Rightarrow> error + EdgeDef" where
  "EdgeSchema = zObject (\<lambda>fs.
     bindE (zString (getField fs ''from'')) (\<lambda>from'.
     bindE (zString (getField fs ''to'')) (\<lambda>to'.
     bindE (zOptional zString (getField fs ''label'')) (\<lambda>label.
     bindE (zDefault EdgeStyleSchema Solid (getField fs ''style'')) (\<lambda>style.
     bindE (zDefault ArrowDirectionSchema Forward (getField fs ''direction'')) (\<lambda>direction.
     bindE (zOptional zString (getField fs ''color'')) (\<lambda>color.
     Inr \<lparr> ed_from = from', ed_to = to', ed_label = label, ed_style = style,
           ed_direction = direction, ed_color = color \<rparr>)))))))"

definition GroupSchema :: "raw \<Rightarrow> error + GroupDef" where
  "GroupSchema = zObject (\<lambda>fs.
     bindE (zString (getField fs ''id'')) (\<lambda>id'.
     bindE (zOptional zString (getField fs ''label'')) (\<lambda>label.
     bindE (zArray zString (getField fs ''contains'')) (\<lambda>contains.
     bindE (zOptional zString (getField fs ''color'')) (\<lambda>color.
     Inr \<lparr> gd_id = id', gd_label = label, gd_contains = contains, gd_color = color \<rparr>)))))"

definition ParticipantSchema :: "raw \<Rightarrow> error + ParticipantDef" where
  "ParticipantSchema = zObject (\<lambda>fs.
     bindE (zString (getField fs ''id'')) (\<lambda>id'.
     bindE (zString (getField fs ''label'')) (\<lambda>label.
     bindE (zOptional zString (getField fs ''color'')) (\<lambda>color.
     Inr \<lparr> pd_id = id', pd_label = label, pd_color = color \<rparr>))))"

definition MessageSchema :: "raw \<Rightarrow> error + MessageDef" where
  "MessageSchema = zObject (\<lambda>fs.
     bindE (zString (getField fs ''from'')) (\<lambda>from'.
     bindE (zString (getField fs ''to'')) (\<lambda>to'.
     bindE (zString (getField fs ''label'')) (\<lambda>label.
     bindE (zDefault EdgeStyleSchema Solid (getField fs ''style'')) (\<lambda>style.
     bindE (zOptional zString (getField fs ''color'')) (\<lambda>color.
     Inr \<lparr> md_from = from', md_to = to', md_label = label, md_style = style,
           md_color = color \<rparr>))))))"

definition OutputOptionsSchema :: "raw \<Rightarrow> error + OutputOptions" where
  "OutputOptionsSchema = zObject (\<lambda>fs.
     bindE (zDefault OutputFormatSchema Svg (getField fs ''format'')) (\<lambda>format.
     bindE (zOptional zString (getField fs ''path'')) (\<lambda>path.
     Inr \<lparr> oo_format = format, oo_path = path \<rparr>)))"

text \<open>The \<open>type\<close> key of both diagram schemas is a literal; the discriminated union
  below reads it before either schema runs.\<close>

definition FlowDiagramSchema :: "raw \<Rightarrow> error + FlowDiagramDef" where
  "FlowDiagramSchema = zObject (\<lambda>fs.
     bindE (zEnum [(''flow'', ())] (getField fs ''type'')) (\<lambda>_.
     bindE (zOptional zString (getField fs ''title'')) (\<lambda>title.
     bindE (zArray NodeSchema (getField fs ''nodes'')) (\<lambda>nodes.
     bindE (zDefault (zArray EdgeSchema) [] (getField fs ''edges'')) (\<lambda>edges.
     bindE (zDefault (zArray GroupSchema) [] (getField fs ''groups'')) (\<lambda>groups.
     bindE (zDefault ThemeSchema HandDrawn (getField fs ''style'')) (\<lambda>style.
     bindE (zDefault FlowDirectionSchema TB (getField fs ''direction'')) (\<lambda>direction.
     bindE (zOptional OutputOptionsSchema (getField fs ''output'')) (\<lambda>output.
     Inr \<lparr> fd_title = title, fd_nodes = nodes, fd_edges = edges, fd_groups = groups,
           fd_style = style, fd_direction = direction, fd_output = output \<rparr>)))))))))"

definition SequenceDiagramSchema :: "raw \<Rightarrow> error + SequenceDiagramDef" where
  "SequenceDiagramSchema = zObject (\<lambda>fs.
     bindE (zEnum [(''sequence'', ())] (getField fs ''type'')) (\<lambda>_.
     bindE (zOptional zString (getField fs ''title'')) (\<lambda>title.
     bindE (zArray ParticipantSchema (getField fs ''participants'')) (\<lambda>participants.
     bindE (zArray MessageSchema (getField fs ''messages'')) (\<lambda>messages.
     bindE (zDefault ThemeSchema HandDrawn (getField fs ''style'')) (\<lambda>style.
     bindE (zOptional OutputOptionsSchema (getField fs ''output'')) (\<lambda>output.
     Inr \<lparr> sd_title = title, sd_participants = participants, sd_messages = messages,
           sd_style = style, sd_output = output \<rparr>)))))))"

text \<open>\<open>z.discriminatedUnion("type", [FlowDiagramSchema, SequenceDiagramSchema])\<close>: the
  input must be an object whose \<open>type\<close> is the literal of one of the two schemas.\<close>

definition DiagramSchema :: "raw \<Rightarrow> error + DiagramDef" where
  "DiagramSchema v =
     (case v of
        RObj fs \<Rightarrow>
          (if getField fs ''type'' = RStr ''flow''
           then bindE (FlowDiagramSchema v) (\<lambda>d. Inr (Flow d))
           else if getField fs ''type'' = RStr ''sequence''
           then bindE (SequenceDiagramSchema v) (\<lambda>d. Inr (Sequence d))
           else Inl SchemaError)
      | _ \<Rightarrow> Inl SchemaError)"

definition parseDiagram :: "raw \<Rightarrow> error + DiagramDef" where
  "parseDiagram input = DiagramSchema input"

section \<open>Flow layout (layout/flow-layout.ts)\<close>

text \<open>Decimal digits of a natural number: \<open>`${index}`\<close> for an array index.\<close>

definition digitChar :: "nat \<Rightarrow> char" where
  "digitChar d = ''0123456789abcdef'' ! d"

fun showNat :: "nat \<Rightarrow> string" where
  "showNat n =
     (if n < 10 then [digitChar n]
      else showNat (n div 10) @ [digitChar (n mod 10)])"

declare showNat.simps [simp del]

subsection \<open>The graph exchanged with the layout service\<close>

text \<open>
  The layered-layout service (\<open>elkjs\<close>) is not part of the repository: it is the
  parameter \<open>elk\<close> of \<open>layoutFlowDiagram\<close>, a function from the graph built here to
  the same graph with positions, or to an error. Optional arrays of its graph type
  (\<open>children\<close>, \<open>edges\<close>, \<open>sections\<close>, \<open>bendPoints\<close>) are lists: every read of
  them in \<open>flow-layout.ts\<close> treats \<open>undefined\<close> like the empty array. Optional
  numbers stay optional (\<open>child.x ?? 0\<close>).
\<close>

record ElkEdgeSection =
  es_startPoint :: point
  es_bendPoints :: "point list"
  es_endPoint :: point

record ElkExtendedEdge =
  ee_id :: string
  ee_sources :: "string list"
  ee_targets :: "string list"
  ee_labels :: "string list"
  ee_sections :: "ElkEdgeSection list"

datatype ElkNode = ElkNode
  (en_id: string)
  (en_x: "real option")
  (en_y: "real option")
  (en_width: "real option")
  (en_height: "real option")
  (en_labels: "string list")
  (en_layoutOptions: "(string \<times> string) list")
  (en_children: "ElkNode list")
  (en_edges: "ElkExtendedEdge list")

record Box =
  bx_x :: real
  bx_y :: real
  bx_width :: real
  bx_height :: real

text \<open>\<open>v ?? 0\<close>\<close>

definition orZero :: "real option \<Rightarrow> real" where
  "orZero v = (case v of None \<Rightarrow> 0 | Some x \<Rightarrow> x)"

subsection \<open>Constants and helpers\<close>

definition NODE_MIN_WIDTH :: real where "NODE_MIN_WIDTH = 120"
definition NODE_HEIGHT :: real where "NODE_HEIGHT = 60"
definition CHAR_WIDTH_PX :: real where "CHAR_WIDTH_PX = 10"
definition NODE_HORIZONTAL_PADDING :: real where "NODE_HORIZONTAL_PADDING = 40"
definition NODE_SPACING :: nat where "NODE_SPACING = 50"
definition LAYER_SPACING :: nat where "LAYER_SPACING = 80"
definition GROUP_PADDING :: nat where "GROUP_PADDING = 30"

definition estimateNodeWidth :: "string \<Rightarrow> real" where
  "estimateNodeWidth label =
     (let textWidth = real (length label) * CHAR_WIDTH_PX
      in max NODE_MIN_WIDTH (textWidth + NODE_HORIZONTAL_PADDING))"

fun mapDirection :: "FlowDirection \<Rightarrow> string" where
  "mapDirection TB = ''DOWN''"
| "mapDirection LR = ''RIGHT''"
| "mapDirection BT = ''UP''"
| "mapDirection RL = ''LEFT''"

text \<open>\<open>for (group of groups) for (nodeId of group.contains) map.set(nodeId, group.id)\<close>:
  a later group overwrites an earlier one.\<close>

definition buildNodeToGroupMap :: "GroupDef list \<Rightarrow> (string \<rightharpoonup> string)" where
  "buildNodeToGroupMap groups =
     fold (\<lambda>grp m. fold (\<lambda>nodeId m'. m'(nodeId \<mapsto> gd_id grp)) (gd_contains grp) m)
          groups Map.empty"

definition toElkChildNode :: "NodeDef \<Rightarrow> ElkNode" where
  "toElkChildNode node =
     (let width = (case nd_width node of Some w \<Rightarrow> w | None \<Rightarrow> estimateNodeWidth (nd_label node));
          height = (case nd_height node of Some h \<Rightarrow> h | None \<Rightarrow> NODE_HEIGHT)
      in ElkNode (nd_id node) None None (Some width) (Some height) [nd_label node] [] [] [])"

definition edgeId :: "nat \<Rightarrow> string \<Rightarrow> string \<Rightarrow> string" where
  "edgeId index from' to' = ''e'' @ showNat index @ ''_'' @ from' @ ''_'' @ to'"

definition toElkEdge :: "EdgeDef \<Rightarrow> nat \<Rightarrow> ElkExtendedEdge" where
  "toElkEdge edge index =
     \<lparr> ee_id = edgeId index (ed_from edge) (ed_to edge),
       ee_sources = [ed_from edge],
       ee_targets = [ed_to edge],
       ee_labels = (case ed_label edge of
                      Some label \<Rightarrow> if label \<noteq> [] then [label] else []
                    | None \<Rightarrow> []),
       ee_sections = [] \<rparr>"

definition extractRoutePoints :: "ElkEdgeSection list \<Rightarrow> point list" where
  "extractRoutePoints sections =
     concat (map (\<lambda>section'. [es_startPoint section'] @ es_bendPoints section'
                              @ [es_endPoint section']) sections)"

subsection \<open>Reading the positions back\<close>

text \<open>The inner function \<open>walk\<close> of \<open>collectNodePositions\<close>; the map \<open>positions\<close> it
  writes to is passed through.\<close>

function walkNodes :: "ElkNode \<Rightarrow> real \<Rightarrow> real \<Rightarrow> (string \<rightharpoonup> Box) \<Rightarrow> (string \<rightharpoonup> Box)" where
  "walkNodes node offsetX offsetY positions =
     fold (\<lambda>child acc.
             (let cx = orZero (en_x child) + offsetX;
                  cy = orZero (en_y child) + offsetY;
                  cw = orZero (en_width child);
                  ch = orZero (en_height child)
              in if length (en_children child) > 0
                 then walkNodes child cx cy acc
                 else acc(en_id child \<mapsto> \<lparr> bx_x = cx, bx_y = cy, bx_width = cw, bx_height = ch \<rparr>)))
          (en_children node) positions"
  by pat_completeness auto
termination
proof (relation "measure (\<lambda>(node, ox, oy, ps). size node)")
  show "wf (measure (\<lambda>(node, ox, oy, ps). size node))"
    by simp
next
  fix node :: ElkNode and offsetX offsetY :: real and positions child
    and acc :: "string \<rightharpoonup> Box" and cx cy cw ch :: real
  assume "child \<in> set (en_children node)"
  then have "size child < size node"
    by (cases node) (auto simp: less_Suc_eq_le size_list_estimation')
  then show "((child, cx, cy, acc), (node, offsetX, offsetY, positions))
      \<in> measure (\<lambda>(node, ox, oy, ps). size node)"
    by simp
qed

declare walkNodes.simps [simp del]

definition collectNodePositions :: "ElkNode \<Rightarrow> (string \<rightharpoonup> Box)" where
  "collectNodePositions rootNode = walkNodes rootNode 0 0 Map.empty"

definition collectGroupPositions :: "ElkNode \<Rightarrow> (string \<rightharpoonup> Box)" where
  "collectGroupPositions rootNode =
     fold (\<lambda>child positions.
             if length (en_children child) > 0
             then positions(en_id child \<mapsto>
                    \<lparr> bx_x = orZero (en_x child), bx_y = orZero (en_y child),
                      bx_width = orZero (en_width child), bx_height = orZero (en_height child) \<rparr>)
             else positions)
          (en_children rootNode) Map.empty"

text \<open>The inner function \<open>walk\<close> of \<open>collectEdgeRoutes\<close>: the routes of the edges of
  this node, shifted by the offset of the node, then the children.\<close>

function walkEdges ::
  "ElkNode \<Rightarrow> real \<Rightarrow> real \<Rightarrow> (string \<rightharpoonup> point list) \<Rightarrow> (string \<rightharpoonup> point list)" where
  "walkEdges node offsetX offsetY routes =
     (let routes1 =
            fold (\<lambda>edge acc.
                    (let rawPoints = extractRoutePoints (ee_sections edge);
                         adjustedPoints = map (\<lambda>p. (fst p + offsetX, snd p + offsetY)) rawPoints
                     in acc(ee_id edge \<mapsto> adjustedPoints)))
                 (en_edges node) routes
      in fold (\<lambda>child acc.
                 (let cx = orZero (en_x child) + offsetX;
                      cy = orZero (en_y child) + offsetY
                  in walkEdges child cx cy acc))
              (en_children node) routes1)"
  by pat_completeness auto
termination
proof (relation "measure (\<lambda>(node, ox, oy, rs). size node)")
  show "wf (measure (\<lambda>(node, ox, oy, rs). size node))"
    by simp
next
  fix node :: ElkNode and offsetX offsetY :: real and routes routes1 child
    and acc :: "string \<rightharpoonup> point list" and cx cy :: real
  assume "child \<in> set (en_children node)"
  then have "size child < size node"
    by (cases node) (auto simp: less_Suc_eq_le size_list_estimation')
  then show "((child, cx, cy, acc), (node, offsetX, offsetY, routes))
      \<in> measure (\<lambda>(node, ox, oy, rs). size node)"
    by simp
qed

declare walkEdges.simps [simp del]

definition collectEdgeRoutes :: "ElkNode \<Rightarrow> (string \<rightharpoonup> point list)" where
  "collectEdgeRoutes rootNode = walkEdges rootNode 0 0 Map.empty"

subsection \<open>Building the graph\<close>

text \<open>\<open>Map.prototype.set\<close> on an insertion-ordered map: an existing key keeps its
  place and gets the new value, a new key goes last.\<close>

fun mapSet :: "'k \<Rightarrow> 'v \<Rightarrow> ('k \<times> 'v) list \<Rightarrow> ('k \<times> 'v) list" where
  "mapSet k v [] = [(k, v)]"
| "mapSet k v ((k', v') # rest) =
     (if k' = k then (k, v) # rest else (k', v') # mapSet k v rest)"

definition groupElkNode :: "GroupDef \<Rightarrow> ElkNode" where
  "groupElkNode grp =
     ElkNode (gd_id grp) None None None None
       (case gd_label grp of
          Some label \<Rightarrow> if label \<noteq> [] then [label] else []
        | None \<Rightarrow> [])
       [(''elk.padding'',
         ''[top='' @ showNat GROUP_PADDING @ '',left='' @ showNat GROUP_PADDING
           @ '',bottom='' @ showNat GROUP_PADDING @ '',right='' @ showNat GROUP_PADDING @ '']'')]
       [] []"

text \<open>\<open>groupElkNodes.get(groupId)!.children!.push(elkChild)\<close>\<close>

definition pushChild :: "string \<Rightarrow> ElkNode \<Rightarrow> (string \<times> ElkNode) list \<Rightarrow> (string \<times> ElkNode) list" where
  "pushChild groupId elkChild groupElkNodes =
     map (\<lambda>(k, g). if k = groupId
                     then (k, ElkNode (en_id g) (en_x g) (en_y g) (en_width g) (en_height g)
                                (en_labels g) (en_layoutOptions g)
                                (en_children g @ [elkChild]) (en_edges g))
                     else (k, g))
         groupElkNodes"

text \<open>The graph handed to the layout service. A node goes into the compound node of
  its group when \<open>groupId && groupElkNodes.has(groupId)\<close> (an empty group id is
  falsy), and to the root otherwise; the compound nodes follow the root-level nodes.\<close>

definition buildElkGraph :: "FlowDiagramDef \<Rightarrow> ElkNode" where
  "buildElkGraph diagram =
     (let nodes = fd_nodes diagram;
          edges = fd_edges diagram;
          groups = fd_groups diagram;
          direction = fd_direction diagram;
          nodeToGroup = buildNodeToGroupMap groups;
          groupElkNodes0 = fold (\<lambda>grp m. mapSet (gd_id grp) (groupElkNode grp) m) groups [];
          (groupElkNodes, rootChildren0) =
            fold (\<lambda>node (gs, rootChildren).
                    (let elkChild = toElkChildNode node
                     in case nodeToGroup (nd_id node) of
                          Some groupId \<Rightarrow>
                            if groupId \<noteq> [] \<and> map_of gs groupId \<noteq> None
                            then (pushChild groupId elkChild gs, rootChildren)
                            else (gs, rootChildren @ [elkChild])
                        | None \<Rightarrow> (gs, rootChildren @ [elkChild])))
                 nodes (groupElkNodes0, []);
          rootChildren = rootChildren0 @ map snd groupElkNodes;
          elkEdges = map (\<lambda>(e, i). toElkEdge e i) (zip edges [0..<length edges])
      in ElkNode ''root'' None None None None []
           [(''elk.algorithm'', ''layered''),
            (''elk.direction'', mapDirection direction),
            (''elk.spacing.nodeNode'', showNat NODE_SPACING),
            (''elk.layered.spacing.nodeNodeBetweenLayers'', showNat LAYER_SPACING),
            (''elk.hierarchyHandling'', ''INCLUDE_CHILDREN''),
            (''elk.edgeRouting'', ''ORTHOGONAL''),
            (''elk.layered.mergeEdges'', ''false'')]
           rootChildren elkEdges)"

subsection \<open>The main layout function\<close>

definition mapLayoutNode :: "(string \<rightharpoonup> Box) \<Rightarrow> NodeDef \<Rightarrow> LayoutNode" where
  "mapLayoutNode nodePositions nodeDef =
     (let pos = nodePositions (nd_id nodeDef)
      in \<lparr> ln_id = nd_id nodeDef,
            ln_x = (case pos of Some p \<Rightarrow> bx_x p | None \<Rightarrow> 0) + PADDING,
            ln_y = (case pos of Some p \<Rightarrow> bx_y p | None \<Rightarrow> 0) + PADDING,
            ln_width = (case pos of Some p \<Rightarrow> bx_width p
                        | None \<Rightarrow> estimateNodeWidth (nd_label nodeDef)),
            ln_height = (case pos of Some p \<Rightarrow> bx_height p | None \<Rightarrow> NODE_HEIGHT),
            ln_label = nd_label nodeDef,
            ln_shape = nd_shape nodeDef,
            ln_color = nd_color nodeDef,
            ln_textColor = nd_textColor nodeDef \<rparr>)"

definition mapLayoutEdge ::
  "(string \<rightharpoonup> Box) \<Rightarrow> (string \<rightharpoonup> point list) \<Rightarrow> EdgeDef \<Rightarrow> nat \<Rightarrow> LayoutEdge" where
  "mapLayoutEdge nodePositions edgeRoutes edgeDef i =
     (let rawPoints = (case edgeRoutes (edgeId i (ed_from edgeDef) (ed_to edgeDef)) of
                         Some ps \<Rightarrow> ps | None \<Rightarrow> []);
          points0 = map (\<lambda>p. (fst p + PADDING, snd p + PADDING)) rawPoints;
          points =
            (if length points0 = 0
             then (case nodePositions (ed_from edgeDef) of
                     Some srcPos \<Rightarrow>
                       [(bx_x srcPos + bx_width srcPos / 2 + PADDING,
                         bx_y srcPos + bx_height srcPos / 2 + PADDING)]
                   | None \<Rightarrow> [])
                  @ (case nodePositions (ed_to edgeDef) of
                       Some tgtPos \<Rightarrow>
                         [(bx_x tgtPos + bx_width tgtPos / 2 + PADDING,
                           bx_y tgtPos + bx_height tgtPos / 2 + PADDING)]
                     | None \<Rightarrow> [])
             else points0)
      in \<lparr> le_from = ed_from edgeDef, le_to = ed_to edgeDef, le_label = ed_label edgeDef,
            le_style = ed_style edgeDef, le_direction = ed_direction edgeDef,
            le_color = ed_color edgeDef, le_points = points \<rparr>)"

definition mapLayoutGroup :: "(string \<rightharpoonup> Box) \<Rightarrow> GroupDef \<Rightarrow> LayoutGroup" where
  "mapLayoutGroup groupPositions groupDef =
     (let pos = groupPositions (gd_id groupDef)
      in \<lparr> lg_id = gd_id groupDef,
            lg_label = gd_label groupDef,
            lg_x = (case pos of Some p \<Rightarrow> bx_x p | None \<Rightarrow> 0) + PADDING,
            lg_y = (case pos of Some p \<Rightarrow> bx_y p | None \<Rightarrow> 0) + PADDING,
            lg_width = (case pos of Some p \<Rightarrow> bx_width p | None \<Rightarrow> 0),
            lg_height = (case pos of Some p \<Rightarrow> bx_height p | None \<Rightarrow> 0),
            lg_color = gd_color groupDef \<rparr>)"

text \<open>\<open>layoutFlowDiagram\<close>: \<open>await elk.layout(rootGraph)\<close> either throws, and the
  exception propagates, or gives the positioned graph \<open>result\<close>.\<close>

definition layoutFlowDiagram ::
  "(ElkNode \<Rightarrow> error + ElkNode) \<Rightarrow> FlowDiagramDef \<Rightarrow> error + LayoutResult" where
  "layoutFlowDiagram elk diagram =
     bindE (elk (buildElkGraph diagram)) (\<lambda>result.
       (let nodes = fd_nodes diagram;
            edges = fd_edges diagram;
            groups = fd_groups diagram;
            nodePositions = collectNodePositions result;
            groupPositions = collectGroupPositions result;
            edgeRoutes = collectEdgeRoutes result;
            layoutNodes = map (mapLayoutNode nodePositions) nodes;
            layoutEdges = map (\<lambda>(edgeDef, i). mapLayoutEdge nodePositions edgeRoutes edgeDef i)
                              (zip edges [0..<length edges]);
            layoutGroups = map (mapLayoutGroup groupPositions) groups;
            graphWidth = orZero (en_width result);
            graphHeight = orZero (en_height result)
        in Inr \<lparr> lr_width = graphWidth + PADDING * 2,
                  lr_height = graphHeight + PADDING * 2,
                  lr_nodes = layoutNodes,
                  lr_edges = layoutEdges,
                  lr_groups = layoutGroups \<rparr>))"

section \<open>SVG text and number formatting (svg-renderer.ts)\<close>

text \<open>
  The renderer builds its output from template literals. A piece of SVG text is kept
  here as the list of its fragments, so that the way each number was interpolated
  stays visible:
  \<^item> \<open>Txt s\<close> is literal text or an interpolated string;
  \<^item> \<open>Fixed1 v\<close> is \<open>${v.toFixed(1)}\<close>;
  \<^item> \<open>CoordRaw v\<close> is \<open>${v}\<close> for a coordinate or a length in user units (a
    position, a width or height, a \<open>dy\<close> offset, a translation);
  \<^item> \<open>StyleRaw v\<close> is \<open>${v}\<close> for a style scalar (stroke width, fill opacity, font
    size, corner radius).
  The string the source computes is \<open>render\<close> of the fragments.
\<close>

datatype frag = Txt string | Fixed1 real | CoordRaw real | StyleRaw real

type_synonym svg = "frag list"

text \<open>
  The conversions of numbers to strings are built into the language. They are
  modelled on exact reals in decimal notation: \<open>numToString\<close> prints the integer
  part and, when there is one, the fractional part (cut after 17 digits);
  \<open>toFixed1\<close> rounds the absolute value to the nearest tenth, the larger one on a
  tie, and prints one decimal, with the sign of the number.
\<close>

fun fracDigits :: "real \<Rightarrow> nat \<Rightarrow> string" where
  "fracDigits f 0 = []"
| "fracDigits f (Suc k) =
     (if f = 0 then [] else digitChar (nat \<lfloor>f * 10\<rfloor>) # fracDigits (frac (f * 10)) k)"

definition numToString :: "real \<Rightarrow> string" where
  "numToString x =
     (if x < 0 then ''-'' else []) @ showNat (nat \<lfloor>\<bar>x\<bar>\<rfloor>)
       @ (if frac \<bar>x\<bar> = 0 then [] else ''.'' @ fracDigits (frac \<bar>x\<bar>) 17)"

definition toFixed1 :: "real \<Rightarrow> string" where
  "toFixed1 x =
     (if 10 ^ 21 \<le> \<bar>x\<bar> then numToString x
      else (let n = nat \<lfloor>\<bar>x\<bar> * 10 + 1 / 2\<rfloor>
            in (if x < 0 then ''-'' else []) @ showNat (n div 10) @ ''.''
                 @ [digitChar (n mod 10)]))"

fun fragStr :: "frag \<Rightarrow> string" where
  "fragStr (Txt s) = s"
| "fragStr (Fixed1 v) = toFixed1 v"
| "fragStr (CoordRaw v) = numToString v"
| "fragStr (StyleRaw v) = numToString v"

definition render :: "svg \<Rightarrow> string" where
  "render fs = concat (map fragStr fs)"

text \<open>The coordinates a piece of SVG text holds in the default conversion, in order.\<close>

fun rawCoords :: "svg \<Rightarrow> real list" where
  "rawCoords [] = []"
| "rawCoords (CoordRaw v # fs) = v # rawCoords fs"
| "rawCoords (f # fs) = rawCoords fs"

text \<open>\<open>parts.join(sep)\<close>\<close>

fun joinSvg :: "svg \<Rightarrow> svg list \<Rightarrow> svg" where
  "joinSvg sep [] = []"
| "joinSvg sep [p] = p"
| "joinSvg sep (p # q # ps) = p @ sep @ joinSvg sep (q # ps)"

definition newline :: svg where
  "newline = [Txt [CHR 0x0A]]"

text \<open>\<open>str.replace(pat, rep)\<close> with a string pattern replaces the first occurrence.\<close>

fun replaceFirst :: "string \<Rightarrow> string \<Rightarrow> string \<Rightarrow> string" where
  "replaceFirst pat rep [] = (if pat = [] then rep else [])"
| "replaceFirst pat rep (c # cs) =
     (if prefix pat (c # cs) then rep @ drop (length pat) (c # cs)
      else c # replaceFirst pat rep cs)"

text \<open>The same on fragments, for a pattern that lies inside one text fragment: the
  source only ever replaces \<open>text-anchor="middle"\<close> in the output of \<open>renderText\<close>,
  where the text before it consists of \<open><text x="\<close>, \<open>" y="\<close> and two numbers.\<close>

fun replaceFirstF :: "string \<Rightarrow> string \<Rightarrow> svg \<Rightarrow> svg" where
  "replaceFirstF pat rep [] = []"
| "replaceFirstF pat rep (Txt s # fs) =
     (if sublist pat s then Txt (replaceFirst pat rep s) # fs
      else Txt s # replaceFirstF pat rep fs)"
| "replaceFirstF pat rep (f # fs) = f # replaceFirstF pat rep fs"

text \<open>A loop that pushes the result of a seed-threading call for each element.\<close>

fun mapS :: "('a \<Rightarrow> nat \<Rightarrow> 'b \<times> nat) \<Rightarrow> 'a list \<Rightarrow> nat \<Rightarrow> 'b list \<times> nat" where
  "mapS f [] seed = ([], seed)"
| "mapS f (x # xs) seed =
     (let (y, seed1) = f x seed;
          (ys, seed2) = mapS f xs seed1
      in (y # ys, seed2))"

subsection \<open>Palette and themes\<close>

definition PALETTE :: "string list" where
  "PALETTE = [''#4ECDC4'', ''#FF6B6B'', ''#45B7D1'', ''#96CEB4'', ''#FFEAA7'',
              ''#DDA0DD'', ''#98D8C8'', ''#F7DC6F'', ''#BB8FCE'', ''#85C1E9'']"

record ThemeConfig =
  strokeWidth :: real
  jitterAmount :: real
  fillOpacity :: real
  fontFamily :: string
  doubleStroke :: bool
  cornerRadius :: real

fun getThemeConfig :: "Theme \<Rightarrow> ThemeConfig" where
  \<open>getThemeConfig HandDrawn =
     \<lparr> strokeWidth = 1.5, jitterAmount = 2, fillOpacity = 0.15,
       fontFamily = ''"Segoe Print", "Comic Sans MS", cursive'',
       doubleStroke = True, cornerRadius = 0 \<rparr>\<close>
| \<open>getThemeConfig Clean =
     \<lparr> strokeWidth = 1.5, jitterAmount = 0, fillOpacity = 0.1,
       fontFamily = ''"Inter", "Helvetica", "Arial", sans-serif'',
       doubleStroke = False, cornerRadius = 3 \<rparr>\<close>
| \<open>getThemeConfig Minimal =
     \<lparr> strokeWidth = 1, jitterAmount = 0, fillOpacity = 0.05,
       fontFamily = ''"Inter", "Helvetica", "Arial", sans-serif'',
       doubleStroke = False, cornerRadius = 3 \<rparr>\<close>

subsection \<open>The SVG builder\<close>

record SvgBuilder =
  sb_elements :: "svg list"
  sb_defs :: "svg list"
  sb_width :: real
  sb_height :: real

definition newSvgBuilder :: "real \<Rightarrow> real \<Rightarrow> SvgBuilder" where
  "newSvgBuilder width height =
     \<lparr> sb_elements = [], sb_defs = [], sb_width = width, sb_height = height \<rparr>"

definition addDef :: "svg \<Rightarrow> SvgBuilder \<Rightarrow> SvgBuilder" where
  "addDef defString b = b\<lparr> sb_defs := sb_defs b @ [defString] \<rparr>"

definition addElement :: "svg \<Rightarrow> SvgBuilder \<Rightarrow> SvgBuilder" where
  "addElement svgString b = b\<lparr> sb_elements := sb_elements b @ [svgString] \<rparr>"

definition SvgBuilder_toString :: "SvgBuilder \<Rightarrow> svg" where
  \<open>SvgBuilder_toString b =
     (let parts =
            [[Txt ''<svg xmlns="http://www.w3.org/2000/svg" viewBox="0 0 '',
              CoordRaw (sb_width b), Txt '' '', CoordRaw (sb_height b),
              Txt ''" width="'', CoordRaw (sb_width b),
              Txt ''" height="'', CoordRaw (sb_height b), Txt ''">'']]
            @ (if length (sb_defs b) > 0
               then [[Txt ''  <defs>'']] @ map (\<lambda>def. Txt ''    '' # def) (sb_defs b)
                    @ [[Txt ''  </defs>'']]
               else [])
            @ [[Txt ''  <rect width="'', CoordRaw (sb_width b),
                Txt ''" height="'', CoordRaw (sb_height b), Txt ''" fill="white"/>'']]
            @ map (\<lambda>el. Txt ''  '' # el) (sb_elements b)
            @ [[Txt ''</svg>'']]
      in joinSvg newline parts)\<close>

subsection \<open>Text\<close>

text \<open>\<open>text.split(/\s+/)\<close>: the pieces between maximal runs of white space; a
  leading or trailing run gives an empty first or last piece.\<close>

definition isSpace :: "char \<Rightarrow> bool" where
  "isSpace c = (c \<in> {CHR 0x09, CHR 0x0A, CHR 0x0B, CHR 0x0C, CHR 0x0D, CHR 0x20, CHR 0xA0})"

fun splitWs :: "bool \<Rightarrow> string \<Rightarrow> string \<Rightarrow> string list" where
  "splitWs inRun cur [] = [cur]"
| "splitWs inRun cur (c # cs) =
     (if isSpace c then (if inRun then splitWs True cur cs else cur # splitWs True [] cs)
      else splitWs False (cur @ [c]) cs)"

definition splitWhitespace :: "string \<Rightarrow> string list" where
  "splitWhitespace str = splitWs False [] str"

text \<open>The loop of \<open>wrapText\<close> over the words, on the pair of \<open>lines\<close> and
  \<open>currentLine\<close>.\<close>

definition wrapStep :: "nat \<Rightarrow> string \<Rightarrow> string list \<times> string \<Rightarrow> string list \<times> string" where
  "wrapStep maxCharsPerLine word st =
     (let (lines, currentLine) = st
      in if length currentLine = 0 then (lines, word)
         else if length currentLine + 1 + length word \<le> maxCharsPerLine
         then (lines, currentLine @ '' '' @ word)
         else (lines @ [currentLine], word))"

definition wrapText :: "string \<Rightarrow> nat \<Rightarrow> string list" where
  "wrapText text maxCharsPerLine =
     (if length text \<le> maxCharsPerLine then [text]
      else (let words = splitWhitespace text;
                (lines, currentLine) = fold (wrapStep maxCharsPerLine) words ([], [])
            in if length currentLine > 0 then lines @ [currentLine] else lines))"

record TextOpts =
  to_bold :: bool
  to_maxCharsPerLine :: "nat option"

definition noOpts :: TextOpts where
  "noOpts = \<lparr> to_bold = False, to_maxCharsPerLine = None \<rparr>"

definition renderText ::
  "real \<Rightarrow> real \<Rightarrow> string \<Rightarrow> real \<Rightarrow> string \<Rightarrow> string \<Rightarrow> TextOpts \<Rightarrow> svg" where
  \<open>renderText x y text fontSize fontFam color opts =
     (let escaped = escapeXml text;
          bold = (if to_bold opts then '' font-weight="bold"'' else []);
          maxChars = (case to_maxCharsPerLine opts of Some m \<Rightarrow> m | None \<Rightarrow> 18)
      in if length text > 20
         then (let lines = wrapText text maxChars;
                   lineHeight = fontSize * 1.3;
                   totalHeight = (real (length lines) - 1) * lineHeight;
                   startY = y - totalHeight / 2;
                   tspans = concat (map (\<lambda>(line, i).
                              [Txt ''<tspan x="'', CoordRaw x, Txt ''" dy="'',
                               CoordRaw (if i = 0 then 0 else lineHeight), Txt ''">'',
                               Txt (escapeXml line), Txt ''</tspan>''])
                            (zip lines [0..<length lines]))
               in [Txt ''<text x="'', CoordRaw x, Txt ''" y="'', CoordRaw startY,
                   Txt ''" text-anchor="middle" dominant-baseline="central" '',
                   Txt (''font-family='' @ [CHR 0x27] @ fontFam @ [CHR 0x27] @ '' font-size="''),
                   StyleRaw fontSize, Txt (''" fill="'' @ color @ ''"'' @ bold @ ''>'')]
                  @ tspans @ [Txt ''</text>''])
         else [Txt ''<text x="'', CoordRaw x, Txt ''" y="'', CoordRaw y,
               Txt ''" text-anchor="middle" dominant-baseline="central" '',
               Txt (''font-family='' @ [CHR 0x27] @ fontFam @ [CHR 0x27] @ '' font-size="''),
               StyleRaw fontSize, Txt (''" fill="'' @ color @ ''"'' @ bold @ ''>''),
               Txt escaped, Txt ''</text>''])\<close>

subsection \<open>Sketchy lines\<close>

text \<open>\<open>dashArray ? ` stroke-dasharray="${dashArray}"` : ""\<close>\<close>

definition dashAttr :: "string option \<Rightarrow> string" where
  \<open>dashAttr dashArray =
     (case dashArray of
        Some d \<Rightarrow> if d \<noteq> [] then '' stroke-dasharray="'' @ d @ ''"'' else []
      | None \<Rightarrow> [])\<close>

text \<open>\<open>`${p.x.toFixed(1)} ${p.y.toFixed(1)}`\<close> and \<open>`${p.x.toFixed(1)},${p.y.toFixed(1)}`\<close>\<close>

definition ptSpace :: "point \<Rightarrow> svg" where
  "ptSpace p = [Fixed1 (fst p), Txt '' '', Fixed1 (snd p)]"

definition ptComma :: "point \<Rightarrow> svg" where
  "ptComma p = [Fixed1 (fst p), Txt '','', Fixed1 (snd p)]"

definition sketchyLine ::
  "real \<Rightarrow> real \<Rightarrow> real \<Rightarrow> real \<Rightarrow> ThemeConfig \<Rightarrow> string \<Rightarrow> string option \<Rightarrow> nat
     \<Rightarrow> svg \<times> nat" where
  \<open>sketchyLine x1 y1 x2 y2 config strokeColor dashArray seed =
     (if jitterAmount config > 0
      then (let ja = jitterAmount config;
                (r1, s1) = pseudoRandom seed;
                mx = (x1 + x2) / 2 + (r1 - 0.5) * ja * 2;
                (r2, s2) = pseudoRandom s1;
                my = (y1 + y2) / 2 + (r2 - 0.5) * ja * 2;
                (jx1, s3) = jitter x1 (ja * 0.5) s2;
                (jy1, s4) = jitter y1 (ja * 0.5) s3;
                (jx2, s5) = jitter x2 (ja * 0.5) s4;
                (jy2, s6) = jitter y2 (ja * 0.5) s5;
                dash = dashAttr dashArray;
                part1 = [Txt ''<path d="M ''] @ ptSpace (jx1, jy1) @ [Txt '' Q '']
                        @ ptSpace (mx, my) @ [Txt '' ''] @ ptSpace (jx2, jy2)
                        @ [Txt (''" fill="none" stroke="'' @ strokeColor @ ''" stroke-width="''),
                           StyleRaw (strokeWidth config),
                           Txt (''" stroke-linecap="round"'' @ dash @ ''/>'')]
            in if doubleStroke config
               then (let (r3, s7) = pseudoRandom s6;
                         mx2 = (x1 + x2) / 2 + (r3 - 0.5) * ja * 2;
                         (r4, s8) = pseudoRandom s7;
                         my2 = (y1 + y2) / 2 + (r4 - 0.5) * ja * 2;
                         (kx1, s9) = jitter x1 (ja * 0.3) s8;
                         (ky1, s10) = jitter y1 (ja * 0.3) s9;
                         (kx2, s11) = jitter x2 (ja * 0.3) s10;
                         (ky2, s12) = jitter y2 (ja * 0.3) s11;
                         part2 = [Txt ''<path d="M ''] @ ptSpace (kx1, ky1) @ [Txt '' Q '']
                                 @ ptSpace (mx2, my2) @ [Txt '' ''] @ ptSpace (kx2, ky2)
                                 @ [Txt (''" fill="none" stroke="'' @ strokeColor
                                         @ ''" stroke-width="''),
                                    StyleRaw (strokeWidth config * 0.5),
                                    Txt (''" stroke-linecap="round" opacity="0.3"'' @ dash
                                         @ ''/>'')]
                     in (joinSvg newline [part1, part2], s12))
               else (joinSvg newline [part1], s6))
      else ([Txt ''<line x1="'', Fixed1 x1, Txt ''" y1="'', Fixed1 y1,
             Txt ''" x2="'', Fixed1 x2, Txt ''" y2="'', Fixed1 y2,
             Txt (''" stroke="'' @ strokeColor @ ''" stroke-width="''),
             StyleRaw (strokeWidth config),
             Txt (''" stroke-linecap="round"'' @ dashAttr dashArray @ ''/>'')],
            seed))\<close>

definition sketchyPolyline ::
  "point list \<Rightarrow> ThemeConfig \<Rightarrow> string \<Rightarrow> string option \<Rightarrow> nat \<Rightarrow> svg \<times> nat" where
  "sketchyPolyline points config strokeColor dashArray seed =
     (if length points < 2 then ([], seed)
      else (let (segments, seed') =
                  mapS (\<lambda>(p, q). sketchyLine (fst p) (snd p) (fst q) (snd q) config
                                    strokeColor dashArray)
                       (zip points (tl points)) seed
            in (joinSvg newline segments, seed')))"

subsection \<open>Shapes\<close>

text \<open>The border of a shape: \<open>sketchyLine\<close> from each corner to the next and
  from the last back to the first, in this order (the loop of \<open>renderHexagon\<close> and
  \<open>renderParallelogram\<close>, written out call by call in \<open>renderRectangle\<close>,
  \<open>renderDiamond\<close> and \<open>renderGroup\<close>).\<close>

definition outline :: "point list \<Rightarrow> ThemeConfig \<Rightarrow> string \<Rightarrow> string option \<Rightarrow> nat
    \<Rightarrow> svg list \<times> nat" where
  "outline points config strokeColor dashArray seed =
     mapS (\<lambda>i. sketchyLine (fst (points ! i)) (snd (points ! i))
                  (fst (points ! ((i + 1) mod length points)))
                  (snd (points ! ((i + 1) mod length points)))
                  config strokeColor dashArray)
          [0..<length points] seed"

definition renderEllipse ::
  "real \<Rightarrow> real \<Rightarrow> real \<Rightarrow> real \<Rightarrow> string \<Rightarrow> string \<Rightarrow> ThemeConfig \<Rightarrow> nat \<Rightarrow> svg \<times> nat" where
  \<open>renderEllipse cx cy rx ry fillColor strokeColor config seed =
     (if jitterAmount config > 0
      then (let ja = jitterAmount config;
                segments = 8;
                (points, s1) =
                  mapS (\<lambda>i s. (let angle = (real i / real segments) * pi * 2;
                                   (jx, sa) = jitter (rx * cos angle) ja s;
                                   (jy, sb) = jitter (ry * sin angle) ja sa
                               in ((cx + jx, cy + jy), sb)))
                       [0..<segments] seed;
                (curves, s2) =
                  mapS (\<lambda>i s. (let curr = points ! i;
                                   next = points ! ((i + 1) mod segments);
                                   (j1, sa) = jitter ((fst next - fst curr) * 0.4) (ja * 0.5) s;
                                   cpx1 = fst curr + j1;
                                   (j2, sb) = jitter ((snd next - snd curr) * 0.4) (ja * 0.5) sa;
                                   cpy1 = snd curr + j2;
                                   (j3, sc) = jitter ((fst next - fst curr) * 0.4) (ja * 0.5) sb;
                                   cpx2 = fst next - j3;
                                   (j4, sd) = jitter ((snd next - snd curr) * 0.4) (ja * 0.5) sc;
                                   cpy2 = snd next - j4
                               in ([Txt '' C ''] @ ptSpace (cpx1, cpy1) @ [Txt '', '']
                                   @ ptSpace (cpx2, cpy2) @ [Txt '', ''] @ ptSpace next, sd)))
                       [0..<segments] s1;
                path = [Txt ''M ''] @ ptSpace (points ! 0) @ concat curves @ [Txt '' Z''];
                part1 = [Txt ''<path d="''] @ path
                        @ [Txt (''" fill="'' @ fillColor @ ''" fill-opacity="''),
                           StyleRaw (fillOpacity config),
                           Txt (''" stroke="'' @ strokeColor @ ''" stroke-width="''),
                           StyleRaw (strokeWidth config), Txt ''" stroke-linecap="round"/>'']
            in if doubleStroke config
               then (let offset = ja * 0.4;
                         (ox, s3) = jitter 0 offset s2;
                         (oy, s4) = jitter 0 offset s3;
                         part2 = [Txt ''<path d="''] @ path
                                 @ [Txt (''" fill="none" stroke="'' @ strokeColor
                                         @ ''" stroke-width="''),
                                    StyleRaw (strokeWidth config * 0.5),
                                    Txt ''" stroke-linecap="round" opacity="0.3" transform="translate('',
                                    Fixed1 ox, Txt '', '', Fixed1 oy, Txt '')"/>'']
                     in (joinSvg newline [part1, part2], s4))
               else (joinSvg newline [part1], s2))
      else ([Txt ''<ellipse cx="'', Fixed1 cx, Txt ''" cy="'', Fixed1 cy,
             Txt ''" rx="'', Fixed1 rx, Txt ''" ry="'', Fixed1 ry,
             Txt (''" fill="'' @ fillColor @ ''" fill-opacity="''),
             StyleRaw (fillOpacity config),
             Txt (''" stroke="'' @ strokeColor @ ''" stroke-width="''),
             StyleRaw (strokeWidth config), Txt ''"/>''],
            seed))\<close>

text \<open>\<open>`<path d="M ${points.map(p => ...).join(" L ")} Z" fill=... stroke="none"/>`\<close>\<close>

definition fillPathOf :: "point list \<Rightarrow> string \<Rightarrow> ThemeConfig \<Rightarrow> svg" where
  \<open>fillPathOf points fillColor config =
     [Txt ''<path d="M ''] @ joinSvg [Txt '' L ''] (map ptSpace points)
     @ [Txt ('' Z" fill="'' @ fillColor @ ''" fill-opacity="''),
        StyleRaw (fillOpacity config), Txt ''" stroke="none"/>'']\<close>

text \<open>\<open>`<polygon points="${pts}" fill=... stroke=... stroke-width=.../>`\<close> with the
  points joined by spaces.\<close>

definition polygonOf :: "point list \<Rightarrow> string \<Rightarrow> string \<Rightarrow> ThemeConfig \<Rightarrow> svg" where
  \<open>polygonOf points fillColor strokeColor config =
     [Txt ''<polygon points="''] @ joinSvg [Txt '' ''] (map ptComma points)
     @ [Txt (''" fill="'' @ fillColor @ ''" fill-opacity="''),
        StyleRaw (fillOpacity config),
        Txt (''" stroke="'' @ strokeColor @ ''" stroke-width="''),
        StyleRaw (strokeWidth config), Txt ''"/>'']\<close>

text \<open>The corners of a shape, each jittered by \<open>jitterPoint\<close> in the order listed.\<close>

definition jitterPoints :: "point list \<Rightarrow> real \<Rightarrow> nat \<Rightarrow> point list \<times> nat" where
  "jitterPoints corners amount seed =
     mapS (\<lambda>p. jitterPoint (fst p) (snd p) amount) corners seed"

definition renderRectangle ::
  "real \<Rightarrow> real \<Rightarrow> real \<Rightarrow> real \<Rightarrow> string \<Rightarrow> string \<Rightarrow> ThemeConfig \<Rightarrow> nat \<Rightarrow> svg \<times> nat" where
  \<open>renderRectangle x y width height fillColor strokeColor config seed =
     (if jitterAmount config > 0
      then (let (points, s1) =
                  jitterPoints [(x, y), (x + width, y), (x + width, y + height), (x, y + height)]
                    (jitterAmount config) seed;
                fillPath = fillPathOf points fillColor config;
                (edges, s2) = outline points config strokeColor None s1
            in (joinSvg newline (fillPath # edges), s2))
      else ([Txt ''<rect x="'', Fixed1 x, Txt ''" y="'', Fixed1 y,
             Txt ''" width="'', Fixed1 width, Txt ''" height="'', Fixed1 height,
             Txt ''" rx="'', StyleRaw (cornerRadius config),
             Txt ''" ry="'', StyleRaw (cornerRadius config),
             Txt (''" fill="'' @ fillColor @ ''" fill-opacity="''),
             StyleRaw (fillOpacity config),
             Txt (''" stroke="'' @ strokeColor @ ''" stroke-width="''),
             StyleRaw (strokeWidth config), Txt ''"/>''],
            seed))\<close>

text \<open>A shape given by its corners (\<open>renderDiamond\<close>, \<open>renderHexagon\<close>,
  \<open>renderParallelogram\<close>): the corners are jittered first, in both branches; the
  hand-drawn branch draws the fill path and the border, the other a polygon.\<close>

definition renderCorners ::
  "point list \<Rightarrow> string \<Rightarrow> string \<Rightarrow> ThemeConfig \<Rightarrow> nat \<Rightarrow> svg \<times> nat" where
  "renderCorners corners fillColor strokeColor config seed =
     (let (points, s1) = jitterPoints corners (jitterAmount config) seed
      in if jitterAmount config > 0
         then (let fillPath = fillPathOf points fillColor config;
                   (edges, s2) = outline points config strokeColor None s1
               in (joinSvg newline (fillPath # edges), s2))
         else (polygonOf points fillColor strokeColor config, s1))"

definition renderDiamond ::
  "real \<Rightarrow> real \<Rightarrow> real \<Rightarrow> real \<Rightarrow> string \<Rightarrow> string \<Rightarrow> ThemeConfig \<Rightarrow> nat \<Rightarrow> svg \<times> nat" where
  "renderDiamond x y width height fillColor strokeColor config seed =
     (let cx = x + width / 2;
          cy = y + height / 2
      in renderCorners [(cx, y), (x + width, cy), (cx, y + height), (x, cy)]
           fillColor strokeColor config seed)"

definition renderHexagon ::
  "real \<Rightarrow> real \<Rightarrow> real \<Rightarrow> real \<Rightarrow> string \<Rightarrow> string \<Rightarrow> ThemeConfig \<Rightarrow> nat \<Rightarrow> svg \<times> nat" where
  "renderHexagon x y width height fillColor strokeColor config seed =
     (let cy = y + height / 2;
          inset = width * 0.25
      in renderCorners
           [(x + inset, y), (x + width - inset, y), (x + width, cy),
            (x + width - inset, y + height), (x + inset, y + height), (x, cy)]
           fillColor strokeColor config seed)"

definition renderParallelogram ::
  "real \<Rightarrow> real \<Rightarrow> real \<Rightarrow> real \<Rightarrow> string \<Rightarrow> string \<Rightarrow> ThemeConfig \<Rightarrow> nat \<Rightarrow> svg \<times> nat" where
  "renderParallelogram x y width height fillColor strokeColor config seed =
     (let skew = 15
      in renderCorners
           [(x + skew, y), (x + width, y), (x + width - skew, y + height), (x, y + height)]
           fillColor strokeColor config seed)"

definition renderCylinder ::
  "real \<Rightarrow> real \<Rightarrow> real \<Rightarrow> real \<Rightarrow> string \<Rightarrow> string \<Rightarrow> ThemeConfig \<Rightarrow> nat \<Rightarrow> svg \<times> nat" where
  \<open>renderCylinder x y width height fillColor strokeColor config seed =
     (let cx = x + width / 2;
          ellipseRy = min 15 (height * 0.15);
          bodyTop = y + ellipseRy;
          bodyBottom = y + height - ellipseRy;
          rx = width / 2;
          body = [Txt ''<rect x="'', Fixed1 x, Txt ''" y="'', Fixed1 bodyTop,
                  Txt ''" width="'', Fixed1 width,
                  Txt ''" height="'', Fixed1 (bodyBottom - bodyTop),
                  Txt (''" fill="'' @ fillColor @ ''" fill-opacity="''),
                  StyleRaw (fillOpacity config), Txt ''" stroke="none"/>'']
      in if jitterAmount config > 0
         then (let (bottomEllipse, s1) =
                     renderEllipse cx bodyBottom rx ellipseRy fillColor strokeColor config seed;
                   (leftLine, s2) = sketchyLine x bodyTop x bodyBottom config strokeColor None s1;
                   (rightLine, s3) =
                     sketchyLine (x + width) bodyTop (x + width) bodyBottom config strokeColor
                       None s2;
                   (topEllipse, s4) =
                     renderEllipse cx bodyTop rx ellipseRy fillColor strokeColor config s3
               in (joinSvg newline [body, bottomEllipse, leftLine, rightLine, topEllipse], s4))
         else (joinSvg newline
                 [body,
                  [Txt ''<ellipse cx="'', Fixed1 cx, Txt ''" cy="'', Fixed1 bodyBottom,
                   Txt ''" rx="'', Fixed1 rx, Txt ''" ry="'', Fixed1 ellipseRy,
                   Txt (''" fill="'' @ fillColor @ ''" fill-opacity="''),
                   StyleRaw (fillOpacity config),
                   Txt (''" stroke="'' @ strokeColor @ ''" stroke-width="''),
                   StyleRaw (strokeWidth config), Txt ''"/>''],
                  [Txt ''<line x1="'', Fixed1 x, Txt ''" y1="'', Fixed1 bodyTop,
                   Txt ''" x2="'', Fixed1 x, Txt ''" y2="'', Fixed1 bodyBottom,
                   Txt (''" stroke="'' @ strokeColor @ ''" stroke-width="''),
                   StyleRaw (strokeWidth config), Txt ''"/>''],
                  [Txt ''<line x1="'', Fixed1 (x + width), Txt ''" y1="'', Fixed1 bodyTop,
                   Txt ''" x2="'', Fixed1 (x + width), Txt ''" y2="'', Fixed1 bodyBottom,
                   Txt (''" stroke="'' @ strokeColor @ ''" stroke-width="''),
                   StyleRaw (strokeWidth config), Txt ''"/>''],
                  [Txt ''<ellipse cx="'', Fixed1 cx, Txt ''" cy="'', Fixed1 bodyTop,
                   Txt ''" rx="'', Fixed1 rx, Txt ''" ry="'', Fixed1 ellipseRy,
                   Txt (''" fill="'' @ fillColor @ ''" fill-opacity="''),
                   StyleRaw (fillOpacity config),
                   Txt (''" stroke="'' @ strokeColor @ ''" stroke-width="''),
                   StyleRaw (strokeWidth config), Txt ''"/>'']],
               seed))\<close>

text \<open>\<open>renderCloud\<close> jitters its eight anchor points first (x before y), then, while
  the path string is built, the two control points of each of the eight curves in
  the order of the text; the curve \<open>k\<close> ends at the anchor after anchor \<open>k\<close>, the
  last one at the first anchor.\<close>

definition renderCloud ::
  "real \<Rightarrow> real \<Rightarrow> real \<Rightarrow> real \<Rightarrow> string \<Rightarrow> string \<Rightarrow> ThemeConfig \<Rightarrow> nat \<Rightarrow> svg \<times> nat" where
  \<open>renderCloud x y width height fillColor strokeColor config seed =
     (let cx = x + width / 2;
          cy = y + height / 2;
          j = jitterAmount config;
          (anchors, s1) =
            jitterPoints
              [(cx, y + height * 0.15),
               (x + width * 0.82, y + height * 0.25),
               (x + width * 0.92, cy + height * 0.05),
               (x + width * 0.8, y + height * 0.8),
               (cx, y + height * 0.88),
               (x + width * 0.2, y + height * 0.8),
               (x + width * 0.08, cy + height * 0.05),
               (x + width * 0.18, y + height * 0.25)] j seed;
          (controls, s2) =
            jitterPoints
              [(x + width * 0.6, y - height * 0.05), (x + width * 0.9, y + height * 0.05),
               (x + width * 1.05, y + height * 0.25), (x + width * 1.02, y + height * 0.55),
               (x + width * 1.0, y + height * 0.75), (x + width * 0.9, y + height * 0.9),
               (x + width * 0.65, y + height * 0.98), (x + width * 0.35, y + height * 0.98),
               (x + width * 0.3, y + height * 0.95), (x + width * 0.1, y + height * 0.9),
               (x - width * 0.02, y + height * 0.75), (x - width * 0.02, y + height * 0.55),
               (x - width * 0.05, y + height * 0.25), (x + width * 0.1, y + height * 0.05),
               (x + width * 0.25, y - height * 0.05), (x + width * 0.4, y - height * 0.05)] j s1;
          curves = map (\<lambda>k. [Txt ''C ''] @ ptSpace (controls ! (2 * k)) @ [Txt '', '']
                             @ ptSpace (controls ! (2 * k + 1)) @ [Txt '', '']
                             @ ptSpace (anchors ! ((k + 1) mod 8)))
                       [0..<8];
          path = [Txt ''M ''] @ ptSpace (anchors ! 0) @ [Txt '' '']
                 @ joinSvg [Txt '' ''] curves @ [Txt '' Z''];
          part1 = [Txt ''<path d="''] @ path
                  @ [Txt (''" fill="'' @ fillColor @ ''" fill-opacity="''),
                     StyleRaw (fillOpacity config),
                     Txt (''" stroke="'' @ strokeColor @ ''" stroke-width="''),
                     StyleRaw (strokeWidth config),
                     Txt ''" stroke-linecap="round" stroke-linejoin="round"/>'']
      in if doubleStroke config
         then (let (ox, s3) = jitter 0 1 s2;
                   (oy, s4) = jitter 0 1 s3;
                   part2 = [Txt ''<path d="''] @ path
                           @ [Txt (''" fill="none" stroke="'' @ strokeColor
                                   @ ''" stroke-width="''),
                              StyleRaw (strokeWidth config * 0.5),
                              Txt ''" stroke-linecap="round" opacity="0.2" transform="translate('',
                              Fixed1 ox, Txt '', '', Fixed1 oy, Txt '')"/>'']
               in (joinSvg newline [part1, part2], s4))
         else (joinSvg newline [part1], s2))\<close>

subsection \<open>Colours\<close>

definition hexDigitVal :: "char \<Rightarrow> nat option" where
  "hexDigitVal c = map_of (zip ''0123456789abcdef'' [0..<16] @ zip ''ABCDEF'' [10..<16]) c"

text \<open>\<open>parseInt(str, 16)\<close>: leading white space is skipped, a sign and a \<open>0x\<close> prefix
  are accepted, the longest run of hexadecimal digits is read; without a digit the
  result is \<open>NaN\<close>, here \<open>None\<close>.\<close>

definition parseIntHex :: "string \<Rightarrow> int option" where
  "parseIntHex str =
     (let s1 = dropWhile isSpace str;
          neg = (take 1 s1 = ''-'');
          s2 = (if take 1 s1 = ''-'' \<or> take 1 s1 = ''+'' then drop 1 s1 else s1);
          s3 = (if take 2 s2 = ''0x'' \<or> take 2 s2 = ''0X'' then drop 2 s2 else s2);
          ds = takeWhile (\<lambda>c. hexDigitVal c \<noteq> None) s3;
          v = foldl (\<lambda>a c. a * 16 + (case hexDigitVal c of Some d \<Rightarrow> d | None \<Rightarrow> 0)) 0 ds
      in if ds = [] then None else Some (if neg then - int v else int v))"

text \<open>\<open>n.toString(16)\<close> for a natural number.\<close>

fun showHex :: "nat \<Rightarrow> string" where
  "showHex n =
     (if n < 16 then [digitChar n]
      else showHex (n div 16) @ [digitChar (n mod 16)])"

declare showHex.simps [simp del]

text \<open>One colour channel of \<open>darkenColor\<close>:
  \<open>Math.max(0, Math.round(r * (1 - amount))).toString(16).padStart(2, "0")\<close>;
  \<open>Math.round\<close> rounds a half up, and \<open>NaN\<close> prints as \<open>NaN\<close>.\<close>

definition darkenChannel :: "int option \<Rightarrow> real \<Rightarrow> string" where
  "darkenChannel r amount =
     (case r of
        None \<Rightarrow> ''NaN''
      | Some v \<Rightarrow>
          (let d = max 0 \<lfloor>real_of_int v * (1 - amount) + 1 / 2\<rfloor>;
               s = showHex (nat d)
           in replicate (2 - length s) (CHR ''0'') @ s))"

definition darkenColor :: "string \<Rightarrow> real \<Rightarrow> string" where
  "darkenColor hex amount =
     (let cleaned = replaceFirst ''#'' [] hex;
          r = parseIntHex (take 2 cleaned);
          g = parseIntHex (take 2 (drop 2 cleaned));
          b = parseIntHex (take 2 (drop 4 cleaned))
      in ''#'' @ darkenChannel r amount @ darkenChannel g amount @ darkenChannel b amount)"

fun getDashArray :: "EdgeStyle \<Rightarrow> string option" where
  "getDashArray Solid = None"
| "getDashArray Dashed = Some ''8,4''"
| "getDashArray Dotted = Some ''3,3''"

subsection \<open>The shape dispatcher\<close>

definition renderShape :: "LayoutNode \<Rightarrow> ThemeConfig \<Rightarrow> nat \<Rightarrow> nat \<Rightarrow> svg \<times> nat" where
  \<open>renderShape node config colorIndex seed =
     (let fillColor = (case ln_color node of Some c \<Rightarrow> c
                       | None \<Rightarrow> PALETTE ! (colorIndex mod length PALETTE));
          strokeColor = darkenColor fillColor 0.3;
          textColor = (case ln_textColor node of Some c \<Rightarrow> c | None \<Rightarrow> ''#333333'');
          x = ln_x node; y = ln_y node; width = ln_width node; height = ln_height node;
          (shapeSvg, seed') =
            (case ln_shape node of
               Rectangle \<Rightarrow> renderRectangle x y width height fillColor strokeColor config seed
             | Ellipse \<Rightarrow>
                 renderEllipse (x + width / 2) (y + height / 2) (width / 2) (height / 2)
                   fillColor strokeColor config seed
             | Diamond \<Rightarrow> renderDiamond x y width height fillColor strokeColor config seed
             | Cylinder \<Rightarrow> renderCylinder x y width height fillColor strokeColor config seed
             | Cloud \<Rightarrow> renderCloud x y width height fillColor strokeColor config seed
             | Hexagon \<Rightarrow> renderHexagon x y width height fillColor strokeColor config seed
             | Parallelogram \<Rightarrow>
                 renderParallelogram x y width height fillColor strokeColor config seed);
          textX = x + width / 2;
          textY = y + height / 2
                  + (if ln_shape node = Cylinder then min 15 (height * 0.15) / 2
                     else if ln_shape node = Cloud then height * 0.04
                     else 0);
          label = renderText textX textY (ln_label node) 14 (fontFamily config) textColor
                    \<lparr> to_bold = False, to_maxCharsPerLine = Some 18 \<rparr>
      in ([Txt (''<g class="node" data-id="'' @ escapeXml (ln_id node) @ ''">''),
           Txt [CHR 0x0A]] @ shapeSvg @ [Txt [CHR 0x0A]] @ label
          @ [Txt [CHR 0x0A], Txt ''</g>''],
          seed'))\<close>

subsection \<open>Arrowheads, edges, groups and titles\<close>

text \<open>\<open>Math.atan2(y, x)\<close>\<close>

definition atan2 :: "real \<Rightarrow> real \<Rightarrow> real" where
  "atan2 y x =
     (if x > 0 then arctan (y / x)
      else if x < 0 then (if y \<ge> 0 then arctan (y / x) + pi else arctan (y / x) - pi)
      else if y > 0 then pi / 2
      else if y < 0 then - (pi / 2)
      else 0)"

definition renderArrowhead ::
  "real \<Rightarrow> real \<Rightarrow> real \<Rightarrow> real \<Rightarrow> string \<Rightarrow> ThemeConfig \<Rightarrow> nat \<Rightarrow> svg \<times> nat" where
  \<open>renderArrowhead tipX tipY fromX fromY color config seed =
     (let size' = 10;
          angle = atan2 (tipY - fromY) (tipX - fromX);
          leftAngle = angle + pi * 0.82;
          rightAngle = angle - pi * 0.82;
          x1 = tipX + size' * cos leftAngle;
          y1 = tipY + size' * sin leftAngle;
          x2 = tipX + size' * cos rightAngle;
          y2 = tipY + size' * sin rightAngle;
          ja = jitterAmount config;
          (jx1, s1) = jitter x1 (ja * 0.5) seed;
          (jy1, s2) = jitter y1 (ja * 0.5) s1;
          (jx2, s3) = jitter x2 (ja * 0.5) s2;
          (jy2, s4) = jitter y2 (ja * 0.5) s3;
          (jtx, s5) = jitter tipX (ja * 0.3) s4;
          (jty, s6) = jitter tipY (ja * 0.3) s5
      in ([Txt ''<polygon points="''] @ ptComma (jtx, jty) @ [Txt '' ''] @ ptComma (jx1, jy1)
          @ [Txt '' ''] @ ptComma (jx2, jy2)
          @ [Txt (''" fill="'' @ color @ ''" stroke="'' @ color @ ''" stroke-width="''),
             StyleRaw (strokeWidth config * 0.5), Txt ''" stroke-linejoin="round"/>''],
          s6))\<close>

text \<open>\<open>renderEdge\<close>. Its parameter \<open>nodesById\<close> is not read by the source.\<close>

definition renderEdge ::
  "LayoutEdge \<Rightarrow> (string \<rightharpoonup> LayoutNode) \<Rightarrow> ThemeConfig \<Rightarrow> nat \<Rightarrow> svg \<times> nat" where
  \<open>renderEdge edge nodesById config seed =
     (let points = le_points edge;
          label = le_label edge
      in if length points < 2 then ([], seed)
         else
          (let strokeColor = (case le_color edge of Some c \<Rightarrow> c | None \<Rightarrow> ''#666666'');
               dashArray = getDashArray (le_style edge);
               (line, s1) = sketchyPolyline points config strokeColor dashArray seed;
               (arrowsFwd, s2) =
                 (if le_direction edge = Forward \<or> le_direction edge = Both
                  then (let tip = points ! (length points - 1);
                            from' = points ! (length points - 2);
                            (a, s) = renderArrowhead (fst tip) (snd tip) (fst from') (snd from')
                                       strokeColor config s1
                        in ([a], s))
                  else ([], s1));
               (arrowsBwd, s3) =
                 (if le_direction edge = Backward \<or> le_direction edge = Both
                  then (let tip = points ! 0;
                            from' = points ! 1;
                            (a, s) = renderArrowhead (fst tip) (snd tip) (fst from') (snd from')
                                       strokeColor config s2
                        in ([a], s))
                  else ([], s2));
               labelParts =
                 (case label of
                    None \<Rightarrow> []
                  | Some lbl \<Rightarrow>
                      if lbl = [] then []
                      else
                       (let midIdx = length points div 2;
                            mx = (if length points mod 2 = 0
                                  then (fst (points ! (midIdx - 1)) + fst (points ! midIdx)) / 2
                                  else fst (points ! midIdx));
                            my = (if length points mod 2 = 0
                                  then (snd (points ! (midIdx - 1)) + snd (points ! midIdx)) / 2
                                  else snd (points ! midIdx));
                            labelWidth = max (real (length lbl) * 7 + 12) 30;
                            labelHeight = 20
                        in [[Txt ''<rect x="'', Fixed1 (mx - labelWidth / 2),
                             Txt ''" y="'', Fixed1 (my - labelHeight / 2 - 2),
                             Txt ''" width="'', Fixed1 labelWidth,
                             Txt ''" height="'', Fixed1 labelHeight,
                             Txt ''" rx="3" ry="3" fill="white" fill-opacity="0.9" stroke="none"/>''],
                            renderText mx (my - 2) lbl 12 (fontFamily config) strokeColor
                              noOpts]));
               parts = [line] @ arrowsFwd @ arrowsBwd @ labelParts
           in ([Txt (''<g class="edge" data-from="'' @ escapeXml (le_from edge)
                     @ ''" data-to="'' @ escapeXml (le_to edge) @ ''">''),
                Txt [CHR 0x0A]] @ joinSvg newline parts @ [Txt [CHR 0x0A], Txt ''</g>''],
               s3)))\<close>

definition renderGroup :: "LayoutGroup \<Rightarrow> ThemeConfig \<Rightarrow> nat \<Rightarrow> svg \<times> nat" where
  \<open>renderGroup grp config seed =
     (let x = lg_x grp; y = lg_y grp; width = lg_width grp; height = lg_height grp;
          label = lg_label grp;
          strokeColor = (case lg_color grp of Some c \<Rightarrow> c | None \<Rightarrow> ''#AAAAAA'');
          fillColor = (case lg_color grp of Some c \<Rightarrow> c | None \<Rightarrow> ''#F5F5F5'');
          (boxParts, seed') =
            (if jitterAmount config > 0
             then (let (points, s1) =
                         jitterPoints
                           [(x, y), (x + width, y), (x + width, y + height), (x, y + height)]
                           (jitterAmount config) seed;
                       fillPath =
                         [Txt ''<path d="M ''] @ joinSvg [Txt '' L ''] (map ptSpace points)
                         @ [Txt ('' Z" fill="'' @ fillColor
                                 @ ''" fill-opacity="0.05" stroke="none"/>'')];
                       (edges, s2) = outline points config strokeColor (Some ''6,4'') s1
                   in (fillPath # edges, s2))
             else ([[Txt ''<rect x="'', Fixed1 x, Txt ''" y="'', Fixed1 y,
                     Txt ''" width="'', Fixed1 width, Txt ''" height="'', Fixed1 height,
                     Txt ''" rx="'', StyleRaw (cornerRadius config),
                     Txt ''" ry="'', StyleRaw (cornerRadius config),
                     Txt (''" fill="'' @ fillColor
                          @ ''" fill-opacity="0.05" stroke="'' @ strokeColor
                          @ ''" stroke-width="''),
                     StyleRaw (strokeWidth config), Txt ''" stroke-dasharray="6,4"/>'']],
                   seed));
          labelParts =
            (case label of
               None \<Rightarrow> []
             | Some lbl \<Rightarrow>
                 if lbl = [] then []
                 else [replaceFirstF ''text-anchor="middle"'' ''text-anchor="start"''
                         (renderText (x + 12) (y + 14) lbl 12 (fontFamily config) strokeColor
                            \<lparr> to_bold = False, to_maxCharsPerLine = None \<rparr>)]);
          parts = boxParts @ labelParts
      in ([Txt (''<g class="group" data-id="'' @ escapeXml (lg_id grp) @ ''">''),
           Txt [CHR 0x0A]] @ joinSvg newline parts @ [Txt [CHR 0x0A], Txt ''</g>''],
          seed'))\<close>

definition renderTitle :: "string \<Rightarrow> real \<Rightarrow> ThemeConfig \<Rightarrow> svg" where
  "renderTitle title svgWidth config =
     renderText (svgWidth / 2) 24 title 18 (fontFamily config) ''#333333''
       \<lparr> to_bold = True, to_maxCharsPerLine = None \<rparr>"

subsection \<open>Sequence diagram helpers\<close>

definition renderParticipantBox ::
  "SequenceParticipant \<Rightarrow> real \<Rightarrow> ThemeConfig \<Rightarrow> nat \<Rightarrow> nat \<Rightarrow> svg \<times> nat" where
  "renderParticipantBox participant yTop config colorIndex seed =
     (let boxHeight = 40;
          fillColor = (case sp_color participant of Some c \<Rightarrow> c
                       | None \<Rightarrow> PALETTE ! (colorIndex mod length PALETTE));
          strokeColor = darkenColor fillColor 0.3;
          bx = sp_x participant - sp_width participant / 2;
          by' = yTop;
          (box, seed') =
            renderRectangle bx by' (sp_width participant) boxHeight fillColor strokeColor
              config seed;
          label = renderText (sp_x participant) (by' + boxHeight / 2) (sp_label participant) 13
                    (fontFamily config) ''#333333''
                    \<lparr> to_bold = False, to_maxCharsPerLine = Some 18 \<rparr>
      in (joinSvg newline [box, label], seed'))"

definition renderLifeline :: "SequenceParticipant \<Rightarrow> ThemeConfig \<Rightarrow> nat \<Rightarrow> svg \<times> nat" where
  "renderLifeline participant config seed =
     (let startY = sp_topY participant + 40;
          endY = sp_bottomY participant
      in sketchyLine (sp_x participant) startY (sp_x participant) endY config ''#999999''
           (Some ''6,4'') seed)"

definition renderMessage ::
  "SequenceMessage \<Rightarrow> (string \<rightharpoonup> SequenceParticipant) \<Rightarrow> ThemeConfig \<Rightarrow> nat \<Rightarrow> svg \<times> nat" where
  \<open>renderMessage msg participantsById config seed =
     (case (participantsById (sm_from msg), participantsById (sm_to msg)) of
        (Some fromP, Some toP) \<Rightarrow>
          (let strokeColor = (case sm_color msg of Some c \<Rightarrow> c | None \<Rightarrow> ''#666666'');
               dashArray = getDashArray (sm_style msg);
               (parts, seed') =
                 (if sm_isSelfMessage msg
                  then
                   (let sx = sp_x fromP;
                        sy = sm_y msg;
                        loopWidth = 30;
                        loopHeight = 20;
                        dash = dashAttr dashArray;
                        (corners, s1) =
                          (if jitterAmount config > 0
                           then jitterPoints
                                  [(sx, sy), (sx + loopWidth, sy),
                                   (sx + loopWidth, sy + loopHeight), (sx, sy + loopHeight)]
                                  (jitterAmount config) seed
                           else ([(sx, sy), (sx + loopWidth, sy),
                                  (sx + loopWidth, sy + loopHeight), (sx, sy + loopHeight)],
                                 seed));
                        path = [Txt ''M ''] @ joinSvg [Txt '' L ''] (map ptSpace corners);
                        loop = [Txt ''<path d="''] @ path
                               @ [Txt (''" fill="none" stroke="'' @ strokeColor
                                       @ ''" stroke-width="''),
                                  StyleRaw (strokeWidth config),
                                  Txt (''" stroke-linecap="round"'' @ dash @ ''/>'')];
                        (arrow, s2) =
                          renderArrowhead (sp_x fromP) (sm_y msg + loopHeight)
                            (sp_x fromP + loopWidth) (sm_y msg + loopHeight) strokeColor config s1;
                        labelX = sx + loopWidth + 8;
                        labelY = sy + loopHeight / 2;
                        label = replaceFirstF ''text-anchor="middle"'' ''text-anchor="start"''
                                  (renderText labelX labelY (sm_label msg) 12 (fontFamily config)
                                     strokeColor noOpts)
                    in ([loop, arrow, label], s2))
                  else
                   (let fromX = sp_x fromP;
                        toX = sp_x toP;
                        y = sm_y msg;
                        linePoints = [(fromX, y), (toX, y)];
                        (line, s1) = sketchyPolyline linePoints config strokeColor dashArray seed;
                        (arrow, s2) = renderArrowhead toX y fromX y strokeColor config s1;
                        midX = (fromX + toX) / 2;
                        labelY = y - 8;
                        labelWidth = max (real (length (sm_label msg)) * 7 + 12) 30;
                        labelHeight = 18;
                        background =
                          [Txt ''<rect x="'', Fixed1 (midX - labelWidth / 2),
                           Txt ''" y="'', Fixed1 (labelY - labelHeight / 2),
                           Txt ''" width="'', Fixed1 labelWidth,
                           Txt ''" height="'', Fixed1 labelHeight,
                           Txt ''" rx="3" ry="3" fill="white" fill-opacity="0.9" stroke="none"/>''];
                        label = renderText midX labelY (sm_label msg) 12 (fontFamily config)
                                  strokeColor noOpts
                    in ([line, arrow, background, label], s2)))
           in ([Txt ''<g class="message">'', Txt [CHR 0x0A]] @ joinSvg newline parts
               @ [Txt [CHR 0x0A], Txt ''</g>''],
               seed'))
      | _ \<Rightarrow> ([], seed))\<close>

subsection \<open>The public rendering functions\<close>

text \<open>The content parts of a flow diagram, in the order the source pushes them:
  groups, edges, nodes (a node's palette colour is chosen by its index).\<close>

definition flowContentParts :: "LayoutResult \<Rightarrow> ThemeConfig \<Rightarrow> nat \<Rightarrow> svg list \<times> nat" where
  "flowContentParts layout config seed =
     (let nodesById = fold (\<lambda>node m. m(ln_id node \<mapsto> node)) (lr_nodes layout) Map.empty;
          (groupParts, s1) = mapS (\<lambda>grp. renderGroup grp config) (lr_groups layout) seed;
          (edgeParts, s2) = mapS (\<lambda>edge. renderEdge edge nodesById config) (lr_edges layout) s1;
          (nodeParts, s3) =
            mapS (\<lambda>(node, i). renderShape node config i)
                 (zip (lr_nodes layout) [0..<length (lr_nodes layout)]) s2
      in (groupParts @ edgeParts @ nodeParts, s3))"

text \<open>The content parts of a sequence diagram: lifelines, messages, participant
  boxes at the top, participant boxes at the bottom. The lookup map is filled by
  \<open>for (const p of layout.participants) participantsById.set(p.id, p)\<close>.\<close>

definition participantsByIdOf :: "SequenceParticipant list \<Rightarrow> (string \<rightharpoonup> SequenceParticipant)" where
  "participantsByIdOf participants = fold (\<lambda>p m. m(sp_id p \<mapsto> p)) participants Map.empty"

definition sequenceContentParts ::
  "SequenceLayoutResult \<Rightarrow> ThemeConfig \<Rightarrow> nat \<Rightarrow> svg list \<times> nat" where
  "sequenceContentParts layout config seed =
     (let participants = sl_participants layout;
          participantsById = participantsByIdOf participants;
          (lifelines, s1) = mapS (\<lambda>p. renderLifeline p config) participants seed;
          (messages, s2) =
            mapS (\<lambda>msg. renderMessage msg participantsById config) (sl_messages layout) s1;
          (topBoxes, s3) =
            mapS (\<lambda>(p, i). renderParticipantBox p (sp_topY p) config i)
                 (zip participants [0..<length participants]) s2;
          (bottomBoxes, s4) =
            mapS (\<lambda>(p, i). renderParticipantBox p (sp_bottomY p) config i)
                 (zip participants [0..<length participants]) s3
      in (lifelines @ messages @ topBoxes @ bottomBoxes, s4))"

text \<open>The document around the content parts, the same code in both rendering
  functions: the builder gets the title, if there is one, and then either one group
  translated by the title offset or every content part as an element of its own.\<close>

definition assembleSvg ::
  "real \<Rightarrow> real \<Rightarrow> string option \<Rightarrow> ThemeConfig \<Rightarrow> svg list \<Rightarrow> svg" where
  \<open>assembleSvg layoutWidth layoutHeight title config contentParts =
     (let titleOffset = (if truthy title then 40 else 0);
          svgWidth = layoutWidth;
          svgHeight = layoutHeight + titleOffset;
          svg0 = newSvgBuilder svgWidth svgHeight;
          svg1 = (case title of
                    Some t \<Rightarrow> if t \<noteq> [] then addElement (renderTitle t svgWidth config) svg0
                              else svg0
                  | None \<Rightarrow> svg0);
          svg2 = (if titleOffset > 0
                  then addElement
                         ([Txt ''<g transform="translate(0, '', CoordRaw titleOffset, Txt '')">'',
                           Txt [CHR 0x0A]] @ joinSvg newline contentParts
                          @ [Txt [CHR 0x0A], Txt ''</g>''])
                         svg1
                  else fold addElement contentParts svg1)
      in SvgBuilder_toString svg2)\<close>

text \<open>\<open>renderFlowDiagram\<close> and \<open>renderSequenceDiagram\<close> take the value of the module
  variable \<open>seed\<close> at the call and return the string with the value they leave.
  The functions with the suffix \<open>Svg\<close> give the fragments of the string.\<close>

definition renderFlowDiagramSvg ::
  "LayoutResult \<Rightarrow> Theme \<Rightarrow> string option \<Rightarrow> nat \<Rightarrow> svg \<times> nat" where
  "renderFlowDiagramSvg layout theme title seed0 =
     (let seed = resetSeed seed0;
          config = getThemeConfig theme;
          (contentParts, seed') = flowContentParts layout config seed
      in (assembleSvg (lr_width layout) (lr_height layout) title config contentParts, seed'))"

definition renderFlowDiagram ::
  "LayoutResult \<Rightarrow> Theme \<Rightarrow> string option \<Rightarrow> nat \<Rightarrow> string \<times> nat" where
  "renderFlowDiagram layout theme title seed0 =
     (let (doc, seed') = renderFlowDiagramSvg layout theme title seed0 in (render doc, seed'))"

definition renderSequenceDiagramSvg ::
  "SequenceLayoutResult \<Rightarrow> Theme \<Rightarrow> string option \<Rightarrow> nat \<Rightarrow> svg \<times> nat" where
  "renderSequenceDiagramSvg layout theme title seed0 =
     (let seed = resetSeed seed0;
          config = getThemeConfig theme;
          (contentParts, seed') = sequenceContentParts layout config seed
      in (assembleSvg (sl_width layout) (sl_height layout) title config contentParts, seed'))"

definition renderSequenceDiagram ::
  "SequenceLayoutResult \<Rightarrow> Theme \<Rightarrow> string option \<Rightarrow> nat \<Rightarrow> string \<times> nat" where
  "renderSequenceDiagram layout theme title seed0 =
     (let (doc, seed') = renderSequenceDiagramSvg layout theme title seed0
      in (render doc, seed'))"

section \<open>The entry point (index.ts, export.ts)\<close>

record GenerateResult =
  gr_svg :: string
  gr_png :: "nat list option"

text \<open>The rasteriser is external: \<open>resvg\<close> takes the SVG string and the zoom factor
  and gives the bytes of the PNG, or fails.\<close>

definition svgToPng :: "(string \<Rightarrow> real \<Rightarrow> error + nat list) \<Rightarrow> string \<Rightarrow> error + nat list" where
  "svgToPng resvg svgString = resvg svgString 2"

definition renderDiagram ::
  "(ElkNode \<Rightarrow> error + ElkNode) \<Rightarrow> DiagramDef \<Rightarrow> nat \<Rightarrow> error + string \<times> nat" where
  "renderDiagram elk diagram seed =
     (case diagram of
        Flow flow \<Rightarrow>
          bindE (layoutFlowDiagram elk flow) (\<lambda>layout.
            Inr (renderFlowDiagram layout (fd_style flow) (fd_title flow) seed))
      | Sequence seq \<Rightarrow>
          (let layout = layoutSequenceDiagram seq
           in Inr (renderSequenceDiagram layout (sd_style seq) (sd_title seq) seed)))"

definition generateDiagram ::
  "(ElkNode \<Rightarrow> error + ElkNode) \<Rightarrow> (string \<Rightarrow> real \<Rightarrow> error + nat list) \<Rightarrow> raw \<Rightarrow> bool \<Rightarrow> nat
     \<Rightarrow> error + GenerateResult \<times> nat" where
  "generateDiagram elk resvg input png seed =
     bindE (parseDiagram input) (\<lambda>diagram.
     bindE (renderDiagram elk diagram seed) (\<lambda>(svgString, seed').
       if png
       then bindE (svgToPng resvg svgString) (\<lambda>bytes.
              Inr (\<lparr> gr_svg = svgString, gr_png = Some bytes \<rparr>, seed'))
       else Inr (\<lparr> gr_svg = svgString, gr_png = None \<rparr>, seed')))"

section \<open>Example inputs\<close>

definition exampleSequence :: SequenceDiagramDef where
  "exampleSequence =
     \<lparr> sd_title = Some ''Auth'',
       sd_participants =
         [\<lparr> pd_id = ''a'', pd_label = ''Client'', pd_color = None \<rparr>,
          \<lparr> pd_id = ''b'', pd_label = ''Server'', pd_color = None \<rparr>],
       sd_messages =
         [\<lparr> md_from = ''a'', md_to = ''a'', md_label = ''tick'', md_style = Solid,
            md_color = None \<rparr>,
          \<lparr> md_from = ''a'', md_to = ''b'', md_label = ''request'', md_style = Solid,
            md_color = None \<rparr>,
          \<lparr> md_from = ''b'', md_to = ''a'', md_label = ''response'', md_style = Dashed,
            md_color = None \<rparr>],
       sd_style = HandDrawn, sd_output = None \<rparr>"

definition emptySequenceInput :: raw where
  "emptySequenceInput =
     RObj [(''type'', RStr ''sequence''), (''participants'', RArr []), (''messages'', RArr [])]"

definition exampleFlow :: FlowDiagramDef where
  "exampleFlow =
     \<lparr> fd_title = None,
       fd_nodes =
         [\<lparr> nd_id = ''a'', nd_label = ''Start'', nd_shape = Ellipse, nd_color = None,
            nd_textColor = None, nd_width = None, nd_height = None \<rparr>,
          \<lparr> nd_id = ''b'', nd_label = ''End'', nd_shape = Rectangle, nd_color = None,
            nd_textColor = None, nd_width = None, nd_height = None \<rparr>],
       fd_edges =
         [\<lparr> ed_from = ''a'', ed_to = ''b'', ed_label = None, ed_style = Solid,
            ed_direction = Forward, ed_color = None \<rparr>],
       fd_groups = [],
       fd_style = Clean, fd_direction = TB, fd_output = None \<rparr>"

text \<open>A positioned graph as the layout service returns it for \<open>exampleFlow\<close>: two
  nodes one below the other and one routed edge.\<close>

definition exampleElkResult :: ElkNode where
  "exampleElkResult =
     ElkNode ''root'' None None (Some 120) (Some 200) [] []
       [ElkNode ''a'' (Some 0) (Some 0) (Some 120) (Some 60) [''Start''] [] [] [],
        ElkNode ''b'' (Some 0) (Some 140) (Some 120) (Some 60) [''End''] [] [] []]
       [\<lparr> ee_id = ''e0_a_b'', ee_sources = [''a''], ee_targets = [''b''], ee_labels = [],
          ee_sections = [\<lparr> es_startPoint = (60, 60), es_bendPoints = [],
                           es_endPoint = (60, 140) \<rparr>] \<rparr>]"

definition exampleElk :: "ElkNode \<Rightarrow> error + ElkNode" where
  "exampleElk graph = Inr exampleElkResult"

definition exampleSequenceLayout :: SequenceLayoutResult where
  "exampleSequenceLayout =
     \<lparr> sl_width = 400, sl_height = 300,
       sl_participants =
         [\<lparr> sp_id = ''a'', sp_label = ''Client'', sp_x = 100, sp_topY = 40, sp_bottomY = 250,
            sp_width = 100, sp_color = None \<rparr>,
          \<lparr> sp_id = ''b'', sp_label = ''Server'', sp_x = 300, sp_topY = 40, sp_bottomY = 250,
            sp_width = 100, sp_color = None \<rparr>],
       sl_messages =
         [\<lparr> sm_from = ''a'', sm_to = ''b'', sm_label = ''request'', sm_y = 130,
            sm_style = Solid, sm_color = None, sm_isSelfMessage = False \<rparr>,
          \<lparr> sm_from = ''a'', sm_to = ''ghost'', sm_label = ''lost'', sm_y = 180,
            sm_style = Solid, sm_color = None, sm_isSelfMessage = False \<rparr>,
          \<lparr> sm_from = ''b'', sm_to = ''a'', sm_label = ''response'', sm_y = 230,
            sm_style = Dashed, sm_color = None, sm_isSelfMessage = False \<rparr>] \<rparr>"


definition exampleFlowInput :: raw where
  "exampleFlowInput =
     RObj [(''type'', RStr ''flow''),
           (''nodes'', RArr [RObj [(''id'', RStr ''a''), (''label'', RStr ''Start''),
                                   (''shape'', RStr ''ellipse'')],
                             RObj [(''id'', RStr ''b''), (''label'', RStr ''End'')]]),
           (''edges'', RArr [RObj [(''from'', RStr ''a''), (''to'', RStr ''b'')]]),
           (''style'', RStr ''clean'')]"

text \<open>A rasteriser that is not available.\<close>

definition noResvg :: "string \<Rightarrow> real \<Rightarrow> error + nat list" where
  "noResvg svgString scale = Inl PngError"

definition longLabelInput :: raw where
  "longLabelInput =
     RObj [(''type'', RStr ''flow''),
           (''nodes'', RArr [RObj [(''id'', RStr ''n''),
                                   (''label'', RStr ''Validate the request body'')]]),
           (''style'', RStr ''clean'')]"

text \<open>A positioned graph as the layout service returns it for \<open>longLabelInput\<close>.\<close>

definition longLabelElk :: "ElkNode \<Rightarrow> error + ElkNode" where
  "longLabelElk graph =
     Inr (ElkNode ''root'' None None (Some 314) (Some 84) [] []
            [ElkNode ''n'' (Some 12) (Some 12) (Some 290) (Some 60)
               [''Validate the request body''] [] [] []]
            [])"

definition longLabelLayout :: LayoutResult where
  "longLabelLayout =
     \<lparr> lr_width = 394, lr_height = 164,
       lr_nodes =
         [\<lparr> ln_id = ''n'', ln_x = 52, ln_y = 52, ln_width = 290, ln_height = 60,
            ln_label = ''Validate the request body'', ln_shape = Rectangle, ln_color = None,
            ln_textColor = None \<rparr>],
       lr_edges = [], lr_groups = [] \<rparr>"

section \<open>Properties of the random number generator\<close>

lemma pseudoRandom_snd: "snd (pseudoRandom s) = (s * 16807) mod 2147483647"
  by (simp add: pseudoRandom_def Let_def)

lemma pseudoRandom_fst:
  "fst (pseudoRandom s) = (real ((s * 16807) mod 2147483647) - 1) / 2147483646"
  by (simp add: pseudoRandom_def Let_def)

lemma minstd_step_pos:
  assumes "1 \<le> s" and "s \<le> 2147483646"
  shows "(s * 16807) mod 2147483647 \<noteq> (0::nat)"
proof
  assume "(s * 16807) mod 2147483647 = (0::nat)"
  then have "(2147483647::nat) dvd s * 16807"
    by (simp add: dvd_eq_mod_eq_0)
  then have "(2147483647::nat) dvd (s * 16807) * 1407677000"
    by (rule dvd_mult2)
  moreover have "(s * 16807) * 1407677000 = s + 2147483647 * (11017 * s)"
    by simp
  ultimately have "(2147483647::nat) dvd s + 2147483647 * (11017 * s)"
    by simp
  then have "(2147483647::nat) dvd s"
    by (metis dvd_add_triv_right_iff dvd_triv_left dvd_add_left_iff)
  with assms show False
    by (auto dest: dvd_imp_le)
qed

lemma minstd_step_range:
  assumes "1 \<le> s" and "s \<le> 2147483646"
  shows "1 \<le> snd (pseudoRandom s) \<and> snd (pseudoRandom s) \<le> 2147483646"
proof -
  have "(s * 16807) mod 2147483647 < (2147483647::nat)"
    by simp
  moreover have "(s * 16807) mod 2147483647 \<noteq> (0::nat)"
    using assms by (rule minstd_step_pos)
  ultimately show ?thesis
    by (simp add: pseudoRandom_snd)
qed

lemma seedAfter_range:
  "1 \<le> s \<Longrightarrow> s \<le> 2147483646 \<Longrightarrow>
     1 \<le> seedAfter n s \<and> seedAfter n s \<le> 2147483646"
proof (induction n arbitrary: s)
  case 0
  then show ?case by simp
next
  case (Suc n)
  from Suc.prems have "1 \<le> snd (pseudoRandom s) \<and> snd (pseudoRandom s) \<le> 2147483646"
    by (rule minstd_step_range)
  then have "1 \<le> seedAfter n (snd (pseudoRandom s))
      \<and> seedAfter n (snd (pseudoRandom s)) \<le> 2147483646"
    using Suc.IH by blast
  then show ?case
    by simp
qed

lemma pseudoRandom_unit_interval:
  assumes "1 \<le> s" and "s \<le> 2147483646"
  shows "0 \<le> fst (pseudoRandom s) \<and> fst (pseudoRandom s) < 1"
proof -
  let ?t = "snd (pseudoRandom s)"
  have r: "1 \<le> ?t \<and> ?t \<le> 2147483646"
    using assms by (rule minstd_step_range)
  have f: "fst (pseudoRandom s) = (real ?t - 1) / 2147483646"
    by (simp add: pseudoRandom_fst pseudoRandom_snd)
  from r have "0 \<le> real ?t - 1" and "real ?t - 1 < 2147483646"
    by simp_all
  then show ?thesis
    unfolding f by simp
qed

text \<open>
  Claim C9. From the seed 42 (the initial value, and the value after every
  \<open>resetSeed\<close>), each call of \<open>pseudoRandom\<close> replaces the state \<open>s\<close> by
  \<open>(s * 16807) mod 2147483647\<close> and returns \<open>(s - 1) / 2147483646\<close> of the new
  state; after any number \<open>n\<close> of calls the state is still between 1 and
  2147483646, and the next value returned lies in the half-open interval from 0 to 1.
\<close>

theorem C9_pseudoRandom_lcg_range:
  "initialSeed = 42 \<and> resetSeed s0 = 42
   \<and> snd (pseudoRandom s) = (s * 16807) mod 2147483647
   \<and> fst (pseudoRandom s) = (real (snd (pseudoRandom s)) - 1) / 2147483646
   \<and> 1 \<le> seedAfter n (resetSeed s0) \<and> seedAfter n (resetSeed s0) \<le> 2147483646
   \<and> 0 \<le> fst (pseudoRandom (seedAfter n (resetSeed s0)))
   \<and> fst (pseudoRandom (seedAfter n (resetSeed s0))) < 1"
proof -
  have start: "1 \<le> resetSeed s0" "resetSeed s0 \<le> 2147483646"
    by (simp_all add: resetSeed_def)
  have inv: "1 \<le> seedAfter n (resetSeed s0) \<and> seedAfter n (resetSeed s0) \<le> 2147483646"
    using start by (rule seedAfter_range)
  then have unit: "0 \<le> fst (pseudoRandom (seedAfter n (resetSeed s0)))
      \<and> fst (pseudoRandom (seedAfter n (resetSeed s0))) < 1"
    by (simp add: pseudoRandom_unit_interval)
  have step: "snd (pseudoRandom s) = (s * 16807) mod 2147483647
      \<and> fst (pseudoRandom s) = (real (snd (pseudoRandom s)) - 1) / 2147483646"
    by (simp add: pseudoRandom_fst pseudoRandom_snd)
  show ?thesis
    using inv unit step by (simp add: initialSeed_def resetSeed_def)
qed

section \<open>Properties of jitter\<close>

text \<open>
  Claim C4, as amended. For every amount other than 0, \<open>jitter\<close> draws one random
  number \<open>r\<close> and returns \<open>v + (r - 0.5) * 2 * amount\<close>, and \<open>jitterPoint\<close> draws
  exactly two consecutive random numbers, the first for x and the second for y.
  For the amount 0 the guard of \<open>jitter\<close> returns the value unchanged without
  drawing, so \<open>jitterPoint\<close> draws nothing and leaves the seed as it was.
\<close>

theorem C4_jitter_draws:
  "(amount \<noteq> 0 \<longrightarrow>
      jitter v amount seed =
        (v + (fst (pseudoRandom seed) - 0.5) * 2 * amount, snd (pseudoRandom seed))
      \<and> jitterPoint x y amount seed =
        ((x + (fst (pseudoRandom seed) - 0.5) * 2 * amount,
          y + (fst (pseudoRandom (snd (pseudoRandom seed))) - 0.5) * 2 * amount),
         snd (pseudoRandom (snd (pseudoRandom seed)))))
   \<and> jitter v 0 seed = (v, seed)
   \<and> jitterPoint x y 0 seed = ((x, y), seed)"
  by (simp add: jitter_def jitterPoint_def Let_def split_beta)

theorem C4_jitter_draws_witness:
  "(2::real) \<noteq> 0
   \<and> jitter 10 2 42 = (10 + (fst (pseudoRandom 42) - 0.5) * 2 * 2, snd (pseudoRandom 42))
   \<and> snd (jitterPoint 10 20 2 42) = 1126542223
   \<and> jitterPoint 10 20 0 42 = ((10, 20), 42)"
  using C4_jitter_draws [of 2 10 42 10 20]
  by (simp add: pseudoRandom_snd)

text \<open>
  The claim as stated fails at the amount 0: two consecutive draws from the seed 42
  would leave the seed 1126542223, but \<open>jitterPoint\<close> leaves it at 42.
\<close>

theorem C4_jitterPoint_zero_counterexample:
  "jitterPoint 1 2 0 42 \<noteq>
     ((1 + (fst (pseudoRandom 42) - 0.5) * 2 * 0,
       2 + (fst (pseudoRandom (snd (pseudoRandom 42))) - 0.5) * 2 * 0),
      snd (pseudoRandom (snd (pseudoRandom 42))))"
  by (simp add: jitterPoint_def jitter_def pseudoRandom_snd)

section \<open>Properties of escapeXml\<close>

lemma replaceAllChar_removes:
  "c \<notin> set r \<Longrightarrow> c \<notin> set (replaceAllChar c r str)"
  by (induction str) (auto simp: replaceAllChar_def)

lemma replaceAllChar_keeps_absent:
  "d \<notin> set str \<Longrightarrow> d \<notin> set r \<Longrightarrow> d \<notin> set (replaceAllChar c r str)"
  by (induction str) (auto simp: replaceAllChar_def)

lemma replaceAllChar_Nil: "replaceAllChar c r [] = []"
  by (simp add: replaceAllChar_def)

lemma replaceAllChar_append:
  "replaceAllChar c r (xs @ ys) = replaceAllChar c r xs @ replaceAllChar c r ys"
  by (simp add: replaceAllChar_def)

lemma replaceAllChar_Cons:
  "replaceAllChar c r (x # xs) = (if x = c then r else [x]) @ replaceAllChar c r xs"
  by (simp add: replaceAllChar_def)

lemma escapeXml_Nil: "escapeXml [] = []"
  by (simp add: escapeXml_def replaceAllChar_Nil)

lemma escapeXml_append: "escapeXml (xs @ ys) = escapeXml xs @ escapeXml ys"
  by (simp add: escapeXml_def replaceAllChar_append)

lemma escapeXml_single: "escapeXml [c] = xmlEntity c"
  by (simp add: escapeXml_def xmlEntity_def replaceAllChar_Cons replaceAllChar_Nil)

lemma escapeXml_Cons: "escapeXml (c # cs) = xmlEntity c @ escapeXml cs"
  using escapeXml_append [of "[c]" cs] by (simp add: escapeXml_single)

lemma escapeXml_concat: "escapeXml str = concat (map xmlEntity str)"
  by (induction str) (simp_all add: escapeXml_Nil escapeXml_Cons)

lemma xmlEntity_safe:
  \<open>CHR ''<'' \<notin> set (xmlEntity c) \<and> CHR ''>'' \<notin> set (xmlEntity c)
   \<and> CHR ''"'' \<notin> set (xmlEntity c) \<and> CHR 0x27 \<notin> set (xmlEntity c)\<close>
  by (simp add: xmlEntity_def)

text \<open>
  Claim C10. For every string \<open>s\<close>, \<open>escapeXml s\<close> contains none of the characters
  \<open><\<close>, \<open>>\<close>, \<open>"\<close> and \<open>'\<close>: it is the concatenation of the entities of the
  characters of \<open>s\<close>, where each of \<open>&\<close>, \<open><\<close>, \<open>>\<close>, \<open>"\<close>, \<open>'\<close> is replaced by its
  XML entity and every other character is kept.
\<close>

theorem C10_escapeXml_no_markup:
  \<open>CHR ''<'' \<notin> set (escapeXml s) \<and> CHR ''>'' \<notin> set (escapeXml s)
   \<and> CHR ''"'' \<notin> set (escapeXml s) \<and> CHR 0x27 \<notin> set (escapeXml s)
   \<and> escapeXml s = concat (map xmlEntity s)
   \<and> xmlEntity (CHR ''&'') = ''&amp;'' \<and> xmlEntity (CHR ''<'') = ''&lt;''
   \<and> xmlEntity (CHR ''>'') = ''&gt;'' \<and> xmlEntity (CHR ''"'') = ''&quot;''
   \<and> xmlEntity (CHR 0x27) = ''&apos;''\<close>
proof -
  have \<open>CHR ''<'' \<notin> set (concat (map xmlEntity s))\<close>
    using xmlEntity_safe by (induction s) simp_all
  moreover have \<open>CHR ''>'' \<notin> set (concat (map xmlEntity s))\<close>
    using xmlEntity_safe by (induction s) simp_all
  moreover have \<open>CHR ''"'' \<notin> set (concat (map xmlEntity s))\<close>
    using xmlEntity_safe by (induction s) simp_all
  moreover have \<open>CHR 0x27 \<notin> set (concat (map xmlEntity s))\<close>
    using xmlEntity_safe by (induction s) simp_all
  ultimately show ?thesis
    by (simp add: escapeXml_concat xmlEntity_def)
qed

section \<open>Properties of the sequence layout\<close>

lemma layoutMessagesLoop_length:
  "length (layoutMessagesLoop msgs y) = length msgs"
  by (induction msgs arbitrary: y) (simp_all add: Let_def)

lemma layoutMessagesLoop_lower:
  "m \<in> set (layoutMessagesLoop msgs y) \<Longrightarrow> y \<le> sm_y m"
proof (induction msgs arbitrary: y)
  case Nil
  then show ?case by simp
next
  case (Cons msg msgs)
  from Cons.prems consider "sm_y m = y"
    | "m \<in> set (layoutMessagesLoop msgs
          (y + (if md_from msg = md_to msg
                then MESSAGE_SPACING + SELF_MESSAGE_HEIGHT_OFFSET else MESSAGE_SPACING)))"
    by (auto simp: Let_def)
  then show ?case
  proof cases
    case 1
    then show ?thesis by simp
  next
    case 2
    then have "y + (if md_from msg = md_to msg
                then MESSAGE_SPACING + SELF_MESSAGE_HEIGHT_OFFSET else MESSAGE_SPACING)
              \<le> sm_y m"
      by (rule Cons.IH)
    then show ?thesis
      by (simp add: MESSAGE_SPACING_def SELF_MESSAGE_HEIGHT_OFFSET_def split: if_splits)
  qed
qed

lemma layoutMessagesLoop_sorted:
  "sorted (map sm_y (layoutMessagesLoop msgs y))"
proof (induction msgs arbitrary: y)
  case Nil
  then show ?case by simp
next
  case (Cons msg msgs)
  let ?y' = "y + (if md_from msg = md_to msg
                then MESSAGE_SPACING + SELF_MESSAGE_HEIGHT_OFFSET else MESSAGE_SPACING)"
  have "y \<le> ?y'"
    by (simp add: MESSAGE_SPACING_def SELF_MESSAGE_HEIGHT_OFFSET_def)
  then have "\<forall>m \<in> set (layoutMessagesLoop msgs ?y'). y \<le> sm_y m"
    using layoutMessagesLoop_lower by fastforce
  then show ?case
    using Cons.IH [of ?y'] by (simp add: Let_def)
qed

lemma layoutMessagesLoop_first:
  "msgs \<noteq> [] \<Longrightarrow> sm_y (layoutMessagesLoop msgs y ! 0) = y"
  by (cases msgs) (simp_all add: Let_def)

lemma layoutMessagesLoop_step:
  "Suc i < length msgs \<Longrightarrow>
     sm_y (layoutMessagesLoop msgs y ! Suc i) =
       sm_y (layoutMessagesLoop msgs y ! i)
         + (if md_from (msgs ! i) = md_to (msgs ! i) then 80 else 50)"
proof (induction msgs arbitrary: y i)
  case Nil
  then show ?case by simp
next
  case (Cons msg msgs)
  show ?case
  proof (cases i)
    case 0
    with Cons.prems have "msgs \<noteq> []" by auto
    then show ?thesis
      using 0 layoutMessagesLoop_first [of msgs]
      by (simp add: Let_def MESSAGE_SPACING_def SELF_MESSAGE_HEIGHT_OFFSET_def)
  next
    case (Suc j)
    with Cons.prems have "Suc j < length msgs" by simp
    then show ?thesis
      using Suc Cons.IH by (simp add: Let_def)
  qed
qed

lemma layoutMessagesLoop_self:
  "i < length msgs \<Longrightarrow>
     sm_isSelfMessage (layoutMessagesLoop msgs y ! i) = (md_from (msgs ! i) = md_to (msgs ! i))"
proof (induction msgs arbitrary: y i)
  case Nil
  then show ?case by simp
next
  case (Cons msg msgs)
  then show ?case
    by (cases i) (simp_all add: Let_def)
qed

lemma layoutSequenceDiagram_messages:
  "sl_messages (layoutSequenceDiagram d) =
     layoutMessagesLoop (sd_messages d)
       (sequenceStartY (sd_title d) + PARTICIPANT_BOX_HEIGHT + MESSAGE_SPACING)"
  by (simp add: layoutSequenceDiagram_def Let_def)

text \<open>
  Claim C5. In \<open>layoutSequenceDiagram\<close>, for a diagram with at least one message,
  the first message gets \<open>y = startY + 40 + 50\<close> (where \<open>startY\<close> is 80 with a
  title and 40 without), every later message gets the \<open>y\<close> of the message before
  it plus 50, or plus 80 when the message before it is a self-message
  (\<open>from = to\<close>), and so the \<open>y\<close> values are non-decreasing in input order.
\<close>

theorem C5_sequence_message_y:
  assumes "sd_messages d \<noteq> []"
  shows "length (sl_messages (layoutSequenceDiagram d)) = length (sd_messages d)
    \<and> sm_y (sl_messages (layoutSequenceDiagram d) ! 0) = sequenceStartY (sd_title d) + 40 + 50
    \<and> (\<forall>i. Suc i < length (sd_messages d) \<longrightarrow>
          sm_isSelfMessage (sl_messages (layoutSequenceDiagram d) ! i)
            = (md_from (sd_messages d ! i) = md_to (sd_messages d ! i))
          \<and> sm_y (sl_messages (layoutSequenceDiagram d) ! Suc i) =
              sm_y (sl_messages (layoutSequenceDiagram d) ! i)
                + (if sm_isSelfMessage (sl_messages (layoutSequenceDiagram d) ! i)
                   then 80 else 50))
    \<and> sorted (map sm_y (sl_messages (layoutSequenceDiagram d)))
    \<and> sequenceStartY (sd_title d) = (if truthy (sd_title d) then 80 else 40)"
proof -
  let ?y0 = "sequenceStartY (sd_title d) + PARTICIPANT_BOX_HEIGHT + MESSAGE_SPACING"
  have ms: "sl_messages (layoutSequenceDiagram d) = layoutMessagesLoop (sd_messages d) ?y0"
    by (rule layoutSequenceDiagram_messages)
  have len: "length (layoutMessagesLoop (sd_messages d) ?y0) = length (sd_messages d)"
    by (rule layoutMessagesLoop_length)
  have first: "sm_y (layoutMessagesLoop (sd_messages d) ?y0 ! 0)
      = sequenceStartY (sd_title d) + 40 + 50"
    using assms
    by (simp add: layoutMessagesLoop_first PARTICIPANT_BOX_HEIGHT_def MESSAGE_SPACING_def)
  have step: "\<forall>i. Suc i < length (sd_messages d) \<longrightarrow>
      sm_isSelfMessage (layoutMessagesLoop (sd_messages d) ?y0 ! i)
        = (md_from (sd_messages d ! i) = md_to (sd_messages d ! i))
      \<and> sm_y (layoutMessagesLoop (sd_messages d) ?y0 ! Suc i) =
          sm_y (layoutMessagesLoop (sd_messages d) ?y0 ! i)
            + (if sm_isSelfMessage (layoutMessagesLoop (sd_messages d) ?y0 ! i)
               then 80 else 50)"
    by (simp add: layoutMessagesLoop_step layoutMessagesLoop_self)
  have srt: "sorted (map sm_y (layoutMessagesLoop (sd_messages d) ?y0))"
    by (rule layoutMessagesLoop_sorted)
  have sy: "sequenceStartY (sd_title d) = (if truthy (sd_title d) then 80 else 40)"
    by (simp add: sequenceStartY_def PADDING_def TITLE_HEIGHT_def)
  show ?thesis
    unfolding ms using len first step srt sy by blast
qed

theorem C5_sequence_message_y_witness:
  "sd_messages exampleSequence \<noteq> []
   \<and> map sm_y (sl_messages (layoutSequenceDiagram exampleSequence)) = [170, 250, 300]
   \<and> sorted (map sm_y (sl_messages (layoutSequenceDiagram exampleSequence)))"
proof -
  have ne: "sd_messages exampleSequence \<noteq> []"
    by (simp add: exampleSequence_def)
  have ys: "map sm_y (sl_messages (layoutSequenceDiagram exampleSequence)) = [170, 250, 300]"
    by (simp add: layoutSequenceDiagram_def exampleSequence_def Let_def sequenceStartY_def
        truthy_def PADDING_def TITLE_HEIGHT_def PARTICIPANT_BOX_HEIGHT_def MESSAGE_SPACING_def
        SELF_MESSAGE_HEIGHT_OFFSET_def)
  from C5_sequence_message_y [OF ne] have
    "sorted (map sm_y (sl_messages (layoutSequenceDiagram exampleSequence)))"
    by blast
  with ne ys show ?thesis by blast
qed

section \<open>Properties of the schema validation\<close>

lemma mapE_ok:
  "list_all (\<lambda>v. \<not> isl (f v)) vs \<Longrightarrow>
     \<exists>ys. mapE f vs = Inr ys \<and> length ys = length vs"
proof (induction vs)
  case Nil
  then show ?case by simp
next
  case (Cons v vs)
  then obtain ys where ys: "mapE f vs = Inr ys" "length ys = length vs"
    by auto
  from Cons.prems obtain y where y: "f v = Inr y"
    by (cases "f v") auto
  show ?case
    using ys y by (simp add: bindE_def)
qed

lemma not_isl_Inr: "\<not> isl r \<Longrightarrow> \<exists>x. r = Inr x"
  by (cases r) auto

text \<open>
  Claim C7, as amended. \<open>SequenceDiagramSchema\<close> declares \<open>participants\<close> as
  \<open>z.array(ParticipantSchema)\<close> with no minimum length: a raw input of type
  \<open>sequence\<close> is accepted by \<open>parseDiagram\<close> whenever \<open>participants\<close> is an
  array of valid participant objects of any length, zero included, and its other
  fields satisfy their schemas; the parsed diagram has as many participants as the
  array has elements.
\<close>

theorem C7_sequence_participants_any_length:
  assumes ty: "getField props ''type'' = RStr ''sequence''"
    and ps: "getField props ''participants'' = RArr ps"
    and valid: "list_all (\<lambda>p. \<not> isl (ParticipantSchema p)) ps"
    and title: "\<not> isl (zOptional zString (getField props ''title''))"
    and msgs: "\<not> isl (zArray MessageSchema (getField props ''messages''))"
    and style: "\<not> isl (zDefault ThemeSchema HandDrawn (getField props ''style''))"
    and out: "\<not> isl (zOptional OutputOptionsSchema (getField props ''output''))"
  shows "\<exists>d. parseDiagram (RObj props) = Inr (Sequence d)
           \<and> length (sd_participants d) = length ps"
proof -
  from valid obtain pds where pds:
    "mapE ParticipantSchema ps = Inr pds" "length pds = length ps"
    using mapE_ok by blast
  from title obtain t where t: "zOptional zString (getField props ''title'') = Inr t"
    using not_isl_Inr by blast
  from msgs obtain ms where ms: "zArray MessageSchema (getField props ''messages'') = Inr ms"
    using not_isl_Inr by blast
  from style obtain st where st:
    "zDefault ThemeSchema HandDrawn (getField props ''style'') = Inr st"
    using not_isl_Inr by blast
  from out obtain ou where ou:
    "zOptional OutputOptionsSchema (getField props ''output'') = Inr ou"
    using not_isl_Inr by blast
  have "SequenceDiagramSchema (RObj props) =
      Inr \<lparr> sd_title = t, sd_participants = pds, sd_messages = ms, sd_style = st,
            sd_output = ou \<rparr>"
    by (simp add: SequenceDiagramSchema_def ty ps pds t ms st ou bindE_def)
  then have "parseDiagram (RObj props) =
      Inr (Sequence \<lparr> sd_title = t, sd_participants = pds, sd_messages = ms, sd_style = st,
            sd_output = ou \<rparr>)"
    by (simp add: parseDiagram_def DiagramSchema_def ty bindE_def)
  then show ?thesis
    using pds by simp
qed

lemma emptySequenceInput_fields:
  "getField [(''type'', RStr ''sequence''), (''participants'', RArr []), (''messages'', RArr [])]
     ''type'' = RStr ''sequence''"
  "getField [(''type'', RStr ''sequence''), (''participants'', RArr []), (''messages'', RArr [])]
     ''participants'' = RArr []"
  "getField [(''type'', RStr ''sequence''), (''participants'', RArr []), (''messages'', RArr [])]
     ''messages'' = RArr []"
  "getField [(''type'', RStr ''sequence''), (''participants'', RArr []), (''messages'', RArr [])]
     ''title'' = RUndefined"
  "getField [(''type'', RStr ''sequence''), (''participants'', RArr []), (''messages'', RArr [])]
     ''style'' = RUndefined"
  "getField [(''type'', RStr ''sequence''), (''participants'', RArr []), (''messages'', RArr [])]
     ''output'' = RUndefined"
  by (simp_all add: getField_def)

theorem C7_sequence_participants_any_length_witness:
  "\<exists>d. parseDiagram emptySequenceInput = Inr (Sequence d)
     \<and> length (sd_participants d) = length ([] :: raw list)"
  unfolding emptySequenceInput_def
  by (rule C7_sequence_participants_any_length [where ps = "[]"])
     (simp_all add: emptySequenceInput_fields)

text \<open>
  The claim as stated fails: the input with an empty \<open>participants\<close> array is not
  rejected with a schema error, it parses to a sequence diagram without participants.
\<close>

theorem C7_empty_participants_counterexample:
  "parseDiagram emptySequenceInput =
     Inr (Sequence \<lparr> sd_title = None, sd_participants = [], sd_messages = [],
                     sd_style = HandDrawn, sd_output = None \<rparr>)"
  by (simp add: parseDiagram_def DiagramSchema_def SequenceDiagramSchema_def
      emptySequenceInput_def emptySequenceInput_fields bindE_def)

section \<open>Properties of the flow layout\<close>

lemma mapLayoutEdge_points:
  "le_points (mapLayoutEdge nodePositions edgeRoutes edgeDef i) =
     map (\<lambda>p. (fst p + 40, snd p + 40))
       (let route = (case edgeRoutes (edgeId i (ed_from edgeDef) (ed_to edgeDef)) of
                       Some ps \<Rightarrow> ps | None \<Rightarrow> []);
            centre = (\<lambda>k. case nodePositions k of
                        Some b \<Rightarrow> [(bx_x b + bx_width b / 2, bx_y b + bx_height b / 2)]
                      | None \<Rightarrow> [])
        in if route = [] then centre (ed_from edgeDef) @ centre (ed_to edgeDef) else route)"
  by (simp add: mapLayoutEdge_def Let_def PADDING_def split: option.splits)

lemma layoutEdges_nth:
  "i < length edges \<Longrightarrow>
     map (\<lambda>(edgeDef, i). f edgeDef i) (zip edges [0..<length edges]) ! i = f (edges ! i) i"
  by simp

text \<open>
  Claim C6. When the layout service returns a positioned graph, \<open>layoutFlowDiagram\<close>
  returns a layout in which every node position and every group position is the
  position read from the service's graph plus \<open>PADDING = 40\<close> (0 plus 40 when the
  service gave none), every edge's points are the service's route points plus 40
  in both axes, or, when the route is empty, the centres of the source and target
  nodes plus 40, and the width and height are the root graph's width and height
  plus \<open>2 * PADDING\<close>.
\<close>

theorem C6_flow_layout_padding:
  assumes "elk (buildElkGraph d) = Inr result"
  shows "\<exists>L. layoutFlowDiagram elk d = Inr L
    \<and> lr_width L = orZero (en_width result) + 2 * 40
    \<and> lr_height L = orZero (en_height result) + 2 * 40
    \<and> length (lr_nodes L) = length (fd_nodes d)
    \<and> (\<forall>i < length (fd_nodes d).
          ln_x (lr_nodes L ! i) =
            (case collectNodePositions result (nd_id (fd_nodes d ! i)) of
               Some b \<Rightarrow> bx_x b | None \<Rightarrow> 0) + 40
          \<and> ln_y (lr_nodes L ! i) =
            (case collectNodePositions result (nd_id (fd_nodes d ! i)) of
               Some b \<Rightarrow> bx_y b | None \<Rightarrow> 0) + 40)
    \<and> length (lr_groups L) = length (fd_groups d)
    \<and> (\<forall>i < length (fd_groups d).
          lg_x (lr_groups L ! i) =
            (case collectGroupPositions result (gd_id (fd_groups d ! i)) of
               Some b \<Rightarrow> bx_x b | None \<Rightarrow> 0) + 40
          \<and> lg_y (lr_groups L ! i) =
            (case collectGroupPositions result (gd_id (fd_groups d ! i)) of
               Some b \<Rightarrow> bx_y b | None \<Rightarrow> 0) + 40)
    \<and> length (lr_edges L) = length (fd_edges d)
    \<and> (\<forall>i < length (fd_edges d).
          le_points (lr_edges L ! i) =
            map (\<lambda>p. (fst p + 40, snd p + 40))
              (let route = (case collectEdgeRoutes result
                                   (edgeId i (ed_from (fd_edges d ! i)) (ed_to (fd_edges d ! i))) of
                              Some ps \<Rightarrow> ps | None \<Rightarrow> []);
                   centre = (\<lambda>k. case collectNodePositions result k of
                               Some b \<Rightarrow> [(bx_x b + bx_width b / 2, bx_y b + bx_height b / 2)]
                             | None \<Rightarrow> [])
               in if route = []
                  then centre (ed_from (fd_edges d ! i)) @ centre (ed_to (fd_edges d ! i))
                  else route))"
proof -
  let ?L = "\<lparr> lr_width = orZero (en_width result) + PADDING * 2,
              lr_height = orZero (en_height result) + PADDING * 2,
              lr_nodes = map (mapLayoutNode (collectNodePositions result)) (fd_nodes d),
              lr_edges = map (\<lambda>(edgeDef, i). mapLayoutEdge (collectNodePositions result)
                                (collectEdgeRoutes result) edgeDef i)
                           (zip (fd_edges d) [0..<length (fd_edges d)]),
              lr_groups = map (mapLayoutGroup (collectGroupPositions result)) (fd_groups d) \<rparr>"
  have L: "layoutFlowDiagram elk d = Inr ?L"
    using assms by (simp add: layoutFlowDiagram_def bindE_def Let_def)
  have size: "lr_width ?L = orZero (en_width result) + 2 * 40"
    "lr_height ?L = orZero (en_height result) + 2 * 40"
    by (simp_all add: PADDING_def)
  have nodes: "length (lr_nodes ?L) = length (fd_nodes d)"
    "\<forall>i < length (fd_nodes d).
          ln_x (lr_nodes ?L ! i) =
            (case collectNodePositions result (nd_id (fd_nodes d ! i)) of
               Some b \<Rightarrow> bx_x b | None \<Rightarrow> 0) + 40
          \<and> ln_y (lr_nodes ?L ! i) =
            (case collectNodePositions result (nd_id (fd_nodes d ! i)) of
               Some b \<Rightarrow> bx_y b | None \<Rightarrow> 0) + 40"
    by (simp_all add: mapLayoutNode_def Let_def PADDING_def)
  have groups: "length (lr_groups ?L) = length (fd_groups d)"
    "\<forall>i < length (fd_groups d).
          lg_x (lr_groups ?L ! i) =
            (case collectGroupPositions result (gd_id (fd_groups d ! i)) of
               Some b \<Rightarrow> bx_x b | None \<Rightarrow> 0) + 40
          \<and> lg_y (lr_groups ?L ! i) =
            (case collectGroupPositions result (gd_id (fd_groups d ! i)) of
               Some b \<Rightarrow> bx_y b | None \<Rightarrow> 0) + 40"
    by (simp_all add: mapLayoutGroup_def Let_def PADDING_def)
  have edges: "length (lr_edges ?L) = length (fd_edges d)"
    "\<forall>i < length (fd_edges d).
          le_points (lr_edges ?L ! i) =
            map (\<lambda>p. (fst p + 40, snd p + 40))
              (let route = (case collectEdgeRoutes result
                                   (edgeId i (ed_from (fd_edges d ! i)) (ed_to (fd_edges d ! i))) of
                              Some ps \<Rightarrow> ps | None \<Rightarrow> []);
                   centre = (\<lambda>k. case collectNodePositions result k of
                               Some b \<Rightarrow> [(bx_x b + bx_width b / 2, bx_y b + bx_height b / 2)]
                             | None \<Rightarrow> [])
               in if route = []
                  then centre (ed_from (fd_edges d ! i)) @ centre (ed_to (fd_edges d ! i))
                  else route)"
    by (simp_all add: mapLayoutEdge_points)
  show ?thesis
    using L size nodes groups edges by blast
qed

theorem C6_flow_layout_padding_witness:
  "exampleElk (buildElkGraph exampleFlow) = Inr exampleElkResult
   \<and> (\<exists>L. layoutFlowDiagram exampleElk exampleFlow = Inr L
         \<and> lr_width L = 200 \<and> lr_height L = 280)"
proof -
  have e: "exampleElk (buildElkGraph exampleFlow) = Inr exampleElkResult"
    by (simp add: exampleElk_def)
  from C6_flow_layout_padding [of exampleElk exampleFlow exampleElkResult, OF e] obtain L where
    "layoutFlowDiagram exampleElk exampleFlow = Inr L"
    "lr_width L = orZero (en_width exampleElkResult) + 2 * 40"
    "lr_height L = orZero (en_height exampleElkResult) + 2 * 40"
    by blast
  then have "layoutFlowDiagram exampleElk exampleFlow = Inr L
      \<and> lr_width L = 200 \<and> lr_height L = 280"
    by (simp add: exampleElkResult_def orZero_def)
  with e show ?thesis by blast
qed

section \<open>Properties of the renderer\<close>

lemma renderFlowDiagram_resets:
  "renderFlowDiagram layout theme title seed = renderFlowDiagram layout theme title 42"
  by (simp add: renderFlowDiagram_def renderFlowDiagramSvg_def resetSeed_def)

lemma renderSequenceDiagram_resets:
  "renderSequenceDiagram layout theme title seed = renderSequenceDiagram layout theme title 42"
  by (simp add: renderSequenceDiagram_def renderSequenceDiagramSvg_def resetSeed_def)

lemma renderDiagram_seed_independent:
  "renderDiagram elk diagram seed1 = renderDiagram elk diagram seed2"
proof (cases diagram)
  case (Flow flow)
  then show ?thesis
    using renderFlowDiagram_resets [of _ _ _ seed1] renderFlowDiagram_resets [of _ _ _ seed2]
    by (simp add: renderDiagram_def)
next
  case (Sequence seq)
  then show ?thesis
    using renderSequenceDiagram_resets [of _ _ _ seed1]
      renderSequenceDiagram_resets [of _ _ _ seed2]
    by (simp add: renderDiagram_def)
qed

lemma generateDiagram_seed_independent:
  "generateDiagram elk resvg input png seed1 = generateDiagram elk resvg input png seed2"
  using renderDiagram_seed_independent [of elk _ seed1 seed2]
  by (simp add: generateDiagram_def)

text \<open>
  Claim C1. The SVG that \<open>generateDiagram\<close> returns for an input does not depend on
  the value the module variable \<open>seed\<close> has when the call starts: any two calls on
  the same input give the same result, in particular a second call that starts with
  the seed the first call left behind. The reason is that \<open>renderFlowDiagram\<close> and
  \<open>renderSequenceDiagram\<close> both reset the seed to 42 at entry. (The layout service
  and the rasteriser are functions of their input here.)
\<close>

theorem C1_generate_deterministic:
  "generateDiagram elk resvg input png seed1 = generateDiagram elk resvg input png seed2
   \<and> generateDiagram elk resvg input png
        (case generateDiagram elk resvg input png seed1 of
           Inr (result, seedLeft) \<Rightarrow> seedLeft | Inl e \<Rightarrow> seed1)
      = generateDiagram elk resvg input png seed1
   \<and> renderFlowDiagram flowLayout theme title seed1
      = renderFlowDiagram flowLayout theme title (resetSeed seed1)
   \<and> renderSequenceDiagram sequenceLayout theme title seed1
      = renderSequenceDiagram sequenceLayout theme title (resetSeed seed1)
   \<and> resetSeed seed1 = 42"
proof -
  have "generateDiagram elk resvg input png seed1 = generateDiagram elk resvg input png seed2"
    by (rule generateDiagram_seed_independent)
  moreover have "generateDiagram elk resvg input png
        (case generateDiagram elk resvg input png seed1 of
           Inr (result, seedLeft) \<Rightarrow> seedLeft | Inl e \<Rightarrow> seed1)
      = generateDiagram elk resvg input png seed1"
    by (rule generateDiagram_seed_independent)
  moreover have "renderFlowDiagram flowLayout theme title seed1
      = renderFlowDiagram flowLayout theme title (resetSeed seed1)"
    using renderFlowDiagram_resets [of flowLayout theme title seed1]
    by (simp add: resetSeed_def)
  moreover have "renderSequenceDiagram sequenceLayout theme title seed1
      = renderSequenceDiagram sequenceLayout theme title (resetSeed seed1)"
    using renderSequenceDiagram_resets [of sequenceLayout theme title seed1]
    by (simp add: resetSeed_def)
  ultimately show ?thesis
    by (simp add: resetSeed_def)
qed

subsection \<open>Messages without a participant\<close>

lemma mapS_append:
  "mapS f (xs @ ys) seed =
     (let (a, s1) = mapS f xs seed; (b, s2) = mapS f ys s1 in (a @ b, s2))"
  by (induction xs arbitrary: seed) (simp_all add: Let_def split_beta)

lemma mapS_length: "length (fst (mapS f xs seed)) = length xs"
  by (induction xs arbitrary: seed) (simp_all add: Let_def split_beta)

lemma participantsByIdOf_dom_aux:
  "dom (fold (\<lambda>p m. m(sp_id p \<mapsto> p)) ps m0) = dom m0 \<union> sp_id ` set ps"
  by (induction ps arbitrary: m0) auto

lemma participantsByIdOf_None:
  "k \<notin> sp_id ` set ps \<Longrightarrow> participantsByIdOf ps k = None"
  using participantsByIdOf_dom_aux [of ps Map.empty]
  by (auto simp: participantsByIdOf_def dom_def)

lemma renderMessage_dangling:
  assumes "byId (sm_from msg) = None \<or> byId (sm_to msg) = None"
  shows "renderMessage msg byId config seed = ([], seed)"
proof (cases "byId (sm_from msg)")
  case None
  then show ?thesis
    by (simp add: renderMessage_def)
next
  case (Some fromP)
  with assms have "byId (sm_to msg) = None"
    by simp
  with Some show ?thesis
    by (simp add: renderMessage_def)
qed

lemma mapS_skip:
  assumes "\<And>seed. f m seed = ([], seed)"
  shows "mapS f (before @ [m] @ after) seed =
     (fst (mapS f before seed) @ [[]] @ fst (mapS f after (snd (mapS f before seed))),
      snd (mapS f after (snd (mapS f before seed))))"
  by (simp add: mapS_append assms Let_def split_beta)

text \<open>The transcendental functions are not computed: evaluation leaves them as they
  are. None of the evaluated examples reaches them.\<close>

declare arctan_def [code del] pi_def [code del] cos_def [code del] sin_def [code del]

subsection \<open>Which coordinates are formatted\<close>

lemma rawCoords_append: "rawCoords (a @ b) = rawCoords a @ rawCoords b"
  by (induction a rule: rawCoords.induct) simp_all

























lemma rawCoords_tspans:
  "rawCoords (concat (map (\<lambda>(line, i).
        [Txt a, CoordRaw x, Txt b, CoordRaw (g i), Txt c, Txt (h line), Txt d]) lis))
   = concat (map (\<lambda>(line, i). [x, g i]) lis)"
  by (induction lis) (simp_all add: rawCoords_append split_beta)

lemma rawCoords_renderText:
  "rawCoords (renderText x y text fontSize fontFam color opts) =
     (if length text > 20
      then (let lines = wrapText text
                          (case to_maxCharsPerLine opts of Some m \<Rightarrow> m | None \<Rightarrow> 18)
            in [x, y - (real (length lines) - 1) * (fontSize * 1.3) / 2]
               @ concat (map (\<lambda>(line, i). [x, if i = 0 then 0 else fontSize * 1.3])
                             (zip lines [0..<length lines])))
      else [x, y])"
  by (simp add: renderText_def Let_def rawCoords_append rawCoords_tspans cong: if_cong)

lemma rawCoords_renderText_nonempty:
  "rawCoords (renderText x y text fontSize fontFam color opts) \<noteq> []"
  by (simp add: rawCoords_renderText Let_def)









subsection \<open>Labels in the output\<close>

lemma Txt_in_render: "Txt s \<in> set fs \<Longrightarrow> sublist s (render fs)"
proof -
  assume "Txt s \<in> set fs"
  then obtain pre post where "fs = pre @ Txt s # post"
    by (auto simp: in_set_conv_decomp)
  then have "render fs = render pre @ s @ render post"
    by (simp add: render_def)
  then show ?thesis
    by simp
qed

lemma set_joinSvg: "p \<in> set ps \<Longrightarrow> set p \<subseteq> set (joinSvg sep ps)"
  by (induction sep ps rule: joinSvg.induct) auto

lemma mapS_member:
  "x \<in> set xs \<Longrightarrow> \<exists>s. fst (f x s) \<in> set (fst (mapS f xs seed))"
proof (induction xs arbitrary: seed)
  case Nil
  then show ?case by simp
next
  case (Cons a xs)
  show ?case
  proof (cases "x = a")
    case True
    then have "fst (f x seed) \<in> set (fst (mapS f (a # xs) seed))"
      by (simp add: Let_def split_beta)
    then show ?thesis ..
  next
    case False
    with Cons.prems have "x \<in> set xs" by simp
    then obtain s where "fst (f x s) \<in> set (fst (mapS f xs (snd (f a seed))))"
      using Cons.IH by blast
    then have "fst (f x s) \<in> set (fst (mapS f (a # xs) seed))"
      by (simp add: Let_def split_beta)
    then show ?thesis ..
  qed
qed

lemma indexed_member:
  "x \<in> set xs \<Longrightarrow> \<exists>i. (x, i) \<in> set (zip xs [0..<length xs])"
proof -
  assume "x \<in> set xs"
  then obtain i where "i < length xs" "xs ! i = x"
    by (auto simp: in_set_conv_nth)
  then have "(x, i) \<in> set (zip xs [0..<length xs])"
    by (auto simp: in_set_zip)
  then show ?thesis ..
qed

lemma in_concat_map: "z \<in> set zs \<Longrightarrow> e \<in> set (g z) \<Longrightarrow> e \<in> set (concat (map g zs))"
  by auto

lemma renderText_has_lines:
  assumes "line \<in> set (if length text > 20
                         then wrapText text (case to_maxCharsPerLine opts of
                                               Some m \<Rightarrow> m | None \<Rightarrow> 18)
                         else [text])"
  shows "Txt (escapeXml line) \<in> set (renderText x y text fontSize fontFam color opts)"
proof (cases "length text > 20")
  case False
  with assms show ?thesis
    by (simp add: renderText_def Let_def)
next
  case True
  let ?lines = "wrapText text (case to_maxCharsPerLine opts of Some m \<Rightarrow> m | None \<Rightarrow> 18)"
  let ?g = "\<lambda>(line, i).
        [Txt ''<tspan x=\"'', CoordRaw x, Txt ''\" dy=\"'',
         CoordRaw (if i = 0 then 0 else fontSize * 1.3), Txt ''\">'',
         Txt (escapeXml line), Txt ''</tspan>'']"
  from True assms have "line \<in> set ?lines" by simp
  then have "\<exists>i. (line, i) \<in> set (zip ?lines [0..<length ?lines])"
    by (rule indexed_member)
  then obtain i where i: "(line, i) \<in> set (zip ?lines [0..<length ?lines])" ..
  have "Txt (escapeXml line) \<in> set (?g (line, i))"
    by simp
  with i have "Txt (escapeXml line) \<in> set (concat (map ?g (zip ?lines [0..<length ?lines])))"
    by (rule in_concat_map [where g = ?g])
  with True show ?thesis
    unfolding renderText_def Let_def
    by (simp only: if_True set_append Un_iff) blast
qed

lemma renderShape_has_label:
  "\<exists>pre post. fst (renderShape node config colorIndex seed) =
     pre @ renderText (ln_x node + ln_width node / 2)
        (ln_y node + ln_height node / 2
           + (if ln_shape node = Cylinder then min 15 (ln_height node * 0.15) / 2
              else if ln_shape node = Cloud then ln_height node * 0.04
              else 0))
        (ln_label node) 14 (fontFamily config)
        (case ln_textColor node of Some c \<Rightarrow> c | None \<Rightarrow> ''#333333'')
        \<lparr> to_bold = False, to_maxCharsPerLine = Some 18 \<rparr> @ post"
  unfolding renderShape_def Let_def split_beta fst_conv
  by (metis append.assoc)

lemma renderShape_has_lines:
  assumes "line \<in> set (if length (ln_label node) > 20 then wrapText (ln_label node) 18
                         else [ln_label node])"
  shows "Txt (escapeXml line) \<in> set (fst (renderShape node config colorIndex seed))"
proof -
  let ?text = "renderText (ln_x node + ln_width node / 2)
        (ln_y node + ln_height node / 2
           + (if ln_shape node = Cylinder then min 15 (ln_height node * 0.15) / 2
              else if ln_shape node = Cloud then ln_height node * 0.04
              else 0))
        (ln_label node) 14 (fontFamily config)
        (case ln_textColor node of Some c \<Rightarrow> c | None \<Rightarrow> ''#333333'')
        \<lparr> to_bold = False, to_maxCharsPerLine = Some 18 \<rparr>"
  have "Txt (escapeXml line) \<in> set ?text"
    using assms by (intro renderText_has_lines) (simp split: if_splits)
  moreover obtain pre post where
    "fst (renderShape node config colorIndex seed) = pre @ ?text @ post"
    using renderShape_has_label by blast
  ultimately show ?thesis
    by simp
qed

lemma flowContentParts_has_node:
  assumes "node \<in> set (lr_nodes layout)"
  shows "\<exists>i s. fst (renderShape node config i s) \<in> set (fst (flowContentParts layout config seed))"
proof -
  let ?f = "\<lambda>(node, i). renderShape node config i"
  let ?xs = "zip (lr_nodes layout) [0..<length (lr_nodes layout)]"
  from assms have "\<exists>i. (node, i) \<in> set ?xs"
    by (rule indexed_member)
  then obtain i where i: "(node, i) \<in> set ?xs" ..
  have "\<exists>s. fst (?f (node, i) s) \<in> set (fst (mapS ?f ?xs seed'))" for seed'
    using i by (rule mapS_member [where f = ?f and x = "(node, i)"])
  then have "\<exists>s. fst (renderShape node config i s) \<in> set (fst (mapS ?f ?xs seed'))" for seed'
    by simp
  then obtain s where "fst (renderShape node config i s) \<in> set (fst (mapS ?f ?xs
      (snd (mapS (\<lambda>edge. renderEdge edge
                   (fold (\<lambda>node m. m(ln_id node \<mapsto> node)) (lr_nodes layout) Map.empty) config)
             (lr_edges layout)
             (snd (mapS (\<lambda>grp. renderGroup grp config) (lr_groups layout) seed))))))"
    by blast
  then have "fst (renderShape node config i s) \<in> set (fst (flowContentParts layout config seed))"
    by (simp add: flowContentParts_def Let_def split_beta)
  then show ?thesis
    by blast
qed

lemma fold_addElement:
  "sb_elements (fold addElement ps b) = sb_elements b @ ps"
  by (induction ps arbitrary: b) (simp_all add: addElement_def)

lemma SvgBuilder_toString_has_element:
  "el \<in> set (sb_elements b) \<Longrightarrow> set el \<subseteq> set (SvgBuilder_toString b)"
proof -
  assume "el \<in> set (sb_elements b)"
  then have "Txt ''  '' # el \<in> set (map (\<lambda>el. Txt ''  '' # el) (sb_elements b))"
    by simp
  then have "set (Txt ''  '' # el) \<subseteq> set (SvgBuilder_toString b)"
    unfolding SvgBuilder_toString_def Let_def
    by (intro set_joinSvg) simp
  then show ?thesis
    by auto
qed

lemma assembleSvg_has_part:
  assumes "p \<in> set contentParts"
  shows "set p \<subseteq> set (assembleSvg layoutWidth layoutHeight title config contentParts)"
proof (cases "truthy title")
  case True
  let ?g = "[Txt ''<g transform=\"translate(0, '', CoordRaw 40, Txt '')\">'',
             Txt [CHR 0x0A]] @ joinSvg newline contentParts @ [Txt [CHR 0x0A], Txt ''</g>'']"
  from assms have "set p \<subseteq> set ?g"
    using set_joinSvg [of p contentParts newline] by auto
  moreover have "set ?g \<subseteq> set (assembleSvg layoutWidth layoutHeight title config contentParts)"
    using True unfolding assembleSvg_def Let_def
    by (intro SvgBuilder_toString_has_element) (simp add: addElement_def)
  ultimately show ?thesis
    by blast
next
  case False
  with assms show ?thesis
    unfolding assembleSvg_def Let_def
    by (intro SvgBuilder_toString_has_element) (simp add: fold_addElement)
qed

lemma renderFlowDiagram_has_lines:
  assumes "node \<in> set (lr_nodes layout)"
    and "line \<in> set (if length (ln_label node) > 20 then wrapText (ln_label node) 18
                       else [ln_label node])"
  shows "sublist (escapeXml line) (fst (renderFlowDiagram layout theme title seed))"
proof -
  let ?config = "getThemeConfig theme"
  from assms(1) obtain i s where part:
    "fst (renderShape node ?config i s) \<in> set (fst (flowContentParts layout ?config 42))"
    using flowContentParts_has_node by blast
  from assms(2) have "Txt (escapeXml line) \<in> set (fst (renderShape node ?config i s))"
    by (rule renderShape_has_lines)
  with part have "Txt (escapeXml line) \<in> set (assembleSvg (lr_width layout) (lr_height layout)
      title ?config (fst (flowContentParts layout ?config 42)))"
    using assembleSvg_has_part by blast
  then have "sublist (escapeXml line) (render (assembleSvg (lr_width layout) (lr_height layout)
      title ?config (fst (flowContentParts layout ?config 42))))"
    by (rule Txt_in_render)
  then show ?thesis
    by (simp add: renderFlowDiagram_def renderFlowDiagramSvg_def resetSeed_def Let_def
        split_beta)
qed

lemma parse_exampleFlowInput: "parseDiagram exampleFlowInput = Inr (Flow exampleFlow)"
  by code_simp

lemma generate_flow_svg:
  assumes "parseDiagram input = Inr (Flow flow)"
    and "generateDiagram elk resvg input png seed = Inr (result, seed')"
  shows "\<exists>layout. layoutFlowDiagram elk flow = Inr layout
           \<and> gr_svg result = fst (renderFlowDiagram layout (fd_style flow) (fd_title flow) seed)"
proof (cases "layoutFlowDiagram elk flow")
  case (Inl e)
  with assms show ?thesis
    by (simp add: generateDiagram_def renderDiagram_def bindE_def)
next
  case (Inr layout)
  with assms have "gr_svg result
      = fst (renderFlowDiagram layout (fd_style flow) (fd_title flow) seed)"
    by (auto simp: generateDiagram_def renderDiagram_def bindE_def split_beta
        split: if_splits sum.splits)
  with Inr show ?thesis
    by blast
qed

lemma layoutFlowDiagram_nodes:
  assumes "layoutFlowDiagram elk flow = Inr layout"
  shows "\<exists>pos. lr_nodes layout = map (mapLayoutNode pos) (fd_nodes flow)"
proof (cases "elk (buildElkGraph flow)")
  case (Inl e)
  with assms show ?thesis
    by (simp add: layoutFlowDiagram_def bindE_def)
next
  case (Inr result)
  with assms have "lr_nodes layout
      = map (mapLayoutNode (collectNodePositions result)) (fd_nodes flow)"
    by (auto simp: layoutFlowDiagram_def bindE_def Let_def)
  then show ?thesis
    by - (rule exI [where x = "collectNodePositions result"], assumption)
qed

lemma mapLayoutNode_label: "ln_label (mapLayoutNode pos n) = nd_label n"
  by (simp add: mapLayoutNode_def Let_def)

text \<open>
  Claim C2, as amended. For every node of a flow diagram that \<open>generateDiagram\<close>
  renders: when the label has at most 20 characters, \<open>escapeXml\<close> of the label is
  a contiguous substring of the SVG; when it is longer, \<open>renderText\<close> wraps it, and
  \<open>escapeXml\<close> of every line of \<open>wrapText(label, 18)\<close> is a contiguous substring of
  the SVG.
\<close>

theorem C2_label_lines_in_svg:
  assumes parse: "parseDiagram input = Inr (Flow flow)"
    and gen: "generateDiagram elk resvg input png seed = Inr (result, seed')"
    and node: "n \<in> set (fd_nodes flow)"
  shows "(length (nd_label n) \<le> 20 \<longrightarrow> sublist (escapeXml (nd_label n)) (gr_svg result))
    \<and> (20 < length (nd_label n) \<longrightarrow>
          (\<forall>line \<in> set (wrapText (nd_label n) 18). sublist (escapeXml line) (gr_svg result)))"
proof -
  from parse gen obtain layout where layout: "layoutFlowDiagram elk flow = Inr layout"
    and svg: "gr_svg result = fst (renderFlowDiagram layout (fd_style flow) (fd_title flow) seed)"
    using generate_flow_svg by blast
  from layout obtain pos where "lr_nodes layout = map (mapLayoutNode pos) (fd_nodes flow)"
    using layoutFlowDiagram_nodes by blast
  with node have mem: "mapLayoutNode pos n \<in> set (lr_nodes layout)"
    by simp
  have lines: "sublist (escapeXml line) (gr_svg result)"
    if "line \<in> set (if length (nd_label n) > 20 then wrapText (nd_label n) 18
                       else [nd_label n])" for line
    unfolding svg using mem
  proof (rule renderFlowDiagram_has_lines)
    show "line \<in> set (if 20 < length (ln_label (mapLayoutNode pos n))
                        then wrapText (ln_label (mapLayoutNode pos n)) 18
                        else [ln_label (mapLayoutNode pos n)])"
      using that by (simp add: mapLayoutNode_label split: if_splits)
  qed
  show ?thesis
  proof (intro conjI impI ballI)
    assume "length (nd_label n) \<le> 20"
    then show "sublist (escapeXml (nd_label n)) (gr_svg result)"
      by (intro lines) simp
  next
    fix line
    assume "20 < length (nd_label n)" "line \<in> set (wrapText (nd_label n) 18)"
    then show "sublist (escapeXml line) (gr_svg result)"
      by (intro lines) simp
  qed
qed

lemma exampleFlow_generated:
  "\<not> isl (generateDiagram exampleElk noResvg exampleFlowInput False 42)"
  by (simp add: generateDiagram_def parse_exampleFlowInput bindE_def renderDiagram_def
      layoutFlowDiagram_def exampleElk_def Let_def split_beta)

theorem C2_label_lines_in_svg_witness:
  "parseDiagram exampleFlowInput = Inr (Flow exampleFlow)
   \<and> \<not> isl (generateDiagram exampleElk noResvg exampleFlowInput False 42)
   \<and> hd (fd_nodes exampleFlow) \<in> set (fd_nodes exampleFlow)
   \<and> nd_label (hd (fd_nodes exampleFlow)) = ''Start''
   \<and> sublist (escapeXml ''Start'')
        (gr_svg (fst (projr (generateDiagram exampleElk noResvg exampleFlowInput False 42))))"
proof -
  let ?G = "generateDiagram exampleElk noResvg exampleFlowInput False 42"
  have g: "?G = Inr (fst (projr ?G), snd (projr ?G))"
    using exampleFlow_generated by (cases ?G) simp_all
  have n: "hd (fd_nodes exampleFlow) \<in> set (fd_nodes exampleFlow)"
    by (simp add: exampleFlow_def)
  have l: "nd_label (hd (fd_nodes exampleFlow)) = ''Start''"
    by (simp add: exampleFlow_def)
  from C2_label_lines_in_svg [OF parse_exampleFlowInput g n]
  have "sublist (escapeXml ''Start'') (gr_svg (fst (projr ?G)))"
    by (simp add: l)
  with parse_exampleFlowInput exampleFlow_generated n l show ?thesis
    by simp
qed

lemma parse_longLabelInput:
  "parseDiagram longLabelInput =
     Inr (Flow \<lparr> fd_title = None,
                  fd_nodes = [\<lparr> nd_id = ''n'', nd_label = ''Validate the request body'',
                                nd_shape = Rectangle, nd_color = None, nd_textColor = None,
                                nd_width = None, nd_height = None \<rparr>],
                  fd_edges = [], fd_groups = [], fd_style = Clean, fd_direction = TB,
                  fd_output = None \<rparr>)"
  by code_simp

lemma layout_longLabel:
  "layoutFlowDiagram longLabelElk
     \<lparr> fd_title = None,
       fd_nodes = [\<lparr> nd_id = ''n'', nd_label = ''Validate the request body'',
                     nd_shape = Rectangle, nd_color = None, nd_textColor = None,
                     nd_width = None, nd_height = None \<rparr>],
       fd_edges = [], fd_groups = [], fd_style = Clean, fd_direction = TB,
       fd_output = None \<rparr>
   = Inr longLabelLayout"
proof -
  let ?result = "ElkNode ''root'' None None (Some 314) (Some 84) [] []
            [ElkNode ''n'' (Some 12) (Some 12) (Some 290) (Some 60)
               [''Validate the request body''] [] [] []]
            []"
  have pos: "collectNodePositions ?result ''n''
      = Some \<lparr> bx_x = 12, bx_y = 12, bx_width = 290, bx_height = 60 \<rparr>"
    unfolding collectNodePositions_def
    by (subst walkNodes.simps) (simp add: orZero_def)
  show ?thesis
    by (simp add: layoutFlowDiagram_def longLabelElk_def bindE_def Let_def pos
        mapLayoutNode_def orZero_def PADDING_def longLabelLayout_def)
qed

lemma render_longLabel:
  "\<not> sublist (escapeXml ''Validate the request body'')
       (fst (renderFlowDiagram longLabelLayout Clean None 42))"
  by code_simp

text \<open>
  The claim as stated fails for a label of 25 characters with spaces: the label is
  split over two \<open>tspan\<close> elements and is no substring of the SVG.
\<close>

theorem C2_long_label_counterexample:
  "(case parseDiagram longLabelInput of
      Inr (Flow flow) \<Rightarrow> map nd_label (fd_nodes flow) | _ \<Rightarrow> [])
     = [''Validate the request body'']
   \<and> (case generateDiagram longLabelElk noResvg longLabelInput False 42 of
        Inr (result, seedLeft) \<Rightarrow>
          \<not> sublist (escapeXml ''Validate the request body'') (gr_svg result)
      | Inl e \<Rightarrow> False)"
  using render_longLabel
  by (simp add: generateDiagram_def parse_longLabelInput layout_longLabel renderDiagram_def
      bindE_def split_beta)

subsection \<open>The characters of a printed number\<close>

text \<open>A number is printed with digits, a sign and a point only.\<close>

lemma digitChar_decimal: "d < 10 \<Longrightarrow> digitChar d \<in> set ''0123456789''"
proof -
  assume "d < 10"
  then have "d \<in> {0,1,2,3,4,5,6,7,8,9}" by auto
  then show ?thesis by (auto simp add: digitChar_def)
qed

lemma showNat_decimal: "set (showNat n) \<subseteq> set ''0123456789''"
proof (induction n rule: showNat.induct)
  case (1 n)
  show ?case
  proof (cases "n < 10")
    case True
    then show ?thesis using digitChar_decimal [of n] by (subst showNat.simps) simp
  next
    case False
    have "n mod 10 < 10" by simp
    then have "digitChar (n mod 10) \<in> set ''0123456789''" by (rule digitChar_decimal)
    with 1 False show ?thesis by (subst showNat.simps) simp
  qed
qed

lemma fracDigits_decimal:
  "0 \<le> f \<Longrightarrow> f < 1 \<Longrightarrow> set (fracDigits f k) \<subseteq> set ''0123456789''"
proof (induction k arbitrary: f)
  case 0
  show ?case by simp
next
  case (Suc k)
  have "nat \<lfloor>f * 10\<rfloor> < 10" using Suc.prems by (simp add: nat_less_iff floor_less_iff)
  then have d: "digitChar (nat \<lfloor>f * 10\<rfloor>) \<in> set ''0123456789''" by (rule digitChar_decimal)
  have "set (fracDigits (frac (f * 10)) k) \<subseteq> set ''0123456789''"
    by (rule Suc.IH) (simp_all add: frac_lt_1)
  with d show ?case by simp
qed

lemma numToString_parts:
  "set (numToString x)
     \<subseteq> set ''-.'' \<union> (set (showNat (nat \<lfloor>\<bar>x\<bar>\<rfloor>))
                        \<union> set (fracDigits (frac \<bar>x\<bar>) 17))"
  unfolding numToString_def
  by (cases "x < 0"; cases "frac \<bar>x\<bar> = 0")
    (simp_all only: if_True if_False set_append set_simps, auto)

lemma numToString_chars: "set (numToString x) \<subseteq> set ''-.0123456789''"
proof -
  have f: "set (fracDigits (frac \<bar>x\<bar>) 17) \<subseteq> set ''0123456789''"
    by (rule fracDigits_decimal) (simp_all add: frac_lt_1)
  have s: "set (showNat (nat \<lfloor>\<bar>x\<bar>\<rfloor>)) \<subseteq> set ''0123456789''"
    by (rule showNat_decimal)
  have "set ''-.'' \<union> (set ''0123456789'' \<union> set ''0123456789'') \<subseteq> set ''-.0123456789''"
    by simp
  with numToString_parts [of x] f s show ?thesis
    by blast
qed

subsection \<open>Replacing the text anchor\<close>

text \<open>In the output of \<open>renderText\<close> the first occurrence of \<open>text-anchor="middle"\<close>
  is the one in the literal text after the two coordinates, so replacing it in the
  fragments is replacing it in the string.\<close>

lemma replaceFirst_skip:
  "pat \<noteq> [] \<Longrightarrow> hd pat \<notin> set s \<Longrightarrow> replaceFirst pat rep (s @ t) = s @ replaceFirst pat rep t"
proof (induction s)
  case Nil
  show ?case by simp
next
  case (Cons c s)
  then have "\<not> prefix pat ((c # s) @ t)"
    by (cases pat) auto
  with Cons show ?case by simp
qed

lemma replaceFirst_skip_number:
  \<open>replaceFirst ''text-anchor="middle"'' rep (numToString v @ t)
     = numToString v @ replaceFirst ''text-anchor="middle"'' rep t\<close>
proof (rule replaceFirst_skip)
  show \<open>''text-anchor="middle"'' \<noteq> []\<close> by simp
  have \<open>CHR ''t'' \<notin> set ''-.0123456789''\<close> by simp
  with numToString_chars [of v] have \<open>CHR ''t'' \<notin> set (numToString v)\<close> by blast
  then show \<open>hd ''text-anchor="middle"'' \<notin> set (numToString v)\<close>
    by simp
qed

lemma anchor_sublists:
  \<open>\<not> sublist ''text-anchor="middle"'' ''<text x="''\<close>
  \<open>\<not> sublist ''text-anchor="middle"'' ''" y="''\<close>
  \<open>sublist ''text-anchor="middle"'' ''" text-anchor="middle" dominant-baseline="central" ''\<close>
  by code_simp+

lemma render_frag_Cons: "render (f # fs) = fragStr f @ render fs"
  by (simp add: render_def)

lemma anchor_replaced:
  \<open>render (replaceFirstF ''text-anchor="middle"'' ''text-anchor="start"''
       ([Txt ''<text x="'', CoordRaw a, Txt ''" y="'', CoordRaw b,
         Txt ''" text-anchor="middle" dominant-baseline="central" ''] @ rest))
   = replaceFirst ''text-anchor="middle"'' ''text-anchor="start"''
       (render ([Txt ''<text x="'', CoordRaw a, Txt ''" y="'', CoordRaw b,
         Txt ''" text-anchor="middle" dominant-baseline="central" ''] @ rest))\<close>
  by (simp add: anchor_sublists render_frag_Cons replaceFirst_skip_number)

lemma render_replaceFirstF_renderText:
  \<open>render (replaceFirstF ''text-anchor="middle"'' ''text-anchor="start"''
             (renderText x y text fontSize fontFam color opts))
   = replaceFirst ''text-anchor="middle"'' ''text-anchor="start"''
       (render (renderText x y text fontSize fontFam color opts))\<close>
proof (cases "length text > 20")
  case True
  then obtain b rest where
    "renderText x y text fontSize fontFam color opts =
       [Txt ''<text x=\"'', CoordRaw x, Txt ''\" y=\"'', CoordRaw b,
         Txt ''\" text-anchor=\"middle\" dominant-baseline=\"central\" ''] @ rest"
    by (simp add: renderText_def Let_def)
  then show ?thesis
    by (simp only: anchor_replaced)
next
  case False
  then obtain rest where
    "renderText x y text fontSize fontFam color opts =
       [Txt ''<text x=\"'', CoordRaw x, Txt ''\" y=\"'', CoordRaw y,
         Txt ''\" text-anchor=\"middle\" dominant-baseline=\"central\" ''] @ rest"
    by (simp add: renderText_def Let_def)
  then show ?thesis
    by (simp only: anchor_replaced)
qed

subsection \<open>Messages and participants in the output\<close>

lemma participantsByIdOf_Some:
  assumes "k \<in> sp_id ` set ps"
  shows "\<exists>p. participantsByIdOf ps k = Some p"
proof -
  from assms have "k \<in> dom (participantsByIdOf ps)"
    using participantsByIdOf_dom_aux [of ps Map.empty]
    by (simp add: participantsByIdOf_def)
  then show ?thesis
    by (rule domD)
qed

lemma render_append: "render (a @ b) = render a @ render b"
  by (simp add: render_def)

lemma render_Txt_Cons: "render (Txt s # fs) = s @ render fs"
  by (simp add: render_def)

lemma sublist_render: "sublist p fs \<Longrightarrow> sublist (render p) (render fs)"
proof -
  assume "sublist p fs"
  then obtain pre post where "fs = pre @ p @ post"
    by (auto simp: sublist_def)
  then have "render fs = render pre @ render p @ render post"
    by (simp add: render_append)
  then show ?thesis
    by (simp add: sublist_def) blast
qed

lemma sublist_extend: "sublist p fs \<Longrightarrow> sublist p (a @ fs @ b)"
proof -
  assume "sublist p fs"
  then obtain pre post where "fs = pre @ p @ post"
    by (auto simp: sublist_def)
  then have "a @ fs @ b = (a @ pre) @ p @ (post @ b)"
    by simp
  then show ?thesis
    unfolding sublist_def by blast
qed

lemma joinSvg_sublist: "p \<in> set ps \<Longrightarrow> sublist p (joinSvg sep ps)"
proof (induction sep ps rule: joinSvg.induct)
  case (1 sep)
  then show ?case by simp
next
  case (2 sep q)
  then show ?case by simp
next
  case (3 sep q r ps)
  show ?case
  proof (cases "p = q")
    case True
    then show ?thesis by simp
  next
    case False
    with 3 have "sublist p (joinSvg sep (r # ps))" by simp
    then have "sublist p ((q @ sep) @ joinSvg sep (r # ps) @ [])"
      by (rule sublist_extend)
    then show ?thesis by simp
  qed
qed

lemma joinSvg_prefix: "prefix p (joinSvg sep (p # ps))"
  by (cases ps) simp_all

lemma SvgBuilder_toString_sublist:
  assumes "el \<in> set (sb_elements b)"
  shows "sublist el (SvgBuilder_toString b)"
proof -
  from assms have "Txt ''  '' # el \<in> set (map (\<lambda>el. Txt ''  '' # el) (sb_elements b))"
    by simp
  then have "sublist (Txt ''  '' # el) (SvgBuilder_toString b)"
    unfolding SvgBuilder_toString_def Let_def
    by (intro joinSvg_sublist) simp
  moreover have "sublist el (Txt ''  '' # el)"
    by (simp add: sublist_Cons_right)
  ultimately show ?thesis
    by (rule sublist_order.order_trans [rotated])
qed

lemma assembleSvg_sublist_part:
  assumes "p \<in> set contentParts"
  shows "sublist p (assembleSvg layoutWidth layoutHeight title config contentParts)"
proof (cases "truthy title")
  case True
  let ?g = "[Txt ''<g transform=\"translate(0, '', CoordRaw 40, Txt '')\">'',
             Txt [CHR 0x0A]] @ joinSvg newline contentParts @ [Txt [CHR 0x0A], Txt ''</g>'']"
  from assms have "sublist p (joinSvg newline contentParts)"
    by (rule joinSvg_sublist)
  then have "sublist p ?g"
    by (rule sublist_extend)
  moreover have "sublist ?g (assembleSvg layoutWidth layoutHeight title config contentParts)"
    using True unfolding assembleSvg_def Let_def
    by (intro SvgBuilder_toString_sublist) (simp add: addElement_def)
  ultimately show ?thesis
    by (rule sublist_order.order_trans)
next
  case False
  with assms show ?thesis
    unfolding assembleSvg_def Let_def
    by (intro SvgBuilder_toString_sublist) (simp add: fold_addElement)
qed

lemma prefix_render: "prefix [Txt a] fs \<Longrightarrow> prefix a (render fs)"
proof -
  assume "prefix [Txt a] fs"
  then obtain rest where "fs = [Txt a] @ rest"
    by (auto simp: prefix_def)
  then show ?thesis
    by (simp add: render_Txt_Cons)
qed

lemma suffix_render: "suffix [Txt a] fs \<Longrightarrow> suffix a (render fs)"
proof -
  assume "suffix [Txt a] fs"
  then obtain pre where "fs = pre @ [Txt a]"
    by (auto simp: suffix_def)
  then have "render fs = render pre @ a"
    by (simp add: render_append render_Txt_Cons render_def)
  then show ?thesis
    by (simp add: suffix_def)
qed

lemma sublist_of_part:
  assumes "sublist a (render p)" and "sublist p g"
  shows "sublist a (render g)"
  using assms(1) sublist_render [OF assms(2)] by (rule sublist_order.order_trans)

lemma sketchyLine_starts:
  \<open>prefix [Txt ''<path d="M ''] (fst (sketchyLine x1 y1 x2 y2 config strokeColor dashArray seed))
   \<or> prefix [Txt ''<line x1="''] (fst (sketchyLine x1 y1 x2 y2 config strokeColor dashArray seed))\<close>
  by (simp add: sketchyLine_def Let_def split_beta)

lemma sketchyPolyline_two:
  "fst (sketchyPolyline [p, q] config strokeColor dashArray seed)
     = fst (sketchyLine (fst p) (snd p) (fst q) (snd q) config strokeColor dashArray seed)"
  by (simp add: sketchyPolyline_def Let_def split_beta)

lemma renderArrowhead_starts:
  \<open>prefix [Txt ''<polygon points="'']
     (fst (renderArrowhead tipX tipY fromX fromY color config seed))\<close>
  by (simp add: renderArrowhead_def Let_def split_beta)

lemma renderRectangle_starts:
  \<open>prefix [Txt ''<path d="M '']
     (fst (renderRectangle x y width height fillColor strokeColor config seed))
   \<or> prefix [Txt ''<rect x="'']
     (fst (renderRectangle x y width height fillColor strokeColor config seed))\<close>
proof (cases "jitterAmount config > 0")
  case True
  have \<open>prefix [Txt ''<path d="M ''] (fillPathOf points fillColor config)\<close> for points
    by (simp add: fillPathOf_def)
  then have \<open>prefix [Txt ''<path d="M ''] (joinSvg newline (fillPathOf points fillColor config # edges))\<close>
    for points edges
    using joinSvg_prefix [of "fillPathOf points fillColor config" newline edges]
    by (rule prefix_order.order_trans)
  with True show ?thesis
    by (simp add: renderRectangle_def Let_def split_beta)
next
  case False
  then show ?thesis
    by (simp add: renderRectangle_def Let_def split_beta)
qed

lemma escapeXml_no_quote: \<open>CHR ''"'' \<notin> set (escapeXml s)\<close>
  using xmlEntity_safe by (induction s) (simp_all add: escapeXml_Nil escapeXml_Cons)

lemma replaceFirstF_keeps:
  "Txt s \<in> set fs \<Longrightarrow> \<not> sublist pat s \<Longrightarrow> Txt s \<in> set (replaceFirstF pat rep fs)"
  by (induction pat rep fs rule: replaceFirstF.induct) auto

lemma anchor_not_in_escaped: \<open>\<not> sublist ''text-anchor="middle"'' (escapeXml s)\<close>
proof
  assume \<open>sublist ''text-anchor="middle"'' (escapeXml s)\<close>
  then have \<open>set ''text-anchor="middle"'' \<subseteq> set (escapeXml s)\<close>
    by (rule set_mono_sublist)
  then have \<open>CHR ''"'' \<in> set (escapeXml s)\<close>
    by simp
  with escapeXml_no_quote show False
    by blast
qed

lemma group_parts:
  assumes "g = [Txt h, Txt [CHR 0x0A]] @ joinSvg newline parts @ [Txt [CHR 0x0A], Txt f]"
  shows "prefix h (render g)" and "suffix f (render g)"
    and "p \<in> set parts \<Longrightarrow> sublist p g"
proof -
  show "prefix h (render g)"
    unfolding assms by (rule prefix_render) simp
  have "suffix [Txt f] (([Txt h, Txt [CHR 0x0A]] @ joinSvg newline parts @ [Txt [CHR 0x0A]]) @ [Txt f])"
    by (rule suffix_appendI) simp
  then show "suffix f (render g)"
    unfolding assms by (intro suffix_render) simp
  assume "p \<in> set parts"
  then have "sublist p (joinSvg newline parts)"
    by (rule joinSvg_sublist)
  then show "sublist p g"
    unfolding assms by (rule sublist_extend)
qed

lemma renderMessage_drawn:
  assumes fromP: "byId (sm_from m) = Some fromP"
    and toP: "byId (sm_to m) = Some toP"
  shows \<open>prefix ''<g class="message">'' (render (fst (renderMessage m byId config s)))\<close>
    and \<open>suffix ''</g>'' (render (fst (renderMessage m byId config s)))\<close>
    and \<open>sublist ''<polygon points="'' (render (fst (renderMessage m byId config s)))\<close>
    and \<open>sublist ''<path d="M '' (render (fst (renderMessage m byId config s)))
         \<or> sublist ''<line x1="'' (render (fst (renderMessage m byId config s)))\<close>
    and \<open>line \<in> set (if 20 < length (sm_label m) then wrapText (sm_label m) 18
                        else [sm_label m])
         \<Longrightarrow> sublist (escapeXml line) (render (fst (renderMessage m byId config s)))\<close>
proof -
  let ?g = "fst (renderMessage m byId config s)"
  let ?col = "case sm_color m of Some c \<Rightarrow> c | None \<Rightarrow> ''#666666''"
  have "\<exists>first arrowSeed rest label.
      ?g = [Txt ''<g class=\"message\">'', Txt [CHR 0x0A]]
           @ joinSvg newline ([first, fst (renderArrowhead
                 (if sm_isSelfMessage m then sp_x fromP else sp_x toP)
                 (if sm_isSelfMessage m then sm_y m + 20 else sm_y m)
                 (if sm_isSelfMessage m then sp_x fromP + 30 else sp_x fromP)
                 (if sm_isSelfMessage m then sm_y m + 20 else sm_y m)
                 ?col config arrowSeed)] @ rest @ [label])
           @ [Txt [CHR 0x0A], Txt ''</g>'']
      \<and> (prefix ''<path d=\"M '' (render first) \<or> prefix ''<line x1=\"'' (render first))
      \<and> (\<forall>line \<in> set (if 20 < length (sm_label m) then wrapText (sm_label m) 18
                               else [sm_label m]).
            Txt (escapeXml line) \<in> set label)"
  proof (cases "sm_isSelfMessage m")
    case True
    let ?sx = "sp_x fromP" and ?sy = "sm_y m"
    let ?corners0 = "[(?sx, ?sy), (?sx + 30, ?sy), (?sx + 30, ?sy + 20), (?sx, ?sy + 20)]"
    let ?cs = "if jitterAmount config > 0 then jitterPoints ?corners0 (jitterAmount config) s
               else (?corners0, s)"
    let ?loop = "[Txt ''<path d=\"''] @ ([Txt ''M ''] @ joinSvg [Txt '' L ''] (map ptSpace (fst ?cs)))
                 @ [Txt (''\" fill=\"none\" stroke=\"'' @ ?col @ ''\" stroke-width=\"''),
                    StyleRaw (strokeWidth config),
                    Txt (''\" stroke-linecap=\"round\"'' @ dashAttr (getDashArray (sm_style m))
                         @ ''/>'')]"
    let ?text = "renderText (?sx + 30 + 8) (?sy + 20 / 2) (sm_label m) 12 (fontFamily config)
                   ?col noOpts"
    let ?label = "replaceFirstF ''text-anchor=\"middle\"'' ''text-anchor=\"start\"'' ?text"
    have eq: "?g = [Txt ''<g class=\"message\">'', Txt [CHR 0x0A]]
           @ joinSvg newline ([?loop, fst (renderArrowhead ?sx (?sy + 20) (?sx + 30) (?sy + 20)
                                             ?col config (snd ?cs))] @ [] @ [?label])
           @ [Txt [CHR 0x0A], Txt ''</g>'']"
      using True fromP toP
      by (simp add: renderMessage_def Let_def split_beta)
    have p: "prefix ''<path d=\"M '' (render ?loop)"
      by (simp add: render_Txt_Cons)
    have l: "Txt (escapeXml line) \<in> set ?label"
      if "line \<in> set (if 20 < length (sm_label m) then wrapText (sm_label m) 18
                         else [sm_label m])" for line
    proof (rule replaceFirstF_keeps)
      show "Txt (escapeXml line) \<in> set ?text"
        using that by (intro renderText_has_lines) (simp add: noOpts_def split: if_splits)
      show "\<not> sublist ''text-anchor=\"middle\"'' (escapeXml line)"
        by (rule anchor_not_in_escaped)
    qed
    from eq p l True show ?thesis
      by (intro exI [of _ ?loop] exI [of _ "snd ?cs"] exI [of _ "[]"] exI [of _ ?label])
        (simp del: append.simps)
  next
    case False
    let ?line = "fst (sketchyPolyline [(sp_x fromP, sm_y m), (sp_x toP, sm_y m)] config ?col
                   (getDashArray (sm_style m)) s)"
    let ?s1 = "snd (sketchyPolyline [(sp_x fromP, sm_y m), (sp_x toP, sm_y m)] config ?col
                   (getDashArray (sm_style m)) s)"
    let ?midX = "(sp_x fromP + sp_x toP) / 2"
    let ?labelWidth = "max (real (length (sm_label m)) * 7 + 12) 30"
    let ?bg = "[Txt ''<rect x=\"'', Fixed1 (?midX - ?labelWidth / 2),
                Txt ''\" y=\"'', Fixed1 (sm_y m - 8 - 18 / 2),
                Txt ''\" width=\"'', Fixed1 ?labelWidth,
                Txt ''\" height=\"'', Fixed1 18,
                Txt ''\" rx=\"3\" ry=\"3\" fill=\"white\" fill-opacity=\"0.9\" stroke=\"none\"/>'']"
    let ?label = "renderText ?midX (sm_y m - 8) (sm_label m) 12 (fontFamily config) ?col noOpts"
    have eq: "?g = [Txt ''<g class=\"message\">'', Txt [CHR 0x0A]]
           @ joinSvg newline ([?line, fst (renderArrowhead (sp_x toP) (sm_y m) (sp_x fromP) (sm_y m)
                                             ?col config ?s1)] @ [?bg] @ [?label])
           @ [Txt [CHR 0x0A], Txt ''</g>'']"
      using False fromP toP
      by (simp add: renderMessage_def Let_def split_beta)
    have "prefix [Txt ''<path d=\"M ''] ?line \<or> prefix [Txt ''<line x1=\"''] ?line"
      unfolding sketchyPolyline_two using sketchyLine_starts by simp
    then have p: "prefix ''<path d=\"M '' (render ?line) \<or> prefix ''<line x1=\"'' (render ?line)"
      using prefix_render by blast
    have l: "Txt (escapeXml line) \<in> set ?label"
      if "line \<in> set (if 20 < length (sm_label m) then wrapText (sm_label m) 18
                         else [sm_label m])" for line
      using that by (intro renderText_has_lines) (simp add: noOpts_def split: if_splits)
    from eq p l False show ?thesis
      by (intro exI [of _ ?line] exI [of _ ?s1] exI [of _ "[?bg]"] exI [of _ ?label])
        (simp del: append.simps)
  qed
  then obtain first arrow rest label where
    eq: "?g = [Txt ''<g class=\"message\">'', Txt [CHR 0x0A]]
           @ joinSvg newline ([first, arrow] @ rest @ [label])
           @ [Txt [CHR 0x0A], Txt ''</g>'']"
    and arrow: "prefix [Txt ''<polygon points=\"''] arrow"
    and first: "prefix ''<path d=\"M '' (render first) \<or> prefix ''<line x1=\"'' (render first)"
    and label: "\<And>line. line \<in> set (if 20 < length (sm_label m) then wrapText (sm_label m) 18
                               else [sm_label m]) \<Longrightarrow> Txt (escapeXml line) \<in> set label"
    using renderArrowhead_starts by blast
  show \<open>prefix ''<g class="message">'' (render ?g)\<close>
    using eq by (rule group_parts(1))
  show \<open>suffix ''</g>'' (render ?g)\<close>
    using eq by (rule group_parts(2))
  have in_g: "sublist p ?g" if "p \<in> set ([first, arrow] @ rest @ [label])" for p
    using eq that by (rule group_parts(3))
  have "sublist ''<polygon points=\"'' (render arrow)"
    using arrow by (intro prefix_imp_sublist prefix_render)
  moreover have "sublist arrow ?g"
    by (rule in_g) simp
  ultimately show \<open>sublist ''<polygon points="'' (render ?g)\<close>
    by (rule sublist_of_part)
  have fg: "sublist first ?g"
    by (rule in_g) simp
  from first show \<open>sublist ''<path d="M '' (render ?g) \<or> sublist ''<line x1="'' (render ?g)\<close>
  proof
    assume "prefix ''<path d=\"M '' (render first)"
    then have "sublist ''<path d=\"M '' (render first)"
      by (rule prefix_imp_sublist)
    then have "sublist ''<path d=\"M '' (render ?g)"
      using fg by (rule sublist_of_part)
    then show ?thesis ..
  next
    assume "prefix ''<line x1=\"'' (render first)"
    then have "sublist ''<line x1=\"'' (render first)"
      by (rule prefix_imp_sublist)
    then have "sublist ''<line x1=\"'' (render ?g)"
      using fg by (rule sublist_of_part)
    then show ?thesis ..
  qed
  assume "line \<in> set (if 20 < length (sm_label m) then wrapText (sm_label m) 18
                        else [sm_label m])"
  then have "Txt (escapeXml line) \<in> set label"
    by (rule label)
  then have "sublist (escapeXml line) (render label)"
    by (rule Txt_in_render)
  moreover have "sublist label ?g"
    by (rule in_g) simp
  ultimately show "sublist (escapeXml line) (render ?g)"
    by (rule sublist_of_part)
qed

lemma sketchyLine_dashed:
  \<open>sublist ''stroke-dasharray="6,4"''
     (render (fst (sketchyLine x1 y1 x2 y2 config strokeColor (Some ''6,4'') seed)))\<close>
proof -
  let ?t = \<open>Txt (''" stroke-linecap="round"'' @ dashAttr (Some ''6,4'') @ ''/>'')\<close>
  have \<open>?t \<in> set (fst (sketchyLine x1 y1 x2 y2 config strokeColor (Some ''6,4'') seed))\<close>
    by (simp add: sketchyLine_def Let_def split_beta)
  then have \<open>sublist (''" stroke-linecap="round"'' @ dashAttr (Some ''6,4'') @ ''/>'')
      (render (fst (sketchyLine x1 y1 x2 y2 config strokeColor (Some ''6,4'') seed)))\<close>
    by (rule Txt_in_render)
  moreover have \<open>sublist ''stroke-dasharray="6,4"''
      (''" stroke-linecap="round"'' @ dashAttr (Some ''6,4'') @ ''/>'')\<close>
    by code_simp
  ultimately show ?thesis
    by (rule sublist_order.order_trans [rotated])
qed

lemma renderLifeline_drawn:
  \<open>prefix ''<path d="M '' (render (fst (renderLifeline p config s)))
   \<or> prefix ''<line x1="'' (render (fst (renderLifeline p config s)))\<close>
  \<open>sublist ''stroke-dasharray="6,4"'' (render (fst (renderLifeline p config s)))\<close>
proof -
  show \<open>prefix ''<path d="M '' (render (fst (renderLifeline p config s)))
   \<or> prefix ''<line x1="'' (render (fst (renderLifeline p config s)))\<close>
    unfolding renderLifeline_def Let_def
    using sketchyLine_starts prefix_render by blast
  show \<open>sublist ''stroke-dasharray="6,4"'' (render (fst (renderLifeline p config s)))\<close>
    unfolding renderLifeline_def Let_def by (rule sketchyLine_dashed)
qed

lemma renderParticipantBox_drawn:
  \<open>prefix ''<path d="M '' (render (fst (renderParticipantBox p y config i s)))
   \<or> prefix ''<rect x="'' (render (fst (renderParticipantBox p y config i s)))\<close>
  \<open>line \<in> set (if 20 < length (sp_label p) then wrapText (sp_label p) 18 else [sp_label p])
   \<Longrightarrow> sublist (escapeXml line) (render (fst (renderParticipantBox p y config i s)))\<close>
proof -
  let ?fill = "case sp_color p of Some c \<Rightarrow> c | None \<Rightarrow> PALETTE ! (i mod length PALETTE)"
  let ?box = "fst (renderRectangle (sp_x p - sp_width p / 2) y (sp_width p) 40 ?fill
                     (darkenColor ?fill 0.3) config s)"
  let ?label = "renderText (sp_x p) (y + 40 / 2) (sp_label p) 13 (fontFamily config) ''#333333''
                  \<lparr> to_bold = False, to_maxCharsPerLine = Some 18 \<rparr>"
  have eq: "fst (renderParticipantBox p y config i s) = ?box @ newline @ ?label"
    by (simp add: renderParticipantBox_def Let_def split_beta)
  have "prefix [Txt ''<path d=\"M ''] ?box \<or> prefix [Txt ''<rect x=\"''] ?box"
    by (rule renderRectangle_starts)
  then have "prefix [Txt ''<path d=\"M ''] (?box @ newline @ ?label)
      \<or> prefix [Txt ''<rect x=\"''] (?box @ newline @ ?label)"
    using prefix_prefix by blast
  then show \<open>prefix ''<path d="M '' (render (fst (renderParticipantBox p y config i s)))
   \<or> prefix ''<rect x="'' (render (fst (renderParticipantBox p y config i s)))\<close>
    unfolding eq using prefix_render by blast
  assume "line \<in> set (if 20 < length (sp_label p) then wrapText (sp_label p) 18
                        else [sp_label p])"
  then have "Txt (escapeXml line) \<in> set ?label"
    by (intro renderText_has_lines) (simp split: if_splits)
  then have "Txt (escapeXml line) \<in> set (?box @ newline @ ?label)"
    by simp
  then show "sublist (escapeXml line) (render (fst (renderParticipantBox p y config i s)))"
    unfolding eq by (rule Txt_in_render)
qed

lemma sequenceContentParts_set:
  "\<exists>s1 s2 s3.
     set (fst (sequenceContentParts layout config seed)) =
       set (fst (mapS (\<lambda>p. renderLifeline p config) (sl_participants layout) seed))
       \<union> set (fst (mapS (\<lambda>msg. renderMessage msg (participantsByIdOf (sl_participants layout))
                                   config) (sl_messages layout) s1))
       \<union> set (fst (mapS (\<lambda>(p, i). renderParticipantBox p (sp_topY p) config i)
                      (zip (sl_participants layout) [0..<length (sl_participants layout)]) s2))
       \<union> set (fst (mapS (\<lambda>(p, i). renderParticipantBox p (sp_bottomY p) config i)
                      (zip (sl_participants layout) [0..<length (sl_participants layout)]) s3))"
  unfolding sequenceContentParts_def Let_def split_beta fst_conv set_append Un_assoc
  by blast

lemma sequenceContentParts_has_message:
  assumes "m \<in> set (sl_messages layout)"
  shows "\<exists>s. fst (renderMessage m (participantsByIdOf (sl_participants layout)) config s)
               \<in> set (fst (sequenceContentParts layout config seed))"
proof -
  let ?f = "\<lambda>msg. renderMessage msg (participantsByIdOf (sl_participants layout)) config"
  obtain s1 where sub: "set (fst (mapS ?f (sl_messages layout) s1))
      \<subseteq> set (fst (sequenceContentParts layout config seed))"
    using sequenceContentParts_set [of layout config seed] by blast
  have "\<exists>s. fst (?f m s) \<in> set (fst (mapS ?f (sl_messages layout) s1))"
    using assms by (rule mapS_member [where f = ?f and x = m])
  with sub show ?thesis
    by blast
qed

lemma sequenceContentParts_has_lifeline:
  assumes "p \<in> set (sl_participants layout)"
  shows "\<exists>s. fst (renderLifeline p config s)
               \<in> set (fst (sequenceContentParts layout config seed))"
proof -
  let ?f = "\<lambda>p. renderLifeline p config"
  have sub: "set (fst (mapS ?f (sl_participants layout) seed))
      \<subseteq> set (fst (sequenceContentParts layout config seed))"
    using sequenceContentParts_set [of layout config seed] by blast
  have "\<exists>s. fst (?f p s) \<in> set (fst (mapS ?f (sl_participants layout) seed))"
    using assms by (rule mapS_member [where f = ?f and x = p])
  with sub show ?thesis
    by blast
qed

lemma sequenceContentParts_has_boxes:
  assumes "p \<in> set (sl_participants layout)"
  shows "\<exists>i s. fst (renderParticipantBox p (sp_topY p) config i s)
               \<in> set (fst (sequenceContentParts layout config seed))"
    and "\<exists>i s. fst (renderParticipantBox p (sp_bottomY p) config i s)
               \<in> set (fst (sequenceContentParts layout config seed))"
proof -
  let ?xs = "zip (sl_participants layout) [0..<length (sl_participants layout)]"
  let ?t = "\<lambda>(p, i). renderParticipantBox p (sp_topY p) config i"
  let ?b = "\<lambda>(p, i). renderParticipantBox p (sp_bottomY p) config i"
  obtain s2 s3 where top: "set (fst (mapS ?t ?xs s2))
        \<subseteq> set (fst (sequenceContentParts layout config seed))"
    and bottom: "set (fst (mapS ?b ?xs s3))
        \<subseteq> set (fst (sequenceContentParts layout config seed))"
    using sequenceContentParts_set [of layout config seed] by blast
  from assms have "\<exists>i. (p, i) \<in> set ?xs"
    by (rule indexed_member)
  then obtain i where i: "(p, i) \<in> set ?xs" ..
  have "\<exists>s. fst (?t (p, i) s) \<in> set (fst (mapS ?t ?xs s2))"
    using i by (rule mapS_member [where f = ?t and x = "(p, i)"])
  then have "\<exists>s. fst (renderParticipantBox p (sp_topY p) config i s)
      \<in> set (fst (mapS ?t ?xs s2))"
    by simp
  with top show "\<exists>i s. fst (renderParticipantBox p (sp_topY p) config i s)
               \<in> set (fst (sequenceContentParts layout config seed))"
    by blast
  have "\<exists>s. fst (?b (p, i) s) \<in> set (fst (mapS ?b ?xs s3))"
    using i by (rule mapS_member [where f = ?b and x = "(p, i)"])
  then have "\<exists>s. fst (renderParticipantBox p (sp_bottomY p) config i s)
      \<in> set (fst (mapS ?b ?xs s3))"
    by simp
  with bottom show "\<exists>i s. fst (renderParticipantBox p (sp_bottomY p) config i s)
               \<in> set (fst (sequenceContentParts layout config seed))"
    by blast
qed

lemma renderSequenceDiagram_has_part:
  assumes "part \<in> set (fst (sequenceContentParts layout (getThemeConfig theme) 42))"
  shows "sublist (render part) (fst (renderSequenceDiagram layout theme title seed0))"
proof -
  from assms have "sublist part (assembleSvg (sl_width layout) (sl_height layout) title
      (getThemeConfig theme) (fst (sequenceContentParts layout (getThemeConfig theme) 42)))"
    by (rule assembleSvg_sublist_part)
  then have "sublist (render part) (render (assembleSvg (sl_width layout) (sl_height layout) title
      (getThemeConfig theme) (fst (sequenceContentParts layout (getThemeConfig theme) 42))))"
    by (rule sublist_render)
  then show ?thesis
    by (simp add: renderSequenceDiagram_def renderSequenceDiagramSvg_def resetSeed_def Let_def
        split_beta)
qed

lemma sequenceContentParts_dangling:
  assumes dangling: "sm_from m \<notin> sp_id ` set (sl_participants layout)
      \<or> sm_to m \<notin> sp_id ` set (sl_participants layout)"
    and msgs: "sl_messages layout = before @ [m] @ after"
  shows "renderMessage m (participantsByIdOf (sl_participants layout)) config seed = ([], seed)"
    and "sequenceContentParts layout config seed =
        (let (parts, seed') =
               sequenceContentParts (layout\<lparr> sl_messages := before @ after \<rparr>) config seed;
             k = length (sl_participants layout) + length before
         in (take k parts @ [[]] @ drop k parts, seed'))"
proof -
  let ?byId = "participantsByIdOf (sl_participants layout)"
  let ?f = "\<lambda>msg. renderMessage msg ?byId config"
  from dangling have none: "?byId (sm_from m) = None \<or> ?byId (sm_to m) = None"
  proof
    assume "sm_from m \<notin> sp_id ` set (sl_participants layout)"
    then have "?byId (sm_from m) = None"
      by (rule participantsByIdOf_None)
    then show ?thesis ..
  next
    assume "sm_to m \<notin> sp_id ` set (sl_participants layout)"
    then have "?byId (sm_to m) = None"
      by (rule participantsByIdOf_None)
    then show ?thesis ..
  qed
  then have skip: "\<And>s. ?f m s = ([], s)"
    by (rule renderMessage_dangling)
  show "renderMessage m ?byId config seed = ([], seed)"
    by (rule skip)
  let ?ll = "mapS (\<lambda>p. renderLifeline p config) (sl_participants layout) seed"
  let ?mb = "mapS ?f before (snd ?ll)"
  let ?ma = "mapS ?f after (snd ?mb)"
  have with_m: "mapS ?f (before @ [m] @ after) (snd ?ll) =
      (fst ?mb @ [[]] @ fst ?ma, snd ?ma)"
    by (rule mapS_skip [where f = ?f and m = m, OF skip])
  then have with_m': "mapS ?f (before @ m # after) (snd ?ll) =
      (fst ?mb @ [[]] @ fst ?ma, snd ?ma)"
    by simp
  have without_m: "mapS ?f (before @ after) (snd ?ll) = (fst ?mb @ fst ?ma, snd ?ma)"
    by (simp add: mapS_append Let_def split_beta)
  let ?tb = "mapS (\<lambda>(p, i). renderParticipantBox p (sp_topY p) config i)
      (zip (sl_participants layout) [0..<length (sl_participants layout)]) (snd ?ma)"
  let ?bb = "mapS (\<lambda>(p, i). renderParticipantBox p (sp_bottomY p) config i)
      (zip (sl_participants layout) [0..<length (sl_participants layout)]) (snd ?tb)"
  have lhs: "sequenceContentParts layout config seed =
      (fst ?ll @ (fst ?mb @ [[]] @ fst ?ma) @ fst ?tb @ fst ?bb, snd ?bb)"
    by (simp add: sequenceContentParts_def msgs with_m' Let_def split_beta)
  have rhs: "sequenceContentParts (layout\<lparr> sl_messages := before @ after \<rparr>) config seed =
      (fst ?ll @ (fst ?mb @ fst ?ma) @ fst ?tb @ fst ?bb, snd ?bb)"
    by (simp add: sequenceContentParts_def without_m Let_def split_beta)
  have len: "length (sl_participants layout) + length before = length (fst ?ll @ fst ?mb)"
    by (simp add: mapS_length)
  have "take (length (sl_participants layout) + length before)
          ((fst ?ll @ fst ?mb) @ (fst ?ma @ fst ?tb @ fst ?bb)) = fst ?ll @ fst ?mb"
    unfolding len by simp
  moreover have "drop (length (sl_participants layout) + length before)
          ((fst ?ll @ fst ?mb) @ (fst ?ma @ fst ?tb @ fst ?bb)) = fst ?ma @ fst ?tb @ fst ?bb"
    unfolding len by simp
  ultimately have ins: "take (length (sl_participants layout) + length before)
          (fst ?ll @ (fst ?mb @ fst ?ma) @ fst ?tb @ fst ?bb) @ [[]]
        @ drop (length (sl_participants layout) + length before)
            (fst ?ll @ (fst ?mb @ fst ?ma) @ fst ?tb @ fst ?bb)
      = fst ?ll @ (fst ?mb @ [[]] @ fst ?ma) @ fst ?tb @ fst ?bb"
    by simp
  show "sequenceContentParts layout config seed =
        (let (parts, seed') =
               sequenceContentParts (layout\<lparr> sl_messages := before @ after \<rparr>) config seed;
             k = length (sl_participants layout) + length before
         in (take k parts @ [[]] @ drop k parts, seed'))"
    unfolding rhs lhs using ins by (simp add: Let_def)
qed

lemma renderSequenceDiagram_dangling:
  assumes dangling: "sm_from m \<notin> sp_id ` set (sl_participants layout)
      \<or> sm_to m \<notin> sp_id ` set (sl_participants layout)"
    and msgs: "sl_messages layout = before @ [m] @ after"
  shows "renderSequenceDiagram layout theme title seed0 =
        (let (parts, seed') =
               sequenceContentParts (layout\<lparr> sl_messages := before @ after \<rparr>)
                 (getThemeConfig theme) 42;
             k = length (sl_participants layout) + length before
         in (render (assembleSvg (sl_width layout) (sl_height layout) title (getThemeConfig theme)
                       (take k parts @ [[]] @ drop k parts)),
             seed'))"
  unfolding renderSequenceDiagram_def renderSequenceDiagramSvg_def resetSeed_def
  by (simp add: sequenceContentParts_dangling(2) [OF dangling msgs] Let_def split_beta)

text \<open>
  Claim C8. A message whose \<open>from\<close> or \<open>to\<close> id is not the id of any laid-out
  participant is skipped: \<open>renderMessage\<close> returns the empty string for it and
  draws no random number; the content parts of the diagram, and with them the
  document that \<open>renderSequenceDiagram\<close> returns, are those of the diagram without
  this message, with one empty part in the place of the message. Everything else
  is still rendered. Every message whose two ids name participants gives, for every
  seed, a group from \<open><g class="message">\<close> to \<open></g>\<close> that holds its line or
  loop, its arrowhead and every line of its label, and this group is a contiguous
  part of the document. Every participant gives a dashed lifeline and a box with
  every line of its label, and the lifeline, the box at the top and the box at the
  bottom are contiguous parts of the document. (The rendering functions are total:
  no error is raised.)
\<close>

theorem C8_dangling_message_skipped:
  assumes dangling: "sm_from m \<notin> sp_id ` set (sl_participants layout)
      \<or> sm_to m \<notin> sp_id ` set (sl_participants layout)"
    and msgs: "sl_messages layout = before @ [m] @ after"
  shows \<open>renderMessage m (participantsByIdOf (sl_participants layout)) config seed = ([], seed)
    \<and> sequenceContentParts layout config seed =
        (let (parts, seed') =
               sequenceContentParts (layout\<lparr> sl_messages := before @ after \<rparr>) config seed;
             k = length (sl_participants layout) + length before
         in (take k parts @ [[]] @ drop k parts, seed'))
    \<and> renderSequenceDiagram layout theme title seed0 =
        (let (parts, seed') =
               sequenceContentParts (layout\<lparr> sl_messages := before @ after \<rparr>)
                 (getThemeConfig theme) 42;
             k = length (sl_participants layout) + length before
         in (render (assembleSvg (sl_width layout) (sl_height layout) title (getThemeConfig theme)
                       (take k parts @ [[]] @ drop k parts)),
             seed'))
    \<and> (\<forall>msg \<in> set (sl_messages layout).
          sm_from msg \<in> sp_id ` set (sl_participants layout)
          \<longrightarrow> sm_to msg \<in> sp_id ` set (sl_participants layout)
          \<longrightarrow> (\<forall>s. prefix ''<g class="message">''
                      (render (fst (renderMessage msg (participantsByIdOf (sl_participants layout))
                                      config s)))
                  \<and> suffix ''</g>''
                      (render (fst (renderMessage msg (participantsByIdOf (sl_participants layout))
                                      config s)))
                  \<and> sublist ''<polygon points="''
                      (render (fst (renderMessage msg (participantsByIdOf (sl_participants layout))
                                      config s)))
                  \<and> (sublist ''<path d="M ''
                        (render (fst (renderMessage msg
                                        (participantsByIdOf (sl_participants layout)) config s)))
                     \<or> sublist ''<line x1="''
                        (render (fst (renderMessage msg
                                        (participantsByIdOf (sl_participants layout)) config s))))
                  \<and> (\<forall>line \<in> set (if 20 < length (sm_label msg)
                                       then wrapText (sm_label msg) 18 else [sm_label msg]).
                        sublist (escapeXml line)
                          (render (fst (renderMessage msg
                                          (participantsByIdOf (sl_participants layout)) config s)))))
              \<and> (\<exists>s. sublist
                        (render (fst (renderMessage msg
                                        (participantsByIdOf (sl_participants layout))
                                        (getThemeConfig theme) s)))
                        (fst (renderSequenceDiagram layout theme title seed0))))
    \<and> (\<forall>p \<in> set (sl_participants layout).
          (\<forall>s. (prefix ''<path d="M '' (render (fst (renderLifeline p config s)))
                 \<or> prefix ''<line x1="'' (render (fst (renderLifeline p config s))))
                \<and> sublist ''stroke-dasharray="6,4"'' (render (fst (renderLifeline p config s))))
          \<and> (\<forall>y i s.
                (prefix ''<path d="M '' (render (fst (renderParticipantBox p y config i s)))
                 \<or> prefix ''<rect x="'' (render (fst (renderParticipantBox p y config i s))))
                \<and> (\<forall>line \<in> set (if 20 < length (sp_label p)
                                     then wrapText (sp_label p) 18 else [sp_label p]).
                      sublist (escapeXml line)
                        (render (fst (renderParticipantBox p y config i s)))))
          \<and> (\<exists>s. sublist (render (fst (renderLifeline p (getThemeConfig theme) s)))
                    (fst (renderSequenceDiagram layout theme title seed0)))
          \<and> (\<exists>i s. sublist
                      (render (fst (renderParticipantBox p (sp_topY p) (getThemeConfig theme) i s)))
                      (fst (renderSequenceDiagram layout theme title seed0)))
          \<and> (\<exists>i s. sublist
                      (render (fst (renderParticipantBox p (sp_bottomY p) (getThemeConfig theme)
                                      i s)))
                      (fst (renderSequenceDiagram layout theme title seed0))))\<close>
proof (intro conjI ballI impI allI)
  let ?byId = "participantsByIdOf (sl_participants layout)"
  let ?doc = "fst (renderSequenceDiagram layout theme title seed0)"
  let ?parts = "fst (sequenceContentParts layout (getThemeConfig theme) 42)"
  show "renderMessage m ?byId config seed = ([], seed)"
    using dangling msgs by (rule sequenceContentParts_dangling(1))
  show "sequenceContentParts layout config seed =
        (let (parts, seed') =
               sequenceContentParts (layout\<lparr> sl_messages := before @ after \<rparr>) config seed;
             k = length (sl_participants layout) + length before
         in (take k parts @ [[]] @ drop k parts, seed'))"
    using dangling msgs by (rule sequenceContentParts_dangling(2))
  show "renderSequenceDiagram layout theme title seed0 =
        (let (parts, seed') =
               sequenceContentParts (layout\<lparr> sl_messages := before @ after \<rparr>)
                 (getThemeConfig theme) 42;
             k = length (sl_participants layout) + length before
         in (render (assembleSvg (sl_width layout) (sl_height layout) title (getThemeConfig theme)
                       (take k parts @ [[]] @ drop k parts)),
             seed'))"
    using dangling msgs by (rule renderSequenceDiagram_dangling)
next
  fix msg :: SequenceMessage and s
  assume "sm_from msg \<in> sp_id ` set (sl_participants layout)"
    and "sm_to msg \<in> sp_id ` set (sl_participants layout)"
  then obtain fromP toP where
    ps: "participantsByIdOf (sl_participants layout) (sm_from msg) = Some fromP"
      "participantsByIdOf (sl_participants layout) (sm_to msg) = Some toP"
    using participantsByIdOf_Some by blast
  let ?r = "render (fst (renderMessage msg (participantsByIdOf (sl_participants layout)) config s))"
  show \<open>prefix ''<g class="message">'' ?r\<close>
    using ps by (rule renderMessage_drawn(1))
  show \<open>suffix ''</g>'' ?r\<close>
    using ps by (rule renderMessage_drawn(2))
  show \<open>sublist ''<polygon points="'' ?r\<close>
    using ps by (rule renderMessage_drawn(3))
  show \<open>sublist ''<path d="M '' ?r \<or> sublist ''<line x1="'' ?r\<close>
    using ps by (rule renderMessage_drawn(4))
  fix line
  assume "line \<in> set (if 20 < length (sm_label msg) then wrapText (sm_label msg) 18
                        else [sm_label msg])"
  with ps show "sublist (escapeXml line) ?r"
    by (rule renderMessage_drawn(5))
next
  fix msg :: SequenceMessage
  assume "msg \<in> set (sl_messages layout)"
  then obtain s where "fst (renderMessage msg (participantsByIdOf (sl_participants layout))
        (getThemeConfig theme) s)
      \<in> set (fst (sequenceContentParts layout (getThemeConfig theme) 42))"
    using sequenceContentParts_has_message by blast
  then have "sublist (render (fst (renderMessage msg (participantsByIdOf (sl_participants layout))
        (getThemeConfig theme) s))) (fst (renderSequenceDiagram layout theme title seed0))"
    by (rule renderSequenceDiagram_has_part)
  then show "\<exists>s. sublist (render (fst (renderMessage msg
        (participantsByIdOf (sl_participants layout)) (getThemeConfig theme) s)))
      (fst (renderSequenceDiagram layout theme title seed0))" ..
next
  fix p s
  show \<open>prefix ''<path d="M '' (render (fst (renderLifeline p config s)))
      \<or> prefix ''<line x1="'' (render (fst (renderLifeline p config s)))\<close>
    by (rule renderLifeline_drawn(1))
  show \<open>sublist ''stroke-dasharray="6,4"'' (render (fst (renderLifeline p config s)))\<close>
    by (rule renderLifeline_drawn(2))
next
  fix p y i s
  show \<open>prefix ''<path d="M '' (render (fst (renderParticipantBox p y config i s)))
      \<or> prefix ''<rect x="'' (render (fst (renderParticipantBox p y config i s)))\<close>
    by (rule renderParticipantBox_drawn(1))
  fix line
  assume "line \<in> set (if 20 < length (sp_label p) then wrapText (sp_label p) 18
                        else [sp_label p])"
  then show "sublist (escapeXml line) (render (fst (renderParticipantBox p y config i s)))"
    by (rule renderParticipantBox_drawn(2))
next
  fix p
  assume p: "p \<in> set (sl_participants layout)"
  then obtain s where "fst (renderLifeline p (getThemeConfig theme) s)
      \<in> set (fst (sequenceContentParts layout (getThemeConfig theme) 42))"
    using sequenceContentParts_has_lifeline by blast
  then have "sublist (render (fst (renderLifeline p (getThemeConfig theme) s)))
      (fst (renderSequenceDiagram layout theme title seed0))"
    by (rule renderSequenceDiagram_has_part)
  then show "\<exists>s. sublist (render (fst (renderLifeline p (getThemeConfig theme) s)))
      (fst (renderSequenceDiagram layout theme title seed0))" ..
  from p obtain i s where "fst (renderParticipantBox p (sp_topY p) (getThemeConfig theme) i s)
      \<in> set (fst (sequenceContentParts layout (getThemeConfig theme) 42))"
    using sequenceContentParts_has_boxes(1) by blast
  then have "sublist (render (fst (renderParticipantBox p (sp_topY p) (getThemeConfig theme) i s)))
      (fst (renderSequenceDiagram layout theme title seed0))"
    by (rule renderSequenceDiagram_has_part)
  then show "\<exists>i s. sublist
      (render (fst (renderParticipantBox p (sp_topY p) (getThemeConfig theme) i s)))
      (fst (renderSequenceDiagram layout theme title seed0))"
    by blast
  from p obtain i s where "fst (renderParticipantBox p (sp_bottomY p) (getThemeConfig theme) i s)
      \<in> set (fst (sequenceContentParts layout (getThemeConfig theme) 42))"
    using sequenceContentParts_has_boxes(2) by blast
  then have "sublist
      (render (fst (renderParticipantBox p (sp_bottomY p) (getThemeConfig theme) i s)))
      (fst (renderSequenceDiagram layout theme title seed0))"
    by (rule renderSequenceDiagram_has_part)
  then show "\<exists>i s. sublist
      (render (fst (renderParticipantBox p (sp_bottomY p) (getThemeConfig theme) i s)))
      (fst (renderSequenceDiagram layout theme title seed0))"
    by blast
qed

theorem C8_dangling_message_skipped_witness:
  "sm_to (sl_messages exampleSequenceLayout ! 1)
     \<notin> sp_id ` set (sl_participants exampleSequenceLayout)
   \<and> renderMessage (sl_messages exampleSequenceLayout ! 1)
        (participantsByIdOf (sl_participants exampleSequenceLayout)) (getThemeConfig HandDrawn) 42
      = ([], 42)
   \<and> sublist ''request'' (fst (renderSequenceDiagram exampleSequenceLayout HandDrawn None 42))
   \<and> sublist ''response'' (fst (renderSequenceDiagram exampleSequenceLayout HandDrawn None 42))
   \<and> sublist ''Client'' (fst (renderSequenceDiagram exampleSequenceLayout HandDrawn None 42))
   \<and> sublist ''Server'' (fst (renderSequenceDiagram exampleSequenceLayout HandDrawn None 42))"
proof -
  let ?L = exampleSequenceLayout
  let ?m = "sl_messages ?L ! 1"
  let ?byId = "participantsByIdOf (sl_participants ?L)"
  let ?config = "getThemeConfig HandDrawn"
  let ?doc = "fst (renderSequenceDiagram ?L HandDrawn None 42)"
  have t: "sm_to ?m \<notin> sp_id ` set (sl_participants ?L)"
    by (simp add: exampleSequenceLayout_def)
  then have d: "sm_from ?m \<notin> sp_id ` set (sl_participants ?L)
      \<or> sm_to ?m \<notin> sp_id ` set (sl_participants ?L)"
    by (rule disjI2)
  have ms: "sl_messages ?L = [sl_messages ?L ! 0] @ [?m] @ [sl_messages ?L ! 2]"
    by (simp add: exampleSequenceLayout_def)
  note inst = C8_dangling_message_skipped [OF d ms, of ?config 42 HandDrawn None 42]
  have r: "renderMessage ?m ?byId ?config 42 = ([], 42)"
    by (rule conjunct1 [OF inst])
  have msgs: "\<forall>msg \<in> set (sl_messages ?L).
      sm_from msg \<in> sp_id ` set (sl_participants ?L)
      \<longrightarrow> sm_to msg \<in> sp_id ` set (sl_participants ?L)
      \<longrightarrow> (\<forall>s. \<forall>line \<in> set (if 20 < length (sm_label msg)
                                   then wrapText (sm_label msg) 18 else [sm_label msg]).
                 sublist (escapeXml line) (render (fst (renderMessage msg ?byId ?config s))))
          \<and> (\<exists>s. sublist (render (fst (renderMessage msg ?byId ?config s))) ?doc)"
    using inst by blast
  have parts: "\<forall>p \<in> set (sl_participants ?L).
      (\<forall>y i s. \<forall>line \<in> set (if 20 < length (sp_label p)
                                  then wrapText (sp_label p) 18 else [sp_label p]).
           sublist (escapeXml line) (render (fst (renderParticipantBox p y ?config i s))))
      \<and> (\<exists>i s. sublist (render (fst (renderParticipantBox p (sp_topY p) ?config i s))) ?doc)"
    using inst by blast
  have msg_label: "sublist (escapeXml (sm_label msg)) ?doc"
    if "msg \<in> set (sl_messages ?L)" "sm_from msg \<in> sp_id ` set (sl_participants ?L)"
      "sm_to msg \<in> sp_id ` set (sl_participants ?L)" "length (sm_label msg) \<le> 20" for msg
  proof -
    from msgs that obtain s where
      "sublist (render (fst (renderMessage msg ?byId ?config s))) ?doc"
      by blast
    moreover from msgs that have
      "sublist (escapeXml (sm_label msg)) (render (fst (renderMessage msg ?byId ?config s)))"
      by simp
    ultimately show ?thesis
      by (rule sublist_order.order_trans [rotated])
  qed
  have box_label: "sublist (escapeXml (sp_label p)) ?doc"
    if "p \<in> set (sl_participants ?L)" "length (sp_label p) \<le> 20" for p
  proof -
    from parts that obtain i s where
      "sublist (render (fst (renderParticipantBox p (sp_topY p) ?config i s))) ?doc"
      by blast
    moreover from parts that have
      "sublist (escapeXml (sp_label p))
         (render (fst (renderParticipantBox p (sp_topY p) ?config i s)))"
      by simp
    ultimately show ?thesis
      by (rule sublist_order.order_trans [rotated])
  qed
  have e: "escapeXml ''request'' = ''request''" "escapeXml ''response'' = ''response''"
    "escapeXml ''Client'' = ''Client''" "escapeXml ''Server'' = ''Server''"
    by code_simp+
  have "sublist (escapeXml (sm_label (sl_messages ?L ! 0))) ?doc"
    by (rule msg_label) (simp_all add: exampleSequenceLayout_def)
  then have m0: "sublist ''request'' ?doc"
    by (simp add: exampleSequenceLayout_def e)
  have "sublist (escapeXml (sm_label (sl_messages ?L ! 2))) ?doc"
    by (rule msg_label) (simp_all add: exampleSequenceLayout_def)
  then have m2: "sublist ''response'' ?doc"
    by (simp add: exampleSequenceLayout_def e)
  have "sublist (escapeXml (sp_label (sl_participants ?L ! 0))) ?doc"
    by (rule box_label) (simp_all add: exampleSequenceLayout_def)
  then have p0: "sublist ''Client'' ?doc"
    by (simp add: exampleSequenceLayout_def e)
  have "sublist (escapeXml (sp_label (sl_participants ?L ! 1))) ?doc"
    by (rule box_label) (simp_all add: exampleSequenceLayout_def)
  then have p1: "sublist ''Server'' ?doc"
    by (simp add: exampleSequenceLayout_def e)
  from t r m0 m2 p0 p1 show ?thesis
    by (intro conjI)
qed

end
